theory Spec2Isabelle
  imports Main "HOL-Library.Word"
begin

section \<open>Sentinel Index Vault: the contract of assembly/contracts/main.ts\<close>

text \<open>
  The contract is an AssemblyScript program running on the Massa chain. Its integers are
  \<open>u64\<close> (WebAssembly \<open>i64\<close> arithmetic: \<open>+\<close>, \<open>-\<close> and \<open>*\<close> wrap around, \<open>/\<close> is
  unsigned division) and \<open>u256\<close> for token amounts. Its persistent state is the host's
  datastore, a map from string keys to string values: numbers are written as decimal text
  (\<open>toString\<close>) and parsed again on every read (\<open>U64.parseInt\<close>), and flags are read by
  key presence (\<open>Storage.has\<close>). An \<open>assert\<close> that fails, a \<open>Storage.get\<close> of an absent
  key and a failing call into another contract abort the whole call, which the host rolls
  back: such a call is the value \<open>Inl error\<close> here, and its caller keeps the old state.
\<close>

type_synonym u64 = "64 word"
type_synonym u256 = "256 word"

subsection \<open>Decimal text\<close>

definition digit_char :: "nat \<Rightarrow> char" where
  "digit_char d = ''0123456789'' ! d"

fun nat_to_string :: "nat \<Rightarrow> string" where
  "nat_to_string n =
     (if n < 10 then [digit_char n] else nat_to_string (n div 10) @ [digit_char (n mod 10)])"

declare nat_to_string.simps [simp del]

definition u64_to_string :: "u64 \<Rightarrow> string" where
  "u64_to_string x = nat_to_string (unat x)"

definition u256_to_string :: "u256 \<Rightarrow> string" where
  "u256_to_string x = nat_to_string (unat x)"

definition is_digit :: "char \<Rightarrow> bool" where
  "is_digit ch = (48 \<le> (of_char ch :: nat) \<and> (of_char ch :: nat) \<le> 57)"

definition digit_val :: "char \<Rightarrow> nat" where
  "digit_val ch = of_char ch - 48"

text \<open>
  \<open>U64.parseInt\<close> (AssemblyScript's \<open>strtol\<close>) reads the leading decimal digits and
  accumulates \<open>num = num * 10 + digit\<close> in \<open>u64\<close>, so a value past \<open>2^64 - 1\<close> wraps;
  a text with no leading digit gives 0. Signs, blanks and radix prefixes, which no text
  the contract stores has, are not modelled.
\<close>

definition parse_u64 :: "string \<Rightarrow> u64" where
  "parse_u64 s = foldl (\<lambda>acc ch. acc * 10 + of_nat (digit_val ch)) 0 (takeWhile is_digit s)"

text \<open>\<open>String.split(',')\<close>: the pieces between commas (one piece for a text with no comma).\<close>

fun split_comma :: "string \<Rightarrow> string list" where
  "split_comma [] = [[]]"
| "split_comma (ch # cs) =
     (if ch = CHR '','' then [] # split_comma cs
      else (case split_comma cs of [] \<Rightarrow> [[ch]] | p # ps \<Rightarrow> (ch # p) # ps))"

subsection \<open>Errors, events, the datastore\<close>

datatype error =
    Abort string           \<comment> \<open>a failed \<open>assert\<close>, with its message\<close>
  | MissingKey string      \<comment> \<open>\<open>Storage.get\<close> of a key that is not set\<close>
  | IndexOutOfRange        \<comment> \<open>an array read past its length\<close>
  | CallFailed string      \<comment> \<open>a call into another contract that aborts\<close>
  | OutOfGas               \<comment> \<open>the nested self-calls used up the call's gas\<close>

text \<open>
  An event is a line \<open>Tag:{"key":value,...}\<close>; it is kept as its tag and its key/value
  payload, the values as the text the source interpolates.
\<close>

datatype event = Ev string "(string \<times> string) list"

type_synonym storage = "string \<rightharpoonup> string"

definition Storage_has :: "storage \<Rightarrow> string \<Rightarrow> bool" where
  "Storage_has st k = (st k \<noteq> None)"

definition Storage_get :: "storage \<Rightarrow> string \<Rightarrow> error + string" where
  "Storage_get st k = (case st k of None \<Rightarrow> Inl (MissingKey k) | Some v \<Rightarrow> Inr v)"

text \<open>The idiom \<open>Storage.has(k) ? Storage.get(k) : d\<close>.\<close>

definition Storage_get_or :: "storage \<Rightarrow> string \<Rightarrow> string \<Rightarrow> string" where
  "Storage_get_or st k d = (if Storage_has st k then the (st k) else d)"

definition Storage_set :: "storage \<Rightarrow> string \<Rightarrow> string \<Rightarrow> storage" where
  "Storage_set st k v = st(k \<mapsto> v)"

text \<open>\<open>Storage.del\<close> of a key that is not set aborts, as \<open>Storage.get\<close> does.\<close>

definition Storage_del :: "storage \<Rightarrow> string \<Rightarrow> error + storage" where
  "Storage_del st k = (if Storage_has st k then Inr (st(k := None)) else Inl (MissingKey k))"

subsection \<open>Storage keys and constants\<close>

definition OWNER_KEY :: string where "OWNER_KEY = ''owner''"
definition NAME_KEY :: string where "NAME_KEY = ''name''"
definition SYMBOL_KEY :: string where "SYMBOL_KEY = ''symbol''"
definition TARGETS_BPS_KEY :: string where "TARGETS_BPS_KEY = ''targets_bps''"
definition MAX_DRIFT_BPS_KEY :: string where "MAX_DRIFT_BPS_KEY = ''max_drift_bps''"
definition REBALANCE_EPOCH_SECONDS_KEY :: string where
  "REBALANCE_EPOCH_SECONDS_KEY = ''rebalance_epoch_seconds''"
definition MIN_DEPOSIT_USDC_KEY :: string where "MIN_DEPOSIT_USDC_KEY = ''min_deposit_usdc''"
definition MIN_SLICE_VALUE_KEY :: string where "MIN_SLICE_VALUE_KEY = ''min_slice_value''"
definition TOTAL_SHARES_KEY :: string where "TOTAL_SHARES_KEY = ''total_shares''"
definition GUARD_ARMED_KEY :: string where "GUARD_ARMED_KEY = ''guard_armed''"
definition LAST_REBALANCE_KEY :: string where "LAST_REBALANCE_KEY = ''last_rebalance''"
definition PAUSED_KEY :: string where "PAUSED_KEY = ''paused''"
definition REENTRANCY_GUARD_KEY :: string where "REENTRANCY_GUARD_KEY = ''reentrancy_guard''"
definition DEFERRED_CALL_ID_KEY :: string where "DEFERRED_CALL_ID_KEY = ''deferred_call_id''"
definition NEXT_REBALANCE_TIMESTAMP_KEY :: string where
  "NEXT_REBALANCE_TIMESTAMP_KEY = ''next_rebalance_timestamp''"
definition REBALANCE_COUNT_KEY :: string where "REBALANCE_COUNT_KEY = ''rebalance_count''"
definition LAST_REBALANCE_STATUS_KEY :: string where
  "LAST_REBALANCE_STATUS_KEY = ''last_rebalance_status''"
definition LAST_ERROR_KEY :: string where "LAST_ERROR_KEY = ''last_error''"
definition DEFERRED_CALL_ACTIVE_KEY :: string where
  "DEFERRED_CALL_ACTIVE_KEY = ''deferred_call_active''"
definition USDCE_KEY :: string where "USDCE_KEY = ''usdce_address''"
definition WMAS_KEY :: string where "WMAS_KEY = ''wmas_address''"
definition WETHB_KEY :: string where "WETHB_KEY = ''wethb_address''"
definition DUSA_ROUTER_KEY :: string where "DUSA_ROUTER_KEY = ''dusa_router''"
definition EAGLEFI_ROUTER_KEY :: string where "EAGLEFI_ROUTER_KEY = ''eaglefi_router''"
definition AUTONOMOUS_MODE_ENABLED :: string where
  "AUTONOMOUS_MODE_ENABLED = ''AUTONOMOUS_MODE_ENABLED''"
definition AUTON_SCHEDULED :: string where "AUTON_SCHEDULED = ''auton_scheduled''"

lemmas key_defs =
  OWNER_KEY_def NAME_KEY_def SYMBOL_KEY_def TARGETS_BPS_KEY_def MAX_DRIFT_BPS_KEY_def
  REBALANCE_EPOCH_SECONDS_KEY_def MIN_DEPOSIT_USDC_KEY_def MIN_SLICE_VALUE_KEY_def
  TOTAL_SHARES_KEY_def GUARD_ARMED_KEY_def LAST_REBALANCE_KEY_def PAUSED_KEY_def
  REENTRANCY_GUARD_KEY_def DEFERRED_CALL_ID_KEY_def NEXT_REBALANCE_TIMESTAMP_KEY_def
  REBALANCE_COUNT_KEY_def LAST_REBALANCE_STATUS_KEY_def LAST_ERROR_KEY_def
  DEFERRED_CALL_ACTIVE_KEY_def USDCE_KEY_def WMAS_KEY_def WETHB_KEY_def DUSA_ROUTER_KEY_def
  EAGLEFI_ROUTER_KEY_def AUTONOMOUS_MODE_ENABLED_def AUTON_SCHEDULED_def

definition userSharesKey :: "string \<Rightarrow> string" where
  "userSharesKey address = ''shares:'' @ address"

definition MIN_GAS_BANK_BALANCE :: u64 where "MIN_GAS_BANK_BALANCE = 2000000000"
definition LOW_GAS_WARNING :: u64 where "LOW_GAS_WARNING = 5000000000"

definition WMAS_ADDRESS :: string where
  "WMAS_ADDRESS = ''AS12U4TZfNK7qoLyEERBBRDMu8nm5MKoRzPXDXans4v9wdATZedz9''"
definition WETH_ADDRESS :: string where
  "WETH_ADDRESS = ''AS124vf3YfAJCSCQVYKczzuWWpXrximFpbTmX4rheLs5uNSftiiRY''"
definition USDC_ADDRESS :: string where
  "USDC_ADDRESS = ''AS1hCJXjndR4c9vekLWsXGnrdigp4AaZ7uYG3UKFzzKnWVsrNLPJ''"
definition DUSA_ROUTER :: string where
  "DUSA_ROUTER = ''AS1gUwVGA3A5Dnmev8c2BjBR2wC8y9hb7CFZXVzLb1iwASFHUZ1p''"
definition DUSA_FACTORY :: string where
  "DUSA_FACTORY = ''AS127Lxdux4HCUkZL89SrRYR5kq2u8t64Jt3aYj786t6fBF1cZGcu''"

definition BIN_STEP_USDC_WMAS :: u64 where "BIN_STEP_USDC_WMAS = 20"
definition BIN_STEP_WMAS_WETH :: u64 where "BIN_STEP_WMAS_WETH = 15"
definition STORAGE_FEE_PER_SWAP :: u64 where "STORAGE_FEE_PER_SWAP = 10000000"
definition SWAP_DEADLINE_BUFFER :: u64 where "SWAP_DEADLINE_BUFFER = 600000"

subsection \<open>The host and the other contracts\<close>

text \<open>
  Everything outside the vault's datastore (the token ledgers, the router's pools, the
  vault's own coin balance, the registry of deferred calls) is a state of type \<open>'w\<close>.
  What the other contracts and the host do with it is not in this repository: their
  entry points are the fields of a record, and every theorem about the vault holds for
  whatever they are. \<open>None\<close> is a call that aborts. The other contracts do not call back
  into the vault: only the vault's own nested call of \<open>rebalance\<close> does.
\<close>

record slot =
  period :: u64
  thread :: "8 word"

record swap_args =
  amountInArg :: u256
  amountOutMinArg :: u256
  pairBinSteps :: "u64 list"
  isLegacyPools :: "bool list"
  tokenPath :: "string list"
  recipient :: string
  deadline :: u64

record 'w host =
  balanceOf :: "'w \<Rightarrow> string \<Rightarrow> string \<Rightarrow> u256"
    \<comment> \<open>token, account\<close>
  transferFrom :: "'w \<Rightarrow> string \<Rightarrow> string \<Rightarrow> string \<Rightarrow> string \<Rightarrow> u256 \<Rightarrow> 'w option"
    \<comment> \<open>token, spender (the vault), from, to, amount\<close>
  transfer :: "'w \<Rightarrow> string \<Rightarrow> string \<Rightarrow> string \<Rightarrow> u256 \<Rightarrow> 'w option"
    \<comment> \<open>token, sender (the vault), to, amount\<close>
  increaseAllowance :: "'w \<Rightarrow> string \<Rightarrow> string \<Rightarrow> string \<Rightarrow> u256 \<Rightarrow> 'w option"
    \<comment> \<open>token, owner (the vault), spender, amount\<close>
  swapExactTokensForTokens :: "'w \<Rightarrow> string \<Rightarrow> swap_args \<Rightarrow> u64 \<Rightarrow> ('w \<times> u256) option"
    \<comment> \<open>caller (the vault), arguments, coins sent; returns the amount out\<close>
  getAvailableLBPairBinSteps :: "'w \<Rightarrow> string \<Rightarrow> string \<Rightarrow> u64 list option"
  coin_balance :: "'w \<Rightarrow> string \<Rightarrow> u64"
    \<comment> \<open>\<open>balance()\<close> of an address\<close>
  findCheapestSlot :: "'w \<Rightarrow> u64 \<Rightarrow> u64 \<Rightarrow> u64 \<Rightarrow> u64 \<Rightarrow> slot"
  deferredCallQuote :: "'w \<Rightarrow> slot \<Rightarrow> u64 \<Rightarrow> u64 \<Rightarrow> u64"
  deferredCallRegister :: "'w \<Rightarrow> string \<Rightarrow> string \<Rightarrow> slot \<Rightarrow> u64 \<Rightarrow> u64 \<Rightarrow> ('w \<times> string) option"
    \<comment> \<open>target address, target function, slot, max gas, coins; returns the call's id\<close>

text \<open>The \<open>Context\<close> of one call.\<close>

record call_ctx =
  caller :: string
  callee :: string
  timestamp :: u64
  currentPeriod :: u64
  transferredCoins :: u64
  isDeployingContract :: bool

record 'w vault =
  store :: storage
  events :: "event list"
  world :: "'w"

definition generateEvent :: "'w vault \<Rightarrow> event \<Rightarrow> 'w vault" where
  "generateEvent s e = s\<lparr>events := events s @ [e]\<rparr>"

definition set_key :: "'w vault \<Rightarrow> string \<Rightarrow> string \<Rightarrow> 'w vault" where
  "set_key s k v = s\<lparr>store := Storage_set (store s) k v\<rparr>"

definition del_key :: "'w vault \<Rightarrow> string \<Rightarrow> error + 'w vault" where
  "del_key s k =
     (case Storage_del (store s) k of Inl e \<Rightarrow> Inl e | Inr st \<Rightarrow> Inr (s\<lparr>store := st\<rparr>))"

definition balance :: "'w host \<Rightarrow> call_ctx \<Rightarrow> 'w vault \<Rightarrow> u64" where
  "balance h c s = coin_balance h (world s) (callee c)"

definition bool_text :: "bool \<Rightarrow> string" where
  "bool_text b = (if b then ''true'' else ''false'')"


subsection \<open>Sequencing calls that may abort\<close>

definition bindR :: "error + 'a \<Rightarrow> ('a \<Rightarrow> error + 'b) \<Rightarrow> error + 'b" where
  "bindR m f = (case m of Inl e \<Rightarrow> Inl e | Inr x \<Rightarrow> f x)"

definition assertR :: "bool \<Rightarrow> string \<Rightarrow> error + unit" where
  "assertR b msg = (if b then Inr () else Inl (Abort msg))"

definition callR :: "string \<Rightarrow> 'a option \<Rightarrow> error + 'a" where
  "callR name r = (case r of None \<Rightarrow> Inl (CallFailed name) | Some x \<Rightarrow> Inr x)"

subsection \<open>Token helpers\<close>

text \<open>\<open>u256.toU64()\<close> keeps the low 64 bits.\<close>

definition getTokenBalance :: "'w host \<Rightarrow> call_ctx \<Rightarrow> 'w \<Rightarrow> string \<Rightarrow> u64" where
  "getTokenBalance h c w tokenAddress = ucast (balanceOf h w tokenAddress (callee c))"

definition getTokenBalanceString :: "'w host \<Rightarrow> call_ctx \<Rightarrow> 'w \<Rightarrow> string \<Rightarrow> string" where
  "getTokenBalanceString h c w tokenAddress =
     u256_to_string (balanceOf h w tokenAddress (callee c))"

definition approveToken :: "'w host \<Rightarrow> call_ctx \<Rightarrow> 'w \<Rightarrow> string \<Rightarrow> u64 \<Rightarrow> error + 'w" where
  "approveToken h c w tokenAddress amount =
     callR ''increaseAllowance''
       (increaseAllowance h w tokenAddress (callee c) DUSA_ROUTER (ucast amount))"

definition transferTokenToUser ::
  "'w host \<Rightarrow> call_ctx \<Rightarrow> 'w vault \<Rightarrow> string \<Rightarrow> string \<Rightarrow> u64 \<Rightarrow> error + 'w vault" where
  "transferTokenToUser h c s tokenAddress userAddress amount =
     (if amount = 0 then Inr s
      else bindR (callR ''transfer''
                    (transfer h (world s) tokenAddress (callee c) userAddress (ucast amount)))
             (\<lambda>w. Inr (s\<lparr>world := w\<rparr>)))"

subsection \<open>Swaps through the router\<close>

text \<open>
  Both swap helpers read the destination balance again after the router call, but the
  source's \<open>assert(balanceAfter > balanceBefore, ...)\<close> is commented out ("DISABLED FOR
  DEBUGGING"): the two readings only go into the event.
\<close>

definition executeTestSwap ::
  "'w host \<Rightarrow> call_ctx \<Rightarrow> 'w vault \<Rightarrow> string \<Rightarrow> string \<Rightarrow> u64 \<Rightarrow> u64 \<Rightarrow> error + ('w vault \<times> u256)"
  where
  "executeTestSwap h c s tokenIn tokenOut amountIn minAmountOut =
     (let balanceBefore = getTokenBalance h c (world s) tokenOut in
      bindR (approveToken h c (world s) tokenIn amountIn) (\<lambda>w1.
      let binStep = (if tokenIn = WMAS_ADDRESS \<and> tokenOut = WETH_ADDRESS
                     then BIN_STEP_WMAS_WETH else BIN_STEP_USDC_WMAS);
          args = \<lparr>amountInArg = ucast amountIn, amountOutMinArg = ucast minAmountOut,
                  pairBinSteps = [binStep], isLegacyPools = [False],
                  tokenPath = [tokenIn, tokenOut], recipient = callee c,
                  deadline = timestamp c + SWAP_DEADLINE_BUFFER\<rparr>
      in
      bindR (callR ''swapExactTokensForTokens''
               (swapExactTokensForTokens h w1 (callee c) args STORAGE_FEE_PER_SWAP))
        (\<lambda>(w2, amountOut).
      let balanceAfter = getTokenBalance h c w2 tokenOut in
      Inr (generateEvent (s\<lparr>world := w2\<rparr>)
             (Ev ''SwapExecuted''
                [(''tokenIn'', tokenIn), (''tokenOut'', tokenOut),
                 (''amountIn'', u64_to_string amountIn),
                 (''amountOut'', u256_to_string amountOut),
                 (''balanceBefore'', u64_to_string balanceBefore),
                 (''balanceAfter'', u64_to_string balanceAfter)]),
           amountOut))))"

definition executeMultiHopSwap ::
  "'w host \<Rightarrow> call_ctx \<Rightarrow> 'w vault \<Rightarrow> u64 \<Rightarrow> u64 \<Rightarrow> error + ('w vault \<times> u256)" where
  "executeMultiHopSwap h c s amountIn minAmountOut =
     (let balanceBefore = getTokenBalance h c (world s) WETH_ADDRESS in
      bindR (approveToken h c (world s) USDC_ADDRESS amountIn) (\<lambda>w1.
      let args = \<lparr>amountInArg = ucast amountIn, amountOutMinArg = ucast minAmountOut,
                  pairBinSteps = [BIN_STEP_USDC_WMAS, BIN_STEP_WMAS_WETH],
                  isLegacyPools = [False, False],
                  tokenPath = [USDC_ADDRESS, WMAS_ADDRESS, WETH_ADDRESS],
                  recipient = callee c,
                  deadline = timestamp c + SWAP_DEADLINE_BUFFER\<rparr>
      in
      bindR (callR ''swapExactTokensForTokens''
               (swapExactTokensForTokens h w1 (callee c) args STORAGE_FEE_PER_SWAP))
        (\<lambda>(w2, amountOut).
      let balanceAfter = getTokenBalance h c w2 WETH_ADDRESS in
      Inr (generateEvent (s\<lparr>world := w2\<rparr>)
             (Ev ''MultiHopSwapExecuted''
                [(''amountIn'', u64_to_string amountIn),
                 (''amountOut'', u256_to_string amountOut),
                 (''balanceBefore'', u64_to_string balanceBefore),
                 (''balanceAfter'', u64_to_string balanceAfter)]),
           amountOut))))"

subsection \<open>Rebalancing\<close>

text \<open>
  \<open>scheduleNextRebalance\<close> calls the vault's own entry point \<open>rebalance\<close> (a nested,
  synchronous call whose caller is the vault itself); \<open>rebalance\<close> runs
  \<open>executeRebalanceInternal\<close>, which calls \<open>scheduleNextRebalance\<close> again. The nested
  call is the parameter \<open>self\<close> of the two inner functions, and \<open>rebalance\<close> ties the knot
  by recursion on the gas left for nested calls: with none left the call aborts.
\<close>

definition scheduleNextRebalance ::
  "(call_ctx \<Rightarrow> 'w vault \<Rightarrow> error + 'w vault) \<Rightarrow> 'w host \<Rightarrow> call_ctx \<Rightarrow> 'w vault
     \<Rightarrow> error + 'w vault" where
  "scheduleNextRebalance self h c s =
     (let gasBankBalance = balance h c s in
      if gasBankBalance > 100000000 then
        bindR (self (c\<lparr>caller := callee c, transferredCoins := 50000000\<rparr>) s)
          (\<lambda>s1. Inr (set_key s1 AUTON_SCHEDULED ''true''))
      else Inr (set_key s AUTON_SCHEDULED ''false''))"

text \<open>Reading element \<open>i\<close> of the split targets text; past the end the runtime aborts.\<close>

definition part_at :: "string list \<Rightarrow> nat \<Rightarrow> error + string" where
  "part_at ps i = (if i < length ps then Inr (ps ! i) else Inl IndexOutOfRange)"

text \<open>
  The swap planner of step 6, for one under-target asset: the amount of USDC to swap,
  or \<open>None\<close> when the leg is skipped. \<open>currentBps\<close>, \<open>targetBps\<close>, \<open>targetValue\<close> and
  \<open>valueUSDC\<close> are the asset's, \<open>usdcBalance\<close> is the balance read at the start of the
  rebalance. The source writes the same lines twice, for WMAS and for WETH.
\<close>

definition swapAmountFor :: "u64 \<Rightarrow> u64 \<Rightarrow> u64" where
  "swapAmountFor deficitValue usdcBalance =
     (if deficitValue > usdcBalance then usdcBalance div 2 else deficitValue)"

definition planLeg :: "u64 \<Rightarrow> u64 \<Rightarrow> u64 \<Rightarrow> u64 \<Rightarrow> u64 \<Rightarrow> u64 option" where
  "planLeg currentBps targetBps targetValue valueUSDC usdcBalance =
     (if currentBps < targetBps - 100 then
        (let deficitValue = targetValue - valueUSDC;
             swapAmount = swapAmountFor deficitValue usdcBalance
         in if swapAmount \<ge> 10000 \<and> usdcBalance \<ge> swapAmount then Some swapAmount else None)
      else None)"

definition abs_diff :: "u64 \<Rightarrow> u64 \<Rightarrow> u64" where
  "abs_diff a b = (if a > b then a - b else b - a)"

definition max3 :: "u64 \<Rightarrow> u64 \<Rightarrow> u64 \<Rightarrow> u64" where
  "max3 a b c = (if a > b then (if a > c then a else c) else (if b > c then b else c))"

text \<open>The first line of \<open>executeRebalanceInternal\<close>: the time of the attempt is stored.\<close>

definition stamped :: "call_ctx \<Rightarrow> 'w vault \<Rightarrow> 'w vault" where
  "stamped c s = set_key s LAST_REBALANCE_KEY (u64_to_string (timestamp c))"

text \<open>Step 6 of \<open>executeRebalanceInternal\<close>: the two swap legs, counting the swaps.\<close>

definition executeSwapLegs ::
  "'w host \<Rightarrow> call_ctx \<Rightarrow> 'w vault \<Rightarrow> u64 option \<Rightarrow> u64 option \<Rightarrow> error + ('w vault \<times> u64)"
  where
  "executeSwapLegs h c s wmasLeg wethLeg =
     bindR (case wmasLeg of
              None \<Rightarrow> Inr (s, 0)
            | Some swapAmount \<Rightarrow>
                bindR (executeTestSwap h c s USDC_ADDRESS WMAS_ADDRESS swapAmount 1)
                  (\<lambda>(s1, amountOut). Inr (s1, if amountOut \<noteq> 0 then 1 else 0)))
       (\<lambda>(s1, swapCount).
     case wethLeg of
       None \<Rightarrow> Inr (s1, swapCount)
     | Some swapAmount \<Rightarrow>
         bindR (executeMultiHopSwap h c s1 swapAmount 1)
           (\<lambda>(s2, amountOut). Inr (s2, if amountOut \<noteq> 0 then swapCount + 1 else swapCount)))"

definition executeRebalanceInternal ::
  "(call_ctx \<Rightarrow> 'w vault \<Rightarrow> error + 'w vault) \<Rightarrow> 'w host \<Rightarrow> call_ctx \<Rightarrow> 'w vault
     \<Rightarrow> error + 'w vault" where
  "executeRebalanceInternal self h c s0 =
     (let s = stamped c s0;
          wmasBalance = parse_u64 (getTokenBalanceString h c (world s) WMAS_ADDRESS);
          wethBalance = parse_u64 (getTokenBalanceString h c (world s) WETH_ADDRESS);
          usdcBalance = parse_u64 (getTokenBalanceString h c (world s) USDC_ADDRESS);
          wmasValueUSDC = (wmasBalance * 6) div 100000;
          wethValueUSDC = (wethBalance * 3) div 1000000000;
          usdcValueUSDC = usdcBalance;
          totalValueUSDC = wmasValueUSDC + wethValueUSDC + usdcValueUSDC
      in
      if totalValueUSDC = 0 then
        Inr (generateEvent s (Ev ''RebalanceSkipped'' [(''reason'', ''Zero portfolio value'')]))
      else
      let wmasCurrentBps = (wmasValueUSDC * 10000) div totalValueUSDC;
          wethCurrentBps = (wethValueUSDC * 10000) div totalValueUSDC;
          usdcCurrentBps = (usdcValueUSDC * 10000) div totalValueUSDC
      in
      bindR (Storage_get (store s) TARGETS_BPS_KEY) (\<lambda>targetsStr.
      let targetsParts = split_comma targetsStr in
      bindR (part_at targetsParts 0) (\<lambda>t0.
      bindR (part_at targetsParts 1) (\<lambda>t1.
      bindR (part_at targetsParts 2) (\<lambda>t2.
      let wmasTargetBps = parse_u64 t0;
          wethTargetBps = parse_u64 t1;
          usdcTargetBps = parse_u64 t2;
          wmasDrift = abs_diff wmasCurrentBps wmasTargetBps;
          wethDrift = abs_diff wethCurrentBps wethTargetBps;
          usdcDrift = abs_diff usdcCurrentBps usdcTargetBps;
          maxDrift = max3 wmasDrift wethDrift usdcDrift
      in
      bindR (Storage_get (store s) MAX_DRIFT_BPS_KEY) (\<lambda>maxDriftStr.
      let maxDriftBps = parse_u64 maxDriftStr;
          s1 = generateEvent s
                 (Ev ''DriftCalculated''
                    [(''wmasCurrent'', u64_to_string wmasCurrentBps),
                     (''wethCurrent'', u64_to_string wethCurrentBps),
                     (''usdcCurrent'', u64_to_string usdcCurrentBps),
                     (''wmasDrift'', u64_to_string wmasDrift),
                     (''wethDrift'', u64_to_string wethDrift),
                     (''usdcDrift'', u64_to_string usdcDrift),
                     (''maxDrift'', u64_to_string maxDrift)])
      in
      if maxDrift \<le> maxDriftBps then
        scheduleNextRebalance self h c
          (generateEvent s1
             (Ev ''RebalanceSkipped''
                [(''reason'', ''Drift within threshold''),
                 (''maxDrift'', u64_to_string maxDrift),
                 (''threshold'', u64_to_string maxDriftBps)]))
      else
      let wmasTargetValue = (totalValueUSDC * wmasTargetBps) div 10000;
          wethTargetValue = (totalValueUSDC * wethTargetBps) div 10000
      in
      bindR (executeSwapLegs h c s1
               (planLeg wmasCurrentBps wmasTargetBps wmasTargetValue wmasValueUSDC usdcBalance)
               (planLeg wethCurrentBps wethTargetBps wethTargetValue wethValueUSDC usdcBalance))
        (\<lambda>(s3, swapCount).
      scheduleNextRebalance self h c
        (generateEvent s3
           (Ev ''RebalanceExecuted''
              [(''epoch'', u64_to_string (timestamp c)),
               (''totalSwaps'', u64_to_string swapCount),
               (''maxDrift'', u64_to_string maxDrift),
               (''threshold'', u64_to_string maxDriftBps)])))))))))"

text \<open>The entry point \<open>rebalance\<close>, with its epoch gate, for one level of nesting.\<close>

definition rebalance_body ::
  "(call_ctx \<Rightarrow> 'w vault \<Rightarrow> error + 'w vault) \<Rightarrow> 'w host \<Rightarrow> call_ctx \<Rightarrow> 'w vault
     \<Rightarrow> error + 'w vault" where
  "rebalance_body self h c s =
     bindR (Storage_get (store s) OWNER_KEY) (\<lambda>owner.
     bindR (assertR (caller c = owner \<or> caller c = callee c) ''Unauthorized rebalance'') (\<lambda>_.
     bindR (Storage_get (store s) TOTAL_SHARES_KEY) (\<lambda>totalSharesStr.
     if parse_u64 totalSharesStr = 0 then
       Inr (generateEvent (set_key s AUTON_SCHEDULED ''false'')
              (Ev ''RebalanceSkipped'' [(''reason'', ''No deposits'')]))
     else if \<not> Storage_has (store s) GUARD_ARMED_KEY then
       bindR (del_key s AUTON_SCHEDULED) (\<lambda>s1.
       Inr (generateEvent s1 (Ev ''RebalanceSkipped'' [(''reason'', ''Guard off'')])))
     else
     let gasBankBalance = balance h c s in
     if gasBankBalance < 100000000 then
       Inr (generateEvent (set_key s AUTON_SCHEDULED ''false'')
              (Ev ''AutonomousRebalanceSkipped''
                 [(''reason'', ''Low gas bank''), (''balance'', u64_to_string gasBankBalance)]))
     else
     let lastRebalance = (if Storage_has (store s) LAST_REBALANCE_KEY
                          then parse_u64 (the (store s LAST_REBALANCE_KEY)) else 0) in
     bindR (Storage_get (store s) REBALANCE_EPOCH_SECONDS_KEY) (\<lambda>epochStr.
     let epochSeconds = parse_u64 epochStr;
         now = timestamp c
     in
     if lastRebalance > 0 \<and> now < lastRebalance + epochSeconds * 1000 then
       Inr (generateEvent s
              (Ev ''RebalanceSkipped''
                 [(''reason'', ''Too soon''),
                  (''waitMs'', u64_to_string (lastRebalance + epochSeconds * 1000 - now))]))
     else
     bindR (executeRebalanceInternal self h c s) (\<lambda>s1.
     bindR (scheduleNextRebalance self h c (set_key s1 LAST_REBALANCE_KEY (u64_to_string now)))
       (\<lambda>s2.
     Inr (if caller c = owner
          then generateEvent s2 (Ev ''ManualRebalanceTriggered'' [(''caller'', caller c)])
          else s2)))))))"

primrec rebalance :: "nat \<Rightarrow> 'w host \<Rightarrow> call_ctx \<Rightarrow> 'w vault \<Rightarrow> error + 'w vault" where
  "rebalance 0 h = (\<lambda>c s. Inl OutOfGas)"
| "rebalance (Suc gas) h = rebalance_body (rebalance gas h) h"

subsection \<open>Autonomous mode\<close>

definition startAutonomousRebalancing ::
  "'w host \<Rightarrow> call_ctx \<Rightarrow> 'w vault \<Rightarrow> error + 'w vault" where
  "startAutonomousRebalancing h c s =
     bindR (Storage_get (store s) OWNER_KEY) (\<lambda>owner.
     bindR (assertR (caller c = owner) ''Only owner can start autonomous rebalancing'') (\<lambda>_.
     let totalShares = parse_u64 (Storage_get_or (store s) TOTAL_SHARES_KEY ''0'') in
     if totalShares = 0 then
       Inr (generateEvent s (Ev ''AutonomousStartSkipped'' [(''reason'', ''No deposits in vault'')]))
     else
     let guardArmed = Storage_has (store s) GUARD_ARMED_KEY in
     if \<not> guardArmed then
       Inr (generateEvent s (Ev ''AutonomousStartSkipped'' [(''reason'', ''Guard not armed'')]))
     else
     let epochSeconds = parse_u64 (Storage_get_or (store s) REBALANCE_EPOCH_SECONDS_KEY ''1800'');
         slotsToAdd = epochSeconds * 2;
         targetPeriod = currentPeriod c + slotsToAdd;
         maxGas = 200000000;
         paramsSize = 0;
         targetSlot = findCheapestSlot h (world s) targetPeriod (targetPeriod + 100) maxGas paramsSize;
         quote = deferredCallQuote h (world s) targetSlot maxGas paramsSize;
         gasBank = balance h c s
     in
     bindR (assertR (\<not> gasBank < quote)
              (''Insufficient gas bank: '' @ u64_to_string (gasBank div 1000000000)
               @ '' MAS available, '' @ u64_to_string (quote div 1000000000)
               @ '' MAS required. Top up '' @ u64_to_string ((quote - gasBank) div 1000000000)
               @ '' MAS.'')) (\<lambda>_.
     bindR (callR ''deferredCallRegister''
              (deferredCallRegister h (world s) (callee c) ''triggerRebalance'' targetSlot maxGas 0))
       (\<lambda>(w1, deferredId).
     let currentTimestamp = timestamp c;
         nextRebalanceTimestamp = currentTimestamp + epochSeconds * 1000;
         s1 = set_key (s\<lparr>world := w1\<rparr>) DEFERRED_CALL_ID_KEY deferredId;
         s2 = set_key s1 AUTONOMOUS_MODE_ENABLED ''true'';
         s3 = set_key s2 LAST_REBALANCE_KEY (u64_to_string currentTimestamp);
         s4 = set_key s3 NEXT_REBALANCE_TIMESTAMP_KEY (u64_to_string nextRebalanceTimestamp);
         s5 = set_key s4 DEFERRED_CALL_ACTIVE_KEY ''true'';
         s6 = set_key s5 LAST_REBALANCE_STATUS_KEY ''pending'';
         s7 = set_key s6 LAST_ERROR_KEY [];
         s8 = (if \<not> Storage_has (store s7) REBALANCE_COUNT_KEY
               then set_key s7 REBALANCE_COUNT_KEY ''0'' else s7)
     in
     Inr (generateEvent s8
            (Ev ''AutonomousModeStarted''
               [(''deferredId'', deferredId),
                (''targetSlot'', u64_to_string (period targetSlot)),
                (''quote'', u64_to_string quote),
                (''timestamp'', u64_to_string currentTimestamp),
                (''nextRebalance'', u64_to_string nextRebalanceTimestamp)]))))))"

definition isAutonomousScheduled :: "'w vault \<Rightarrow> bool" where
  "isAutonomousScheduled s = Storage_has (store s) AUTONOMOUS_MODE_ENABLED"

record autonomous_status =
  autonomousEnabled :: bool
  deferredCallActive :: bool
  lastRebalanceTime :: u64
  nextRebalanceTime :: u64
  rebalanceCount :: u64
  lastStatus :: string
  lastError :: string
  gasBankBalance :: u64

definition getAutonomousStatus :: "'w host \<Rightarrow> call_ctx \<Rightarrow> 'w vault \<Rightarrow> autonomous_status" where
  "getAutonomousStatus h c s =
     \<lparr>autonomousEnabled = Storage_has (store s) AUTONOMOUS_MODE_ENABLED,
      deferredCallActive = (if Storage_has (store s) DEFERRED_CALL_ACTIVE_KEY
                            then the (store s DEFERRED_CALL_ACTIVE_KEY) = ''true'' else False),
      lastRebalanceTime = parse_u64 (Storage_get_or (store s) LAST_REBALANCE_KEY ''0''),
      nextRebalanceTime = parse_u64 (Storage_get_or (store s) NEXT_REBALANCE_TIMESTAMP_KEY ''0''),
      rebalanceCount = parse_u64 (Storage_get_or (store s) REBALANCE_COUNT_KEY ''0''),
      lastStatus = Storage_get_or (store s) LAST_REBALANCE_STATUS_KEY ''none'',
      lastError = Storage_get_or (store s) LAST_ERROR_KEY [],
      gasBankBalance = balance h c s\<rparr>"

text \<open>
  \<open>triggerRebalance\<close> runs \<open>executeRebalanceInternal\<close> at once: it has no epoch gate of
  its own. Then, when the key \<open>AUTONOMOUS_MODE_ENABLED\<close> is present, it re-arms. Its
  first argument is the gas left for the nested calls of \<open>rebalance\<close>.
\<close>

definition triggerRebalance :: "nat \<Rightarrow> 'w host \<Rightarrow> call_ctx \<Rightarrow> 'w vault \<Rightarrow> error + 'w vault" where
  "triggerRebalance gas h c s0 =
     (let s = generateEvent s0
                (Ev ''TriggerRebalanceStarted''
                   [(''caller'', caller c), (''timestamp'', u64_to_string (timestamp c))])
      in
      bindR (executeRebalanceInternal (rebalance gas h) h c s) (\<lambda>s1.
      let autonomousEnabled = Storage_has (store s1) AUTONOMOUS_MODE_ENABLED in
      if autonomousEnabled then
        (let gasBank = balance h c s1 in
         if gasBank < MIN_GAS_BANK_BALANCE then
           Inr (generateEvent (set_key s1 AUTONOMOUS_MODE_ENABLED ''false'')
                  (Ev ''AutonomousModeStopped''
                     [(''reason'', ''Low gas bank''),
                      (''balance'', u64_to_string (gasBank div 1000000000) @ '' MAS''),
                      (''minRequired'', ''2 MAS'')]))
         else
         let epochSeconds = parse_u64 (Storage_get_or (store s1) REBALANCE_EPOCH_SECONDS_KEY ''1800'');
             slotsToAdd = epochSeconds * 2;
             targetPeriod = currentPeriod c + slotsToAdd;
             maxGas = 200000000;
             paramsSize = 0;
             targetSlot = findCheapestSlot h (world s1) targetPeriod (targetPeriod + 100) maxGas
                            paramsSize;
             quote = deferredCallQuote h (world s1) targetSlot maxGas paramsSize;
             currentGasBank = balance h c s1
         in
         if currentGasBank \<ge> quote \<and> currentGasBank \<ge> MIN_GAS_BANK_BALANCE then
           bindR (callR ''deferredCallRegister''
                    (deferredCallRegister h (world s1) (callee c) ''triggerRebalance'' targetSlot
                       maxGas 0))
             (\<lambda>(w2, deferredId).
           Inr (generateEvent (set_key (s1\<lparr>world := w2\<rparr>) DEFERRED_CALL_ID_KEY deferredId)
                  (Ev ''NextRebalanceScheduled''
                     [(''deferredId'', deferredId),
                      (''targetSlot'', u64_to_string (period targetSlot)),
                      (''quote'', u64_to_string quote)])))
         else
           Inr (generateEvent (set_key s1 AUTONOMOUS_MODE_ENABLED ''false'')
                  (Ev ''AutonomousModeStopped''
                     [(''reason'', ''Insufficient gas bank''),
                      (''required'', u64_to_string quote),
                      (''available'', u64_to_string gasBank)])))
      else Inr s1))"

subsection \<open>Deposit and redeem\<close>

definition deposit :: "'w host \<Rightarrow> call_ctx \<Rightarrow> 'w vault \<Rightarrow> u64 \<Rightarrow> error + 'w vault" where
  "deposit h c s0 amount =
     bindR (assertR (\<not> Storage_has (store s0) PAUSED_KEY) ''Contract is paused'') (\<lambda>_.
     bindR (assertR (\<not> Storage_has (store s0) REENTRANCY_GUARD_KEY) ''Reentrancy attempt detected'')
       (\<lambda>_.
     let s = set_key s0 REENTRANCY_GUARD_KEY ''true'' in
     bindR (Storage_get (store s) MIN_DEPOSIT_USDC_KEY) (\<lambda>minDepositStr.
     let minDeposit = parse_u64 minDepositStr in
     bindR (assertR (amount \<ge> minDeposit) ''Amount below minimum deposit'') (\<lambda>_.
     let balanceBefore = parse_u64 (getTokenBalanceString h c (world s) USDC_ADDRESS) in
     bindR (callR ''transferFrom''
              (transferFrom h (world s) USDC_ADDRESS (callee c) (caller c) (callee c)
                 (ucast amount)))
       (\<lambda>w1.
     let balanceAfter = parse_u64 (getTokenBalanceString h c w1 USDC_ADDRESS) in
     bindR (assertR (balanceAfter \<ge> balanceBefore + amount)
              ''USDC transfer failed - check allowance and balance'') (\<lambda>_.
     let sharesAmount = amount;
         sharesKey = userSharesKey (caller c);
         currentShares = (if Storage_has (store s) sharesKey
                          then parse_u64 (the (store s sharesKey)) else 0);
         newShares = currentShares + sharesAmount;
         s1 = set_key (s\<lparr>world := w1\<rparr>) sharesKey (u64_to_string newShares)
     in
     bindR (Storage_get (store s1) TOTAL_SHARES_KEY) (\<lambda>totalSharesStr.
     let totalShares = parse_u64 totalSharesStr;
         s2 = set_key s1 TOTAL_SHARES_KEY (u64_to_string (totalShares + sharesAmount))
     in
     bindR (del_key s2 REENTRANCY_GUARD_KEY) (\<lambda>s3.
     Inr (generateEvent s3
            (Ev ''Deposit''
               [(''user'', caller c), (''amount'', u64_to_string amount),
                (''shares'', u64_to_string sharesAmount)]))))))))))"

text \<open>
  One swap of \<open>redeem\<close>'s \<open>toUSDC\<close> branch (the source writes it twice): approve, call the
  router, add the amount out it reports to the running total \<open>totalUSDC\<close>, emit the event.
\<close>

definition redeemSwap ::
  "'w host \<Rightarrow> call_ctx \<Rightarrow> 'w vault \<Rightarrow> string \<Rightarrow> u64 \<Rightarrow> u64 list \<Rightarrow> bool list \<Rightarrow> string list
     \<Rightarrow> string \<Rightarrow> u64 \<Rightarrow> error + ('w vault \<times> u64)" where
  "redeemSwap h c s tokenAddress userAmount binSteps legacy path pathText totalUSDC =
     bindR (approveToken h c (world s) tokenAddress userAmount) (\<lambda>w1.
     let swapArgs = \<lparr>amountInArg = ucast userAmount, amountOutMinArg = 1,
                      pairBinSteps = binSteps, isLegacyPools = legacy,
                      tokenPath = path, recipient = callee c,
                      deadline = timestamp c + SWAP_DEADLINE_BUFFER\<rparr>
     in
     bindR (callR ''swapExactTokensForTokens''
              (swapExactTokensForTokens h w1 (callee c) swapArgs STORAGE_FEE_PER_SWAP))
       (\<lambda>(w2, result).
     let swappedAmount = (ucast result :: u64) in
     Inr (generateEvent (s\<lparr>world := w2\<rparr>)
            (Ev ''SwapExecuted''
               [(''type'', ''redeem''), (''path'', pathText),
                (''amountIn'', u64_to_string userAmount),
                (''amountOut'', u64_to_string swappedAmount)]),
          totalUSDC + swappedAmount)))"

definition redeem :: "'w host \<Rightarrow> call_ctx \<Rightarrow> 'w vault \<Rightarrow> u64 \<Rightarrow> bool \<Rightarrow> error + 'w vault" where
  "redeem h c s0 shares toUSDC =
     (let sharesKey = userSharesKey (caller c) in
      bindR (assertR (Storage_has (store s0) sharesKey) ''No shares to redeem'') (\<lambda>_.
      let currentShares = parse_u64 (the (store s0 sharesKey)) in
      bindR (assertR (currentShares \<ge> shares) ''Insufficient shares'') (\<lambda>_.
      bindR (Storage_get (store s0) TOTAL_SHARES_KEY) (\<lambda>totalSharesStr.
      let totalShares = parse_u64 totalSharesStr in
      bindR (assertR (totalShares > 0) ''No shares in circulation'') (\<lambda>_.
      let wmasBalance = parse_u64 (getTokenBalanceString h c (world s0) WMAS_ADDRESS);
          wethBalance = parse_u64 (getTokenBalanceString h c (world s0) WETH_ADDRESS);
          usdcBalance = parse_u64 (getTokenBalanceString h c (world s0) USDC_ADDRESS);
          userWmas = (shares * wmasBalance) div totalShares;
          userWeth = (shares * wethBalance) div totalShares;
          userUsdc = (shares * usdcBalance) div totalShares;
          newShares = currentShares - shares
      in
      bindR (if newShares > 0 then Inr (set_key s0 sharesKey (u64_to_string newShares))
             else del_key s0 sharesKey) (\<lambda>s1.
      let s2 = set_key s1 TOTAL_SHARES_KEY (u64_to_string (totalShares - shares)) in
      bindR
        (if toUSDC then
           (let totalUSDC0 = userUsdc in
            bindR (if userWmas > 0
                   then redeemSwap h c s2 WMAS_ADDRESS userWmas [BIN_STEP_USDC_WMAS] [False]
                          [WMAS_ADDRESS, USDC_ADDRESS] ''WMAS->USDC'' totalUSDC0
                   else Inr (s2, totalUSDC0))
              (\<lambda>(s3, totalUSDC1).
            bindR (if userWeth > 0
                   then redeemSwap h c s3 WETH_ADDRESS userWeth
                          [BIN_STEP_WMAS_WETH, BIN_STEP_USDC_WMAS] [False, False]
                          [WETH_ADDRESS, WMAS_ADDRESS, USDC_ADDRESS] ''WETH->WMAS->USDC''
                          totalUSDC1
                   else Inr (s3, totalUSDC1))
              (\<lambda>(s4, totalUSDC).
            let finalUsdc = parse_u64 (getTokenBalanceString h c (world s4) USDC_ADDRESS) in
            bindR (transferTokenToUser h c s4 USDC_ADDRESS (caller c) finalUsdc) (\<lambda>s5.
            Inr (generateEvent s5
                   (Ev ''RedeemExecuted''
                      [(''shares'', u64_to_string shares), (''toUSDC'', ''true''),
                       (''usdcFinal'', u64_to_string finalUsdc)]))))))
         else
           bindR (transferTokenToUser h c s2 WMAS_ADDRESS (caller c) userWmas) (\<lambda>s3.
           bindR (transferTokenToUser h c s3 WETH_ADDRESS (caller c) userWeth) (\<lambda>s4.
           bindR (transferTokenToUser h c s4 USDC_ADDRESS (caller c) userUsdc) (\<lambda>s5.
           Inr (generateEvent s5
                  (Ev ''RedeemExecuted''
                     [(''shares'', u64_to_string shares),
                      (''wmasOut'', u64_to_string userWmas),
                      (''wethOut'', u64_to_string userWeth),
                      (''usdcOut'', u64_to_string userUsdc)]))))))
        (\<lambda>s6.
      Inr (generateEvent s6
             (Ev ''Withdraw''
                [(''user'', caller c), (''shares'', u64_to_string shares),
                 (''wmas'', u64_to_string userWmas), (''weth'', u64_to_string userWeth),
                 (''usdc'', u64_to_string userUsdc), (''toUSDC'', bool_text toUSDC)])))))))))"

subsection \<open>Construction and administration\<close>

record constructor_args =
  arg_name :: string
  arg_symbol :: string
  arg_target0 :: u64
  arg_target1 :: u64
  arg_target2 :: u64
  arg_maxDriftBps :: u64
  arg_rebalanceEpochSeconds :: u64
  arg_minDepositUSDC :: u64
  arg_minSliceValue :: u64
  arg_usdceAddress :: string
  arg_wmasAddress :: string
  arg_wethbAddress :: string
  arg_dusaRouter :: string
  arg_eaglefiRouter :: string

definition targets_text :: "u64 \<Rightarrow> u64 \<Rightarrow> u64 \<Rightarrow> string" where
  "targets_text target0 target1 target2 =
     u64_to_string target0 @ '','' @ u64_to_string target1 @ '','' @ u64_to_string target2"

text \<open>The constructor writes into the empty datastore of the contract being deployed.\<close>

definition constructor :: "call_ctx \<Rightarrow> 'w \<Rightarrow> constructor_args \<Rightarrow> error + 'w vault" where
  "constructor c w a =
     bindR (assertR (isDeployingContract c) ''Can only be called during deployment'') (\<lambda>_.
     bindR (assertR (arg_target0 a + arg_target1 a + arg_target2 a = 10000)
              ''Targets must sum to 10000 bps'') (\<lambda>_.
     let s0 = \<lparr>store = Map.empty, events = [], world = w\<rparr>;
         s1 = set_key s0 NAME_KEY (arg_name a);
         s2 = set_key s1 SYMBOL_KEY (arg_symbol a);
         s3 = set_key s2 OWNER_KEY (caller c);
         s4 = set_key s3 TARGETS_BPS_KEY
                (targets_text (arg_target0 a) (arg_target1 a) (arg_target2 a));
         s5 = set_key s4 MAX_DRIFT_BPS_KEY (u64_to_string (arg_maxDriftBps a));
         s6 = set_key s5 REBALANCE_EPOCH_SECONDS_KEY (u64_to_string (arg_rebalanceEpochSeconds a));
         s7 = set_key s6 MIN_DEPOSIT_USDC_KEY (u64_to_string (arg_minDepositUSDC a));
         s8 = set_key s7 MIN_SLICE_VALUE_KEY (u64_to_string (arg_minSliceValue a));
         s9 = set_key s8 USDCE_KEY (arg_usdceAddress a);
         s10 = set_key s9 WMAS_KEY (arg_wmasAddress a);
         s11 = set_key s10 WETHB_KEY (arg_wethbAddress a);
         s12 = set_key s11 DUSA_ROUTER_KEY (arg_dusaRouter a);
         s13 = set_key s12 EAGLEFI_ROUTER_KEY (arg_eaglefiRouter a);
         s14 = set_key s13 TOTAL_SHARES_KEY ''0'';
         s15 = set_key s14 LAST_REBALANCE_KEY (u64_to_string (timestamp c))
     in
     Inr (generateEvent s15
            (Ev ''ConstructorCalled''
               [(''name'', arg_name a), (''symbol'', arg_symbol a),
                (''timestamp'', u64_to_string (timestamp c))]))))"

definition setMinDeposit :: "call_ctx \<Rightarrow> 'w vault \<Rightarrow> u64 \<Rightarrow> error + 'w vault" where
  "setMinDeposit c s newMinDeposit =
     bindR (Storage_get (store s) OWNER_KEY) (\<lambda>owner.
     bindR (assertR (caller c = owner) ''Only owner can set minimum deposit'') (\<lambda>_.
     Inr (generateEvent (set_key s MIN_DEPOSIT_USDC_KEY (u64_to_string newMinDeposit))
            (Ev ''Minimum deposit updated to'' [(''value'', u64_to_string newMinDeposit)]))))"

definition getUserShares :: "'w vault \<Rightarrow> string \<Rightarrow> string" where
  "getUserShares s userAddress = Storage_get_or (store s) (userSharesKey userAddress) ''0''"

definition setGuard :: "call_ctx \<Rightarrow> 'w vault \<Rightarrow> bool \<Rightarrow> error + 'w vault" where
  "setGuard c s armed =
     bindR (Storage_get (store s) OWNER_KEY) (\<lambda>owner.
     bindR (assertR (caller c = owner) ''Only owner can set guard'') (\<lambda>_.
     Inr (generateEvent (set_key s GUARD_ARMED_KEY (bool_text armed))
            (Ev ''GuardArmed'' [(''armed'', bool_text armed), (''reason'', ''Manual trigger'')]))))"

definition getGuardStatus :: "'w vault \<Rightarrow> bool" where
  "getGuardStatus s = Storage_has (store s) GUARD_ARMED_KEY"

definition topUpGasBank :: "'w host \<Rightarrow> call_ctx \<Rightarrow> 'w vault \<Rightarrow> error + 'w vault" where
  "topUpGasBank h c s =
     (let amount = transferredCoins c;
          newBalance = balance h c s
      in Inr (generateEvent s
                (Ev ''GasBankUpdated''
                   [(''newBalance'', u64_to_string newBalance),
                    (''change'', u64_to_string amount)])))"

definition pause :: "call_ctx \<Rightarrow> 'w vault \<Rightarrow> error + 'w vault" where
  "pause c s =
     bindR (Storage_get (store s) OWNER_KEY) (\<lambda>owner.
     bindR (assertR (caller c = owner) ''Only owner can pause'') (\<lambda>_.
     Inr (generateEvent (set_key s PAUSED_KEY ''true'')
            (Ev ''ContractPaused'' [(''timestamp'', u64_to_string (timestamp c))]))))"

definition unpause :: "call_ctx \<Rightarrow> 'w vault \<Rightarrow> error + 'w vault" where
  "unpause c s =
     bindR (Storage_get (store s) OWNER_KEY) (\<lambda>owner.
     bindR (assertR (caller c = owner) ''Only owner can unpause'') (\<lambda>_.
     Inr (generateEvent (set_key s PAUSED_KEY ''false'')
            (Ev ''ContractUnpaused'' [(''timestamp'', u64_to_string (timestamp c))]))))"

definition isPaused :: "'w vault \<Rightarrow> bool" where
  "isPaused s = Storage_has (store s) PAUSED_KEY"

definition updateTargets :: "call_ctx \<Rightarrow> 'w vault \<Rightarrow> u64 \<Rightarrow> u64 \<Rightarrow> u64 \<Rightarrow> error + 'w vault" where
  "updateTargets c s target0 target1 target2 =
     bindR (Storage_get (store s) OWNER_KEY) (\<lambda>owner.
     bindR (assertR (caller c = owner) ''Only owner can update targets'') (\<lambda>_.
     bindR (assertR (target0 + target1 + target2 = 10000) ''Targets must sum to 10000 bps'') (\<lambda>_.
     Inr (generateEvent (set_key s TARGETS_BPS_KEY (targets_text target0 target1 target2))
            (Ev ''TargetsUpdated''
               [(''target0'', u64_to_string target0), (''target1'', u64_to_string target1),
                (''target2'', u64_to_string target2)])))))"

definition updateMaxDrift :: "call_ctx \<Rightarrow> 'w vault \<Rightarrow> u64 \<Rightarrow> error + 'w vault" where
  "updateMaxDrift c s newMaxDrift =
     bindR (Storage_get (store s) OWNER_KEY) (\<lambda>owner.
     bindR (assertR (caller c = owner) ''Only owner can update max drift'') (\<lambda>_.
     bindR (assertR (newMaxDrift > 0 \<and> newMaxDrift \<le> 2000) ''Max drift must be 1-2000 bps'') (\<lambda>_.
     Inr (generateEvent (set_key s MAX_DRIFT_BPS_KEY (u64_to_string newMaxDrift))
            (Ev ''MaxDriftUpdated'' [(''maxDrift'', u64_to_string newMaxDrift)])))))"

definition updateRebalanceEpoch :: "call_ctx \<Rightarrow> 'w vault \<Rightarrow> u64 \<Rightarrow> error + 'w vault" where
  "updateRebalanceEpoch c s newEpoch =
     bindR (Storage_get (store s) OWNER_KEY) (\<lambda>owner.
     bindR (assertR (caller c = owner) ''Only owner can update rebalance epoch'') (\<lambda>_.
     bindR (assertR (newEpoch \<ge> 300) ''Epoch must be at least 300 seconds (5 minutes)'') (\<lambda>_.
     Inr (generateEvent (set_key s REBALANCE_EPOCH_SECONDS_KEY (u64_to_string newEpoch))
            (Ev ''RebalanceEpochUpdated'' [(''epoch'', u64_to_string newEpoch)])))))"

definition emergencyWithdraw ::
  "'w host \<Rightarrow> call_ctx \<Rightarrow> 'w vault \<Rightarrow> string \<Rightarrow> u64 \<Rightarrow> error + 'w vault" where
  "emergencyWithdraw h c s tokenAddress amount =
     bindR (Storage_get (store s) OWNER_KEY) (\<lambda>owner.
     bindR (assertR (caller c = owner) ''Only owner can emergency withdraw'') (\<lambda>_.
     bindR (assertR (Storage_has (store s) PAUSED_KEY)
              ''Contract must be paused for emergency withdrawal'') (\<lambda>_.
     bindR (transferTokenToUser h c s tokenAddress owner amount) (\<lambda>s1.
     Inr (generateEvent s1
            (Ev ''EmergencyWithdraw''
               [(''token'', tokenAddress), (''amount'', u64_to_string amount),
                (''to'', owner)]))))))"

definition transferOwnership :: "call_ctx \<Rightarrow> 'w vault \<Rightarrow> string \<Rightarrow> error + 'w vault" where
  "transferOwnership c s newOwner =
     bindR (Storage_get (store s) OWNER_KEY) (\<lambda>owner.
     bindR (assertR (caller c = owner) ''Only owner can transfer ownership'') (\<lambda>_.
     bindR (assertR (length newOwner > 0) ''New owner address cannot be empty'') (\<lambda>_.
     Inr (generateEvent (set_key s OWNER_KEY newOwner)
            (Ev ''OwnershipTransferred'' [(''oldOwner'', owner), (''newOwner'', newOwner)])))))"

text \<open>\<open>validateBinSteps\<close> asks the factory twice and reports what it answers.\<close>

definition bin_steps_text :: "u64 list \<Rightarrow> string" where
  "bin_steps_text xs = concat (map (\<lambda>x. u64_to_string x @ '','') (butlast xs))
                       @ (if xs = [] then [] else u64_to_string (last xs))"

definition validateBinSteps :: "'w host \<Rightarrow> call_ctx \<Rightarrow> 'w vault \<Rightarrow> error + 'w vault" where
  "validateBinSteps h c s =
     bindR (callR ''getAvailableLBPairBinSteps''
              (getAvailableLBPairBinSteps h (world s) USDC_ADDRESS WMAS_ADDRESS)) (\<lambda>usdcWmas.
     bindR (callR ''getAvailableLBPairBinSteps''
              (getAvailableLBPairBinSteps h (world s) WMAS_ADDRESS WETH_ADDRESS)) (\<lambda>wmasWeth.
     Inr (generateEvent s
            (Ev ''BinStepsValidation''
               [(''usdcWmas'', bin_steps_text usdcWmas), (''wmasWeth'', bin_steps_text wmasWeth),
                (''currentUsdcWmas'', u64_to_string BIN_STEP_USDC_WMAS),
                (''currentWmasWeth'', u64_to_string BIN_STEP_WMAS_WETH)]))))"

subsection \<open>Calls and runs\<close>

text \<open>
  The entry points that can change the vault, as the operations of a transaction. The
  read-only queries (\<open>getConfig\<close>, \<open>getBalances\<close>, \<open>getUserShares\<close>, \<open>getGuardStatus\<close>,
  \<open>isPaused\<close>, \<open>isAutonomousScheduled\<close>, \<open>getAutonomousStatus\<close>) change nothing and are
  functions of the state above.
\<close>

datatype op =
    Deposit u64
  | Redeem u64 bool
  | SetGuard bool
  | TopUpGasBank
  | StartAutonomousRebalancing
  | TriggerRebalance
  | Rebalance
  | Pause
  | Unpause
  | UpdateTargets u64 u64 u64
  | UpdateMaxDrift u64
  | UpdateRebalanceEpoch u64
  | EmergencyWithdraw string u64
  | TransferOwnership string
  | SetMinDeposit u64
  | ValidateBinSteps

fun call_op :: "nat \<Rightarrow> 'w host \<Rightarrow> call_ctx \<Rightarrow> 'w vault \<Rightarrow> op \<Rightarrow> error + 'w vault" where
  "call_op gas h c s (Deposit amount) = deposit h c s amount"
| "call_op gas h c s (Redeem shares toUSDC) = redeem h c s shares toUSDC"
| "call_op gas h c s (SetGuard armed) = setGuard c s armed"
| "call_op gas h c s TopUpGasBank = topUpGasBank h c s"
| "call_op gas h c s StartAutonomousRebalancing = startAutonomousRebalancing h c s"
| "call_op gas h c s TriggerRebalance = triggerRebalance gas h c s"
| "call_op gas h c s Rebalance = rebalance gas h c s"
| "call_op gas h c s Pause = pause c s"
| "call_op gas h c s Unpause = unpause c s"
| "call_op gas h c s (UpdateTargets t0 t1 t2) = updateTargets c s t0 t1 t2"
| "call_op gas h c s (UpdateMaxDrift d) = updateMaxDrift c s d"
| "call_op gas h c s (UpdateRebalanceEpoch e) = updateRebalanceEpoch c s e"
| "call_op gas h c s (EmergencyWithdraw tokenAddress amount) =
     emergencyWithdraw h c s tokenAddress amount"
| "call_op gas h c s (TransferOwnership newOwner) = transferOwnership c s newOwner"
| "call_op gas h c s (SetMinDeposit m) = setMinDeposit c s m"
| "call_op gas h c s ValidateBinSteps = validateBinSteps h c s"

text \<open>
  A transaction is a call with its context and its gas. One that aborts is rolled back: the
  vault and the world stay as they were. Between two transactions the rest of the chain
  may change the world (\<open>drift\<close>: other accounts moving tokens, coins arriving), but not
  the vault's datastore.
\<close>

record 'w tx =
  tx_ctx :: call_ctx
  tx_gas :: nat
  tx_op :: op
  tx_drift :: "'w \<Rightarrow> 'w"

definition exec_tx :: "'w host \<Rightarrow> 'w vault \<Rightarrow> 'w tx \<Rightarrow> 'w vault" where
  "exec_tx h s t =
     (let s0 = s\<lparr>world := tx_drift t (world s)\<rparr> in
      case call_op (tx_gas t) h (tx_ctx t) s0 (tx_op t) of Inl e \<Rightarrow> s0 | Inr s1 \<Rightarrow> s1)"

definition run :: "'w host \<Rightarrow> 'w vault \<Rightarrow> 'w tx list \<Rightarrow> 'w vault" where
  "run h s ts = foldl (exec_tx h) s ts"

subsection \<open>The share ledger\<close>


definition holders :: "'w vault \<Rightarrow> string set" where
  "holders s = {a. Storage_has (store s) (userSharesKey a)}"

definition holderShares :: "'w vault \<Rightarrow> string \<Rightarrow> u64" where
  "holderShares s a = parse_u64 (getUserShares s a)"

definition holderSum :: "'w vault \<Rightarrow> nat" where
  "holderSum s = (\<Sum>a\<in>holders s. unat (holderShares s a))"

definition storedTotalShares :: "'w vault \<Rightarrow> u64" where
  "storedTotalShares s = parse_u64 (Storage_get_or (store s) TOTAL_SHARES_KEY ''0'')"

subsection \<open>A router with a range of accepted amounts\<close>

text \<open>
  The host \<open>h\<close> with a router that refuses every swap whose \<open>amountIn\<close> is below \<open>lo\<close> or
  above \<open>hi\<close> (the call fails, which reverts the caller) and passes the others on to the
  router of \<open>h\<close>. It is used to say which amounts the vault hands to the router.
\<close>

definition bounded_router :: "nat \<Rightarrow> nat \<Rightarrow> 'w host \<Rightarrow> 'w host" where
  "bounded_router lo hi h =
     h\<lparr>swapExactTokensForTokens :=
         (\<lambda>w sender a fee.
            if lo \<le> unat (amountInArg a) \<and> unat (amountInArg a) \<le> hi
            then swapExactTokensForTokens h w sender a fee else None)\<rparr>"


section \<open>A small chain to run the vault on\<close>

text \<open>
  The theorems below that hold for every host need no concrete one. The examples, and the
  inputs at which a claim fails, run the vault on this chain: token ledgers that move
  what they are asked to move (allowances are not tracked), a router that swaps at par
  out of unlimited pools and charges the coins sent as its fee, and a deferred-call
  registry with a flat price.
\<close>

record ledger =
  tokens :: "string \<Rightarrow> string \<Rightarrow> u256"
  coins :: "string \<Rightarrow> u64"

definition move_tokens :: "ledger \<Rightarrow> string \<Rightarrow> string \<Rightarrow> string \<Rightarrow> u256 \<Rightarrow> ledger option" where
  "move_tokens w tok src dst amt =
     (if tokens w tok src < amt then None
      else let m1 = (tokens w tok)(src := tokens w tok src - amt);
               m2 = m1(dst := m1 dst + amt)
           in Some (w\<lparr>tokens := (tokens w)(tok := m2)\<rparr>))"

definition par_swap :: "ledger \<Rightarrow> string \<Rightarrow> swap_args \<Rightarrow> u64 \<Rightarrow> (ledger \<times> u256) option" where
  "par_swap w sender a fee =
     (case tokenPath a of
        [] \<Rightarrow> None
      | tin # rest \<Rightarrow>
          if coins w sender < fee \<or> amountInArg a < amountOutMinArg a then None
          else (case move_tokens w tin sender DUSA_ROUTER (amountInArg a) of
                  None \<Rightarrow> None
                | Some w1 \<Rightarrow>
                    let tout = last (tin # rest);
                        m = tokens w1 tout
                    in Some (w1\<lparr>tokens := (tokens w1)
                                   (tout := m(recipient a := m (recipient a) + amountInArg a)),
                                 coins := (coins w1)(sender := coins w1 sender - fee)\<rparr>,
                             amountInArg a)))"

definition flat_quote :: u64 where "flat_quote = 1000000000"

definition register_call ::
  "ledger \<Rightarrow> string \<Rightarrow> string \<Rightarrow> slot \<Rightarrow> u64 \<Rightarrow> u64 \<Rightarrow> (ledger \<times> string) option" where
  "register_call w target fn sl maxGas sent =
     (if coins w target < flat_quote then None
      else Some (w\<lparr>coins := (coins w)(target := coins w target - flat_quote)\<rparr>, ''D1''))"

definition sim_host :: "ledger host" where
  "sim_host =
     \<lparr>balanceOf = (\<lambda>w tok account. tokens w tok account),
      transferFrom = (\<lambda>w tok spender src dst amt. move_tokens w tok src dst amt),
      transfer = (\<lambda>w tok sender dst amt. move_tokens w tok sender dst amt),
      increaseAllowance = (\<lambda>w tok holder spender amt. Some w),
      swapExactTokensForTokens = par_swap,
      getAvailableLBPairBinSteps = (\<lambda>w x y. Some [20]),
      coin_balance = coins,
      findCheapestSlot = (\<lambda>w startPeriod endPeriod maxGas paramsSize.
                            \<lparr>period = startPeriod, thread = 0\<rparr>),
      deferredCallQuote = (\<lambda>w sl maxGas paramsSize. flat_quote),
      deferredCallRegister = register_call\<rparr>"

text \<open>A router that reports a swap as done and moves nothing.\<close>

definition idle_router_host :: "ledger host" where
  "idle_router_host =
     sim_host\<lparr>swapExactTokensForTokens := (\<lambda>w sender a fee. Some (w, amountOutMinArg a))\<rparr>"

text \<open>A token whose \<open>transferFrom\<close> reports success and moves nothing.\<close>

definition idle_token_host :: "ledger host" where
  "idle_token_host = sim_host\<lparr>transferFrom := (\<lambda>w tok spender src dst amt. Some w)\<rparr>"

definition VAULT :: string where "VAULT = ''AS_vault''"
definition OWNER :: string where "OWNER = ''AU_owner''"
definition ALICE :: string where "ALICE = ''AU_alice''"
definition BOB :: string where "BOB = ''AU_bob''"

definition ctx_of :: "string \<Rightarrow> u64 \<Rightarrow> call_ctx" where
  "ctx_of who t =
     \<lparr>caller = who, callee = VAULT, timestamp = t, currentPeriod = 1000,
      transferredCoins = 0, isDeployingContract = False\<rparr>"

definition demo_args :: "u64 \<Rightarrow> u64 \<Rightarrow> u64 \<Rightarrow> constructor_args" where
  "demo_args t0 t1 t2 =
     \<lparr>arg_name = ''Sentinel'', arg_symbol = ''SIV'',
      arg_target0 = t0, arg_target1 = t1, arg_target2 = t2,
      arg_maxDriftBps = 500, arg_rebalanceEpochSeconds = 1800,
      arg_minDepositUSDC = 1, arg_minSliceValue = 10000,
      arg_usdceAddress = USDC_ADDRESS, arg_wmasAddress = WMAS_ADDRESS,
      arg_wethbAddress = WETH_ADDRESS, arg_dusaRouter = DUSA_ROUTER,
      arg_eaglefiRouter = DUSA_ROUTER\<rparr>"

text \<open>
  The datastore the constructor leaves for \<open>demo_args t0 t1 t2\<close>, called by \<open>OWNER\<close> at
  time 1000 (see \<open>constructor_demo\<close> below).
\<close>

definition base_store :: "u64 \<Rightarrow> u64 \<Rightarrow> u64 \<Rightarrow> storage" where
  "base_store t0 t1 t2 =
     [NAME_KEY \<mapsto> ''Sentinel'', SYMBOL_KEY \<mapsto> ''SIV'', OWNER_KEY \<mapsto> OWNER,
      TARGETS_BPS_KEY \<mapsto> targets_text t0 t1 t2,
      MAX_DRIFT_BPS_KEY \<mapsto> ''500'', REBALANCE_EPOCH_SECONDS_KEY \<mapsto> ''1800'',
      MIN_DEPOSIT_USDC_KEY \<mapsto> ''1'', MIN_SLICE_VALUE_KEY \<mapsto> ''10000'',
      USDCE_KEY \<mapsto> USDC_ADDRESS, WMAS_KEY \<mapsto> WMAS_ADDRESS, WETHB_KEY \<mapsto> WETH_ADDRESS,
      DUSA_ROUTER_KEY \<mapsto> DUSA_ROUTER, EAGLEFI_ROUTER_KEY \<mapsto> DUSA_ROUTER,
      TOTAL_SHARES_KEY \<mapsto> ''0'', LAST_REBALANCE_KEY \<mapsto> ''1000'']"

definition constructor_event :: event where
  "constructor_event =
     Ev ''ConstructorCalled''
       [(''name'', ''Sentinel''), (''symbol'', ''SIV''), (''timestamp'', ''1000'')]"

definition deployed :: "u64 \<Rightarrow> u64 \<Rightarrow> u64 \<Rightarrow> ledger \<Rightarrow> ledger vault" where
  "deployed t0 t1 t2 w = \<lparr>store = base_store t0 t1 t2, events = [constructor_event], world = w\<rparr>"

text \<open>
  A ledger where \<open>ALICE\<close> and \<open>BOB\<close> hold \<open>a\<close> and \<open>b\<close> units of USDC, the vault holds
  \<open>u\<close> units of USDC, \<open>e\<close> units of WETH and \<open>g\<close> coins, and nobody holds anything else.
\<close>

definition demo_ledger :: "u256 \<Rightarrow> u256 \<Rightarrow> u256 \<Rightarrow> u256 \<Rightarrow> u64 \<Rightarrow> ledger" where
  "demo_ledger a b u e g =
     \<lparr>tokens = (\<lambda>tok. if tok = USDC_ADDRESS
                          then (\<lambda>account. 0)(ALICE := a, BOB := b, VAULT := u)
                       else if tok = WETH_ADDRESS then (\<lambda>account. 0)(VAULT := e)
                       else (\<lambda>account. 0)),
      coins = (\<lambda>account. 0)(VAULT := g)\<rparr>"

definition tx_of :: "string \<Rightarrow> u64 \<Rightarrow> op \<Rightarrow> ledger tx" where
  "tx_of who t x = \<lparr>tx_ctx = ctx_of who t, tx_gas = 3, tx_op = x, tx_drift = (\<lambda>w. w)\<rparr>"

text \<open>The example vault, and what \<open>pause\<close> at time 2000 and \<open>unpause\<close> at time 3000 make of it.\<close>

definition demo_vault :: "ledger vault" where
  "demo_vault = deployed 3333 3334 3333 (demo_ledger 500000 500000 0 0 0)"

definition paused_vault :: "ledger vault" where
  "paused_vault =
     generateEvent (set_key demo_vault PAUSED_KEY ''true'')
       (Ev ''ContractPaused'' [(''timestamp'', u64_to_string 2000)])"

definition unpaused_vault :: "ledger vault" where
  "unpaused_vault =
     generateEvent (set_key paused_vault PAUSED_KEY ''false'')
       (Ev ''ContractUnpaused'' [(''timestamp'', u64_to_string 3000)])"

text \<open>
  The vault with targets \<open>t0\<close>, \<open>t1\<close>, \<open>t2\<close> and \<open>g\<close> coins after Alice has deposited
  1,000,000 units of USDC (one USDC) and the owner has armed the guard.
\<close>

definition funded_vault :: "u64 \<Rightarrow> u64 \<Rightarrow> u64 \<Rightarrow> u64 \<Rightarrow> ledger vault" where
  "funded_vault t0 t1 t2 g =
     run sim_host (deployed t0 t1 t2 (demo_ledger 1000000 0 0 0 g))
       [tx_of ALICE 2000 (Deposit 1000000), tx_of OWNER 3000 (SetGuard True)]"

text \<open>What a call returned, observed: whether it completed, and the events it left.\<close>

definition succeeded :: "error + 'a \<Rightarrow> bool" where
  "succeeded r = (case r of Inl e \<Rightarrow> False | Inr x \<Rightarrow> True)"

subsection \<open>The example runs\<close>

text \<open>Two calls of \<open>triggerRebalance\<close> by Bob, ten seconds apart (the epoch is 1800 seconds).\<close>

definition once_rebalanced :: "ledger vault" where
  "once_rebalanced =
     run sim_host (funded_vault 3333 3334 3333 300000000) [tx_of BOB 5000 TriggerRebalance]"

definition twice_rebalanced :: "ledger vault" where
  "twice_rebalanced = run sim_host once_rebalanced [tx_of BOB 15000 TriggerRebalance]"

text \<open>Alice and Bob deposit 500,000 each; then Alice redeems all her shares to USDC.\<close>

definition two_holders :: "ledger vault" where
  "two_holders =
     run sim_host (deployed 3333 3334 3333 (demo_ledger 500000 500000 0 0 0))
       [tx_of ALICE 2000 (Deposit 500000), tx_of BOB 3000 (Deposit 500000)]"

definition alice_redeemed :: "ledger vault" where
  "alice_redeemed = run sim_host two_holders [tx_of ALICE 4000 (Redeem 500000 True)]"

text \<open>A rebalance through the router that moves nothing.\<close>

definition idle_rebalanced :: "ledger vault" where
  "idle_rebalanced =
     run idle_router_host (funded_vault 3333 3334 3333 300000000)
       [tx_of BOB 5000 TriggerRebalance]"

text \<open>
  The owner starts autonomy with 2.5 coins in the gas bank (the registration costs 1);
  the next \<open>triggerRebalance\<close> finds less than \<open>MIN_GAS_BANK_BALANCE\<close>.
\<close>

definition autonomous_vault :: "ledger vault" where
  "autonomous_vault =
     run sim_host (funded_vault 3333 3334 3333 2500000000)
       [tx_of OWNER 4000 StartAutonomousRebalancing]"

definition autonomy_stopped :: "ledger vault" where
  "autonomy_stopped = run sim_host autonomous_vault [tx_of BOB 1900000 TriggerRebalance]"

text \<open>
  A vault that holds one WETH (\<open>10^18\<close> units) and Alice's deposit of one USDC; Alice, the
  only holder, redeems all her shares in kind.
\<close>

definition weth_vault :: "ledger vault" where
  "weth_vault =
     run sim_host (deployed 3333 3334 3333 (demo_ledger 1000000 0 0 1000000000000000000 0))
       [tx_of ALICE 2000 (Deposit 1000000)]"

definition alice_left :: "ledger vault" where
  "alice_left = run sim_host weth_vault [tx_of ALICE 3000 (Redeem 1000000 False)]"

text \<open>Alice and Bob deposit \<open>2^63\<close> units each.\<close>

definition first_big_deposit :: "ledger vault" where
  "first_big_deposit =
     run sim_host
       (deployed 3333 3334 3333
          (demo_ledger 9223372036854775808 9223372036854775808 0 0 0))
       [tx_of ALICE 2000 (Deposit 9223372036854775808)]"

definition overflowed_vault :: "ledger vault" where
  "overflowed_vault =
     run sim_host first_big_deposit [tx_of BOB 3000 (Deposit 9223372036854775808)]"




text \<open>
  A vault with 2.5 coins in the gas bank after Alice's deposit of one USDC, with no guard
  value stored; the same after the owner has switched the guard off with
  \<open>setGuard(false)\<close>; and what the owner's \<open>startAutonomousRebalancing\<close> makes of the latter.
\<close>

definition unguarded_vault :: "ledger vault" where
  "unguarded_vault =
     run sim_host (deployed 3333 3334 3333 (demo_ledger 1000000 0 0 0 2500000000))
       [tx_of ALICE 2000 (Deposit 1000000)]"

definition disarmed_vault :: "ledger vault" where
  "disarmed_vault = run sim_host unguarded_vault [tx_of OWNER 3000 (SetGuard False)]"

definition disarmed_started :: "ledger vault" where
  "disarmed_started = run sim_host disarmed_vault [tx_of OWNER 4000 StartAutonomousRebalancing]"


section \<open>Basic facts\<close>

subsection \<open>Decimal text round trip\<close>

lemma lt10_cases: "d < 10 \<Longrightarrow> d \<in> {0, 1, 2, 3, 4, 5, 6, 7, 8, 9::nat}"
  by auto

lemma digit_char_is_digit: "d < 10 \<Longrightarrow> is_digit (digit_char d)"
  by (drule lt10_cases) (auto simp: is_digit_def digit_char_def)

lemma digit_val_char: "d < 10 \<Longrightarrow> digit_val (digit_char d) = d"
  by (drule lt10_cases) (auto simp: digit_val_def digit_char_def)

lemma all_digits: "\<forall>ch \<in> set (nat_to_string n). is_digit ch"
proof (induction n rule: nat_to_string.induct)
  case (1 n)
  show ?case
  proof (cases "n < 10")
    case True
    then show ?thesis by (simp add: nat_to_string.simps[of n] digit_char_is_digit)
  next
    case False
    with 1 show ?thesis
      by (simp add: nat_to_string.simps[of n] digit_char_is_digit)
  qed
qed

lemma parse_digits: "foldl (\<lambda>acc ch. acc * 10 + of_nat (digit_val ch)) (0::u64) (nat_to_string n) = of_nat n"
proof (induction n rule: nat_to_string.induct)
  case (1 n)
  show ?case
  proof (cases "n < 10")
    case True
    then show ?thesis by (simp add: nat_to_string.simps[of n] digit_val_char)
  next
    case False
    have "of_nat n = (of_nat (n div 10 * 10 + n mod 10) :: u64)" by simp
    also have "\<dots> = of_nat (n div 10) * 10 + of_nat (n mod 10)"
      by (simp only: of_nat_add of_nat_mult of_nat_numeral)
    finally have eq: "(of_nat (n div 10) :: u64) * 10 + of_nat (n mod 10) = of_nat n" by simp
    have "foldl (\<lambda>acc ch. acc * 10 + of_nat (digit_val ch)) (0::u64) (nat_to_string n)
          = of_nat (n div 10) * 10 + of_nat (n mod 10)"
      using False 1 by (simp add: nat_to_string.simps[of n] digit_val_char)
    then show ?thesis using eq by simp
  qed
qed

lemma parse_nat_to_string: "parse_u64 (nat_to_string n) = of_nat n"
proof -
  have tw: "takeWhile is_digit (nat_to_string n) = nat_to_string n"
    using all_digits[of n] by simp
  show ?thesis unfolding parse_u64_def tw by (rule parse_digits)
qed

lemma parse_u64_to_string [simp]: "parse_u64 (u64_to_string x) = x"
  by (simp add: u64_to_string_def parse_nat_to_string)

lemma parse_u256_to_string [simp]: "parse_u64 (u256_to_string x) = ucast x"
  by (simp add: u256_to_string_def parse_nat_to_string)

subsection \<open>Sequencing\<close>

lemma bindR_simps [simp]: "bindR (Inl e) f = Inl e" "bindR (Inr x) f = f x"
  by (simp_all add: bindR_def)

lemma assertR_simps [simp]: "assertR True m = Inr ()" "assertR False m = Inl (Abort m)"
  by (simp_all add: assertR_def)

lemma callR_simps [simp]: "callR n None = Inl (CallFailed n)" "callR n (Some x) = Inr x"
  by (simp_all add: callR_def)

lemma bindR_eq_Inr: "bindR m f = Inr y \<longleftrightarrow> (\<exists>x. m = Inr x \<and> f x = Inr y)"
  by (cases m) simp_all

lemma assertR_eq_Inr: "assertR b m = Inr u \<longleftrightarrow> b"
  by (simp add: assertR_def)


lemmas storage_defs = Storage_has_def Storage_get_def Storage_get_or_def Storage_set_def
  Storage_del_def set_key_def del_key_def generateEvent_def

lemmas addr_defs = WMAS_ADDRESS_def WETH_ADDRESS_def USDC_ADDRESS_def DUSA_ROUTER_def
  VAULT_def OWNER_def ALICE_def BOB_def

lemmas text_defs = parse_u64_def is_digit_def digit_val_def u64_to_string_def
  u256_to_string_def nat_to_string.simps digit_char_def targets_text_def bool_text_def

subsection \<open>Distinct keys and addresses\<close>

text \<open>The keys are pairwise different texts, and none starts with \<open>shares:\<close>.\<close>

lemma keys_distinct:
  "distinct [OWNER_KEY, NAME_KEY, SYMBOL_KEY, TARGETS_BPS_KEY,
     MAX_DRIFT_BPS_KEY, REBALANCE_EPOCH_SECONDS_KEY, MIN_DEPOSIT_USDC_KEY, MIN_SLICE_VALUE_KEY,
     TOTAL_SHARES_KEY, GUARD_ARMED_KEY, LAST_REBALANCE_KEY, PAUSED_KEY,
     REENTRANCY_GUARD_KEY, DEFERRED_CALL_ID_KEY, NEXT_REBALANCE_TIMESTAMP_KEY, REBALANCE_COUNT_KEY,
     LAST_REBALANCE_STATUS_KEY, LAST_ERROR_KEY, DEFERRED_CALL_ACTIVE_KEY, USDCE_KEY,
     WMAS_KEY, WETHB_KEY, DUSA_ROUTER_KEY, EAGLEFI_ROUTER_KEY,
     AUTONOMOUS_MODE_ENABLED, AUTON_SCHEDULED]"
  by (simp add: key_defs)

lemma OWNER_KEY_neq [simp]:
  "OWNER_KEY \<noteq> NAME_KEY" "OWNER_KEY \<noteq> SYMBOL_KEY"
  "OWNER_KEY \<noteq> TARGETS_BPS_KEY" "OWNER_KEY \<noteq> MAX_DRIFT_BPS_KEY"
  "OWNER_KEY \<noteq> REBALANCE_EPOCH_SECONDS_KEY" "OWNER_KEY \<noteq> MIN_DEPOSIT_USDC_KEY"
  "OWNER_KEY \<noteq> MIN_SLICE_VALUE_KEY" "OWNER_KEY \<noteq> TOTAL_SHARES_KEY"
  "OWNER_KEY \<noteq> GUARD_ARMED_KEY" "OWNER_KEY \<noteq> LAST_REBALANCE_KEY"
  "OWNER_KEY \<noteq> PAUSED_KEY" "OWNER_KEY \<noteq> REENTRANCY_GUARD_KEY"
  "OWNER_KEY \<noteq> DEFERRED_CALL_ID_KEY" "OWNER_KEY \<noteq> NEXT_REBALANCE_TIMESTAMP_KEY"
  "OWNER_KEY \<noteq> REBALANCE_COUNT_KEY" "OWNER_KEY \<noteq> LAST_REBALANCE_STATUS_KEY"
  "OWNER_KEY \<noteq> LAST_ERROR_KEY" "OWNER_KEY \<noteq> DEFERRED_CALL_ACTIVE_KEY"
  "OWNER_KEY \<noteq> USDCE_KEY" "OWNER_KEY \<noteq> WMAS_KEY" "OWNER_KEY \<noteq> WETHB_KEY"
  "OWNER_KEY \<noteq> DUSA_ROUTER_KEY" "OWNER_KEY \<noteq> EAGLEFI_ROUTER_KEY"
  "OWNER_KEY \<noteq> AUTONOMOUS_MODE_ENABLED" "OWNER_KEY \<noteq> AUTON_SCHEDULED"
  by (simp_all add: key_defs)

lemma NAME_KEY_neq [simp]:
  "NAME_KEY \<noteq> OWNER_KEY" "NAME_KEY \<noteq> SYMBOL_KEY"
  "NAME_KEY \<noteq> TARGETS_BPS_KEY" "NAME_KEY \<noteq> MAX_DRIFT_BPS_KEY"
  "NAME_KEY \<noteq> REBALANCE_EPOCH_SECONDS_KEY" "NAME_KEY \<noteq> MIN_DEPOSIT_USDC_KEY"
  "NAME_KEY \<noteq> MIN_SLICE_VALUE_KEY" "NAME_KEY \<noteq> TOTAL_SHARES_KEY"
  "NAME_KEY \<noteq> GUARD_ARMED_KEY" "NAME_KEY \<noteq> LAST_REBALANCE_KEY"
  "NAME_KEY \<noteq> PAUSED_KEY" "NAME_KEY \<noteq> REENTRANCY_GUARD_KEY"
  "NAME_KEY \<noteq> DEFERRED_CALL_ID_KEY" "NAME_KEY \<noteq> NEXT_REBALANCE_TIMESTAMP_KEY"
  "NAME_KEY \<noteq> REBALANCE_COUNT_KEY" "NAME_KEY \<noteq> LAST_REBALANCE_STATUS_KEY"
  "NAME_KEY \<noteq> LAST_ERROR_KEY" "NAME_KEY \<noteq> DEFERRED_CALL_ACTIVE_KEY"
  "NAME_KEY \<noteq> USDCE_KEY" "NAME_KEY \<noteq> WMAS_KEY" "NAME_KEY \<noteq> WETHB_KEY"
  "NAME_KEY \<noteq> DUSA_ROUTER_KEY" "NAME_KEY \<noteq> EAGLEFI_ROUTER_KEY"
  "NAME_KEY \<noteq> AUTONOMOUS_MODE_ENABLED" "NAME_KEY \<noteq> AUTON_SCHEDULED"
  by (simp_all add: key_defs)

lemma SYMBOL_KEY_neq [simp]:
  "SYMBOL_KEY \<noteq> OWNER_KEY" "SYMBOL_KEY \<noteq> NAME_KEY"
  "SYMBOL_KEY \<noteq> TARGETS_BPS_KEY" "SYMBOL_KEY \<noteq> MAX_DRIFT_BPS_KEY"
  "SYMBOL_KEY \<noteq> REBALANCE_EPOCH_SECONDS_KEY" "SYMBOL_KEY \<noteq> MIN_DEPOSIT_USDC_KEY"
  "SYMBOL_KEY \<noteq> MIN_SLICE_VALUE_KEY" "SYMBOL_KEY \<noteq> TOTAL_SHARES_KEY"
  "SYMBOL_KEY \<noteq> GUARD_ARMED_KEY" "SYMBOL_KEY \<noteq> LAST_REBALANCE_KEY"
  "SYMBOL_KEY \<noteq> PAUSED_KEY" "SYMBOL_KEY \<noteq> REENTRANCY_GUARD_KEY"
  "SYMBOL_KEY \<noteq> DEFERRED_CALL_ID_KEY" "SYMBOL_KEY \<noteq> NEXT_REBALANCE_TIMESTAMP_KEY"
  "SYMBOL_KEY \<noteq> REBALANCE_COUNT_KEY" "SYMBOL_KEY \<noteq> LAST_REBALANCE_STATUS_KEY"
  "SYMBOL_KEY \<noteq> LAST_ERROR_KEY" "SYMBOL_KEY \<noteq> DEFERRED_CALL_ACTIVE_KEY"
  "SYMBOL_KEY \<noteq> USDCE_KEY" "SYMBOL_KEY \<noteq> WMAS_KEY"
  "SYMBOL_KEY \<noteq> WETHB_KEY" "SYMBOL_KEY \<noteq> DUSA_ROUTER_KEY"
  "SYMBOL_KEY \<noteq> EAGLEFI_ROUTER_KEY" "SYMBOL_KEY \<noteq> AUTONOMOUS_MODE_ENABLED"
  "SYMBOL_KEY \<noteq> AUTON_SCHEDULED"
  by (simp_all add: key_defs)

lemma TARGETS_BPS_KEY_neq [simp]:
  "TARGETS_BPS_KEY \<noteq> OWNER_KEY" "TARGETS_BPS_KEY \<noteq> NAME_KEY"
  "TARGETS_BPS_KEY \<noteq> SYMBOL_KEY" "TARGETS_BPS_KEY \<noteq> MAX_DRIFT_BPS_KEY"
  "TARGETS_BPS_KEY \<noteq> REBALANCE_EPOCH_SECONDS_KEY"
  "TARGETS_BPS_KEY \<noteq> MIN_DEPOSIT_USDC_KEY"
  "TARGETS_BPS_KEY \<noteq> MIN_SLICE_VALUE_KEY" "TARGETS_BPS_KEY \<noteq> TOTAL_SHARES_KEY"
  "TARGETS_BPS_KEY \<noteq> GUARD_ARMED_KEY" "TARGETS_BPS_KEY \<noteq> LAST_REBALANCE_KEY"
  "TARGETS_BPS_KEY \<noteq> PAUSED_KEY" "TARGETS_BPS_KEY \<noteq> REENTRANCY_GUARD_KEY"
  "TARGETS_BPS_KEY \<noteq> DEFERRED_CALL_ID_KEY"
  "TARGETS_BPS_KEY \<noteq> NEXT_REBALANCE_TIMESTAMP_KEY"
  "TARGETS_BPS_KEY \<noteq> REBALANCE_COUNT_KEY"
  "TARGETS_BPS_KEY \<noteq> LAST_REBALANCE_STATUS_KEY"
  "TARGETS_BPS_KEY \<noteq> LAST_ERROR_KEY" "TARGETS_BPS_KEY \<noteq> DEFERRED_CALL_ACTIVE_KEY"
  "TARGETS_BPS_KEY \<noteq> USDCE_KEY" "TARGETS_BPS_KEY \<noteq> WMAS_KEY"
  "TARGETS_BPS_KEY \<noteq> WETHB_KEY" "TARGETS_BPS_KEY \<noteq> DUSA_ROUTER_KEY"
  "TARGETS_BPS_KEY \<noteq> EAGLEFI_ROUTER_KEY"
  "TARGETS_BPS_KEY \<noteq> AUTONOMOUS_MODE_ENABLED" "TARGETS_BPS_KEY \<noteq> AUTON_SCHEDULED"
  by (simp_all add: key_defs)

lemma MAX_DRIFT_BPS_KEY_neq [simp]:
  "MAX_DRIFT_BPS_KEY \<noteq> OWNER_KEY" "MAX_DRIFT_BPS_KEY \<noteq> NAME_KEY"
  "MAX_DRIFT_BPS_KEY \<noteq> SYMBOL_KEY" "MAX_DRIFT_BPS_KEY \<noteq> TARGETS_BPS_KEY"
  "MAX_DRIFT_BPS_KEY \<noteq> REBALANCE_EPOCH_SECONDS_KEY"
  "MAX_DRIFT_BPS_KEY \<noteq> MIN_DEPOSIT_USDC_KEY"
  "MAX_DRIFT_BPS_KEY \<noteq> MIN_SLICE_VALUE_KEY"
  "MAX_DRIFT_BPS_KEY \<noteq> TOTAL_SHARES_KEY" "MAX_DRIFT_BPS_KEY \<noteq> GUARD_ARMED_KEY"
  "MAX_DRIFT_BPS_KEY \<noteq> LAST_REBALANCE_KEY" "MAX_DRIFT_BPS_KEY \<noteq> PAUSED_KEY"
  "MAX_DRIFT_BPS_KEY \<noteq> REENTRANCY_GUARD_KEY"
  "MAX_DRIFT_BPS_KEY \<noteq> DEFERRED_CALL_ID_KEY"
  "MAX_DRIFT_BPS_KEY \<noteq> NEXT_REBALANCE_TIMESTAMP_KEY"
  "MAX_DRIFT_BPS_KEY \<noteq> REBALANCE_COUNT_KEY"
  "MAX_DRIFT_BPS_KEY \<noteq> LAST_REBALANCE_STATUS_KEY"
  "MAX_DRIFT_BPS_KEY \<noteq> LAST_ERROR_KEY"
  "MAX_DRIFT_BPS_KEY \<noteq> DEFERRED_CALL_ACTIVE_KEY" "MAX_DRIFT_BPS_KEY \<noteq> USDCE_KEY"
  "MAX_DRIFT_BPS_KEY \<noteq> WMAS_KEY" "MAX_DRIFT_BPS_KEY \<noteq> WETHB_KEY"
  "MAX_DRIFT_BPS_KEY \<noteq> DUSA_ROUTER_KEY" "MAX_DRIFT_BPS_KEY \<noteq> EAGLEFI_ROUTER_KEY"
  "MAX_DRIFT_BPS_KEY \<noteq> AUTONOMOUS_MODE_ENABLED"
  "MAX_DRIFT_BPS_KEY \<noteq> AUTON_SCHEDULED"
  by (simp_all add: key_defs)

lemma REBALANCE_EPOCH_SECONDS_KEY_neq [simp]:
  "REBALANCE_EPOCH_SECONDS_KEY \<noteq> OWNER_KEY"
  "REBALANCE_EPOCH_SECONDS_KEY \<noteq> NAME_KEY"
  "REBALANCE_EPOCH_SECONDS_KEY \<noteq> SYMBOL_KEY"
  "REBALANCE_EPOCH_SECONDS_KEY \<noteq> TARGETS_BPS_KEY"
  "REBALANCE_EPOCH_SECONDS_KEY \<noteq> MAX_DRIFT_BPS_KEY"
  "REBALANCE_EPOCH_SECONDS_KEY \<noteq> MIN_DEPOSIT_USDC_KEY"
  "REBALANCE_EPOCH_SECONDS_KEY \<noteq> MIN_SLICE_VALUE_KEY"
  "REBALANCE_EPOCH_SECONDS_KEY \<noteq> TOTAL_SHARES_KEY"
  "REBALANCE_EPOCH_SECONDS_KEY \<noteq> GUARD_ARMED_KEY"
  "REBALANCE_EPOCH_SECONDS_KEY \<noteq> LAST_REBALANCE_KEY"
  "REBALANCE_EPOCH_SECONDS_KEY \<noteq> PAUSED_KEY"
  "REBALANCE_EPOCH_SECONDS_KEY \<noteq> REENTRANCY_GUARD_KEY"
  "REBALANCE_EPOCH_SECONDS_KEY \<noteq> DEFERRED_CALL_ID_KEY"
  "REBALANCE_EPOCH_SECONDS_KEY \<noteq> NEXT_REBALANCE_TIMESTAMP_KEY"
  "REBALANCE_EPOCH_SECONDS_KEY \<noteq> REBALANCE_COUNT_KEY"
  "REBALANCE_EPOCH_SECONDS_KEY \<noteq> LAST_REBALANCE_STATUS_KEY"
  "REBALANCE_EPOCH_SECONDS_KEY \<noteq> LAST_ERROR_KEY"
  "REBALANCE_EPOCH_SECONDS_KEY \<noteq> DEFERRED_CALL_ACTIVE_KEY"
  "REBALANCE_EPOCH_SECONDS_KEY \<noteq> USDCE_KEY"
  "REBALANCE_EPOCH_SECONDS_KEY \<noteq> WMAS_KEY"
  "REBALANCE_EPOCH_SECONDS_KEY \<noteq> WETHB_KEY"
  "REBALANCE_EPOCH_SECONDS_KEY \<noteq> DUSA_ROUTER_KEY"
  "REBALANCE_EPOCH_SECONDS_KEY \<noteq> EAGLEFI_ROUTER_KEY"
  "REBALANCE_EPOCH_SECONDS_KEY \<noteq> AUTONOMOUS_MODE_ENABLED"
  "REBALANCE_EPOCH_SECONDS_KEY \<noteq> AUTON_SCHEDULED"
  by (simp_all add: key_defs)

lemma MIN_DEPOSIT_USDC_KEY_neq [simp]:
  "MIN_DEPOSIT_USDC_KEY \<noteq> OWNER_KEY" "MIN_DEPOSIT_USDC_KEY \<noteq> NAME_KEY"
  "MIN_DEPOSIT_USDC_KEY \<noteq> SYMBOL_KEY" "MIN_DEPOSIT_USDC_KEY \<noteq> TARGETS_BPS_KEY"
  "MIN_DEPOSIT_USDC_KEY \<noteq> MAX_DRIFT_BPS_KEY"
  "MIN_DEPOSIT_USDC_KEY \<noteq> REBALANCE_EPOCH_SECONDS_KEY"
  "MIN_DEPOSIT_USDC_KEY \<noteq> MIN_SLICE_VALUE_KEY"
  "MIN_DEPOSIT_USDC_KEY \<noteq> TOTAL_SHARES_KEY"
  "MIN_DEPOSIT_USDC_KEY \<noteq> GUARD_ARMED_KEY"
  "MIN_DEPOSIT_USDC_KEY \<noteq> LAST_REBALANCE_KEY" "MIN_DEPOSIT_USDC_KEY \<noteq> PAUSED_KEY"
  "MIN_DEPOSIT_USDC_KEY \<noteq> REENTRANCY_GUARD_KEY"
  "MIN_DEPOSIT_USDC_KEY \<noteq> DEFERRED_CALL_ID_KEY"
  "MIN_DEPOSIT_USDC_KEY \<noteq> NEXT_REBALANCE_TIMESTAMP_KEY"
  "MIN_DEPOSIT_USDC_KEY \<noteq> REBALANCE_COUNT_KEY"
  "MIN_DEPOSIT_USDC_KEY \<noteq> LAST_REBALANCE_STATUS_KEY"
  "MIN_DEPOSIT_USDC_KEY \<noteq> LAST_ERROR_KEY"
  "MIN_DEPOSIT_USDC_KEY \<noteq> DEFERRED_CALL_ACTIVE_KEY"
  "MIN_DEPOSIT_USDC_KEY \<noteq> USDCE_KEY" "MIN_DEPOSIT_USDC_KEY \<noteq> WMAS_KEY"
  "MIN_DEPOSIT_USDC_KEY \<noteq> WETHB_KEY" "MIN_DEPOSIT_USDC_KEY \<noteq> DUSA_ROUTER_KEY"
  "MIN_DEPOSIT_USDC_KEY \<noteq> EAGLEFI_ROUTER_KEY"
  "MIN_DEPOSIT_USDC_KEY \<noteq> AUTONOMOUS_MODE_ENABLED"
  "MIN_DEPOSIT_USDC_KEY \<noteq> AUTON_SCHEDULED"
  by (simp_all add: key_defs)

lemma MIN_SLICE_VALUE_KEY_neq [simp]:
  "MIN_SLICE_VALUE_KEY \<noteq> OWNER_KEY" "MIN_SLICE_VALUE_KEY \<noteq> NAME_KEY"
  "MIN_SLICE_VALUE_KEY \<noteq> SYMBOL_KEY" "MIN_SLICE_VALUE_KEY \<noteq> TARGETS_BPS_KEY"
  "MIN_SLICE_VALUE_KEY \<noteq> MAX_DRIFT_BPS_KEY"
  "MIN_SLICE_VALUE_KEY \<noteq> REBALANCE_EPOCH_SECONDS_KEY"
  "MIN_SLICE_VALUE_KEY \<noteq> MIN_DEPOSIT_USDC_KEY"
  "MIN_SLICE_VALUE_KEY \<noteq> TOTAL_SHARES_KEY"
  "MIN_SLICE_VALUE_KEY \<noteq> GUARD_ARMED_KEY"
  "MIN_SLICE_VALUE_KEY \<noteq> LAST_REBALANCE_KEY" "MIN_SLICE_VALUE_KEY \<noteq> PAUSED_KEY"
  "MIN_SLICE_VALUE_KEY \<noteq> REENTRANCY_GUARD_KEY"
  "MIN_SLICE_VALUE_KEY \<noteq> DEFERRED_CALL_ID_KEY"
  "MIN_SLICE_VALUE_KEY \<noteq> NEXT_REBALANCE_TIMESTAMP_KEY"
  "MIN_SLICE_VALUE_KEY \<noteq> REBALANCE_COUNT_KEY"
  "MIN_SLICE_VALUE_KEY \<noteq> LAST_REBALANCE_STATUS_KEY"
  "MIN_SLICE_VALUE_KEY \<noteq> LAST_ERROR_KEY"
  "MIN_SLICE_VALUE_KEY \<noteq> DEFERRED_CALL_ACTIVE_KEY"
  "MIN_SLICE_VALUE_KEY \<noteq> USDCE_KEY" "MIN_SLICE_VALUE_KEY \<noteq> WMAS_KEY"
  "MIN_SLICE_VALUE_KEY \<noteq> WETHB_KEY" "MIN_SLICE_VALUE_KEY \<noteq> DUSA_ROUTER_KEY"
  "MIN_SLICE_VALUE_KEY \<noteq> EAGLEFI_ROUTER_KEY"
  "MIN_SLICE_VALUE_KEY \<noteq> AUTONOMOUS_MODE_ENABLED"
  "MIN_SLICE_VALUE_KEY \<noteq> AUTON_SCHEDULED"
  by (simp_all add: key_defs)

lemma TOTAL_SHARES_KEY_neq [simp]:
  "TOTAL_SHARES_KEY \<noteq> OWNER_KEY" "TOTAL_SHARES_KEY \<noteq> NAME_KEY"
  "TOTAL_SHARES_KEY \<noteq> SYMBOL_KEY" "TOTAL_SHARES_KEY \<noteq> TARGETS_BPS_KEY"
  "TOTAL_SHARES_KEY \<noteq> MAX_DRIFT_BPS_KEY"
  "TOTAL_SHARES_KEY \<noteq> REBALANCE_EPOCH_SECONDS_KEY"
  "TOTAL_SHARES_KEY \<noteq> MIN_DEPOSIT_USDC_KEY"
  "TOTAL_SHARES_KEY \<noteq> MIN_SLICE_VALUE_KEY" "TOTAL_SHARES_KEY \<noteq> GUARD_ARMED_KEY"
  "TOTAL_SHARES_KEY \<noteq> LAST_REBALANCE_KEY" "TOTAL_SHARES_KEY \<noteq> PAUSED_KEY"
  "TOTAL_SHARES_KEY \<noteq> REENTRANCY_GUARD_KEY"
  "TOTAL_SHARES_KEY \<noteq> DEFERRED_CALL_ID_KEY"
  "TOTAL_SHARES_KEY \<noteq> NEXT_REBALANCE_TIMESTAMP_KEY"
  "TOTAL_SHARES_KEY \<noteq> REBALANCE_COUNT_KEY"
  "TOTAL_SHARES_KEY \<noteq> LAST_REBALANCE_STATUS_KEY"
  "TOTAL_SHARES_KEY \<noteq> LAST_ERROR_KEY"
  "TOTAL_SHARES_KEY \<noteq> DEFERRED_CALL_ACTIVE_KEY" "TOTAL_SHARES_KEY \<noteq> USDCE_KEY"
  "TOTAL_SHARES_KEY \<noteq> WMAS_KEY" "TOTAL_SHARES_KEY \<noteq> WETHB_KEY"
  "TOTAL_SHARES_KEY \<noteq> DUSA_ROUTER_KEY" "TOTAL_SHARES_KEY \<noteq> EAGLEFI_ROUTER_KEY"
  "TOTAL_SHARES_KEY \<noteq> AUTONOMOUS_MODE_ENABLED"
  "TOTAL_SHARES_KEY \<noteq> AUTON_SCHEDULED"
  by (simp_all add: key_defs)

lemma GUARD_ARMED_KEY_neq [simp]:
  "GUARD_ARMED_KEY \<noteq> OWNER_KEY" "GUARD_ARMED_KEY \<noteq> NAME_KEY"
  "GUARD_ARMED_KEY \<noteq> SYMBOL_KEY" "GUARD_ARMED_KEY \<noteq> TARGETS_BPS_KEY"
  "GUARD_ARMED_KEY \<noteq> MAX_DRIFT_BPS_KEY"
  "GUARD_ARMED_KEY \<noteq> REBALANCE_EPOCH_SECONDS_KEY"
  "GUARD_ARMED_KEY \<noteq> MIN_DEPOSIT_USDC_KEY"
  "GUARD_ARMED_KEY \<noteq> MIN_SLICE_VALUE_KEY" "GUARD_ARMED_KEY \<noteq> TOTAL_SHARES_KEY"
  "GUARD_ARMED_KEY \<noteq> LAST_REBALANCE_KEY" "GUARD_ARMED_KEY \<noteq> PAUSED_KEY"
  "GUARD_ARMED_KEY \<noteq> REENTRANCY_GUARD_KEY"
  "GUARD_ARMED_KEY \<noteq> DEFERRED_CALL_ID_KEY"
  "GUARD_ARMED_KEY \<noteq> NEXT_REBALANCE_TIMESTAMP_KEY"
  "GUARD_ARMED_KEY \<noteq> REBALANCE_COUNT_KEY"
  "GUARD_ARMED_KEY \<noteq> LAST_REBALANCE_STATUS_KEY"
  "GUARD_ARMED_KEY \<noteq> LAST_ERROR_KEY" "GUARD_ARMED_KEY \<noteq> DEFERRED_CALL_ACTIVE_KEY"
  "GUARD_ARMED_KEY \<noteq> USDCE_KEY" "GUARD_ARMED_KEY \<noteq> WMAS_KEY"
  "GUARD_ARMED_KEY \<noteq> WETHB_KEY" "GUARD_ARMED_KEY \<noteq> DUSA_ROUTER_KEY"
  "GUARD_ARMED_KEY \<noteq> EAGLEFI_ROUTER_KEY"
  "GUARD_ARMED_KEY \<noteq> AUTONOMOUS_MODE_ENABLED" "GUARD_ARMED_KEY \<noteq> AUTON_SCHEDULED"
  by (simp_all add: key_defs)

lemma LAST_REBALANCE_KEY_neq [simp]:
  "LAST_REBALANCE_KEY \<noteq> OWNER_KEY" "LAST_REBALANCE_KEY \<noteq> NAME_KEY"
  "LAST_REBALANCE_KEY \<noteq> SYMBOL_KEY" "LAST_REBALANCE_KEY \<noteq> TARGETS_BPS_KEY"
  "LAST_REBALANCE_KEY \<noteq> MAX_DRIFT_BPS_KEY"
  "LAST_REBALANCE_KEY \<noteq> REBALANCE_EPOCH_SECONDS_KEY"
  "LAST_REBALANCE_KEY \<noteq> MIN_DEPOSIT_USDC_KEY"
  "LAST_REBALANCE_KEY \<noteq> MIN_SLICE_VALUE_KEY"
  "LAST_REBALANCE_KEY \<noteq> TOTAL_SHARES_KEY" "LAST_REBALANCE_KEY \<noteq> GUARD_ARMED_KEY"
  "LAST_REBALANCE_KEY \<noteq> PAUSED_KEY" "LAST_REBALANCE_KEY \<noteq> REENTRANCY_GUARD_KEY"
  "LAST_REBALANCE_KEY \<noteq> DEFERRED_CALL_ID_KEY"
  "LAST_REBALANCE_KEY \<noteq> NEXT_REBALANCE_TIMESTAMP_KEY"
  "LAST_REBALANCE_KEY \<noteq> REBALANCE_COUNT_KEY"
  "LAST_REBALANCE_KEY \<noteq> LAST_REBALANCE_STATUS_KEY"
  "LAST_REBALANCE_KEY \<noteq> LAST_ERROR_KEY"
  "LAST_REBALANCE_KEY \<noteq> DEFERRED_CALL_ACTIVE_KEY"
  "LAST_REBALANCE_KEY \<noteq> USDCE_KEY" "LAST_REBALANCE_KEY \<noteq> WMAS_KEY"
  "LAST_REBALANCE_KEY \<noteq> WETHB_KEY" "LAST_REBALANCE_KEY \<noteq> DUSA_ROUTER_KEY"
  "LAST_REBALANCE_KEY \<noteq> EAGLEFI_ROUTER_KEY"
  "LAST_REBALANCE_KEY \<noteq> AUTONOMOUS_MODE_ENABLED"
  "LAST_REBALANCE_KEY \<noteq> AUTON_SCHEDULED"
  by (simp_all add: key_defs)

lemma PAUSED_KEY_neq [simp]:
  "PAUSED_KEY \<noteq> OWNER_KEY" "PAUSED_KEY \<noteq> NAME_KEY"
  "PAUSED_KEY \<noteq> SYMBOL_KEY" "PAUSED_KEY \<noteq> TARGETS_BPS_KEY"
  "PAUSED_KEY \<noteq> MAX_DRIFT_BPS_KEY" "PAUSED_KEY \<noteq> REBALANCE_EPOCH_SECONDS_KEY"
  "PAUSED_KEY \<noteq> MIN_DEPOSIT_USDC_KEY" "PAUSED_KEY \<noteq> MIN_SLICE_VALUE_KEY"
  "PAUSED_KEY \<noteq> TOTAL_SHARES_KEY" "PAUSED_KEY \<noteq> GUARD_ARMED_KEY"
  "PAUSED_KEY \<noteq> LAST_REBALANCE_KEY" "PAUSED_KEY \<noteq> REENTRANCY_GUARD_KEY"
  "PAUSED_KEY \<noteq> DEFERRED_CALL_ID_KEY" "PAUSED_KEY \<noteq> NEXT_REBALANCE_TIMESTAMP_KEY"
  "PAUSED_KEY \<noteq> REBALANCE_COUNT_KEY" "PAUSED_KEY \<noteq> LAST_REBALANCE_STATUS_KEY"
  "PAUSED_KEY \<noteq> LAST_ERROR_KEY" "PAUSED_KEY \<noteq> DEFERRED_CALL_ACTIVE_KEY"
  "PAUSED_KEY \<noteq> USDCE_KEY" "PAUSED_KEY \<noteq> WMAS_KEY"
  "PAUSED_KEY \<noteq> WETHB_KEY" "PAUSED_KEY \<noteq> DUSA_ROUTER_KEY"
  "PAUSED_KEY \<noteq> EAGLEFI_ROUTER_KEY" "PAUSED_KEY \<noteq> AUTONOMOUS_MODE_ENABLED"
  "PAUSED_KEY \<noteq> AUTON_SCHEDULED"
  by (simp_all add: key_defs)

lemma REENTRANCY_GUARD_KEY_neq [simp]:
  "REENTRANCY_GUARD_KEY \<noteq> OWNER_KEY" "REENTRANCY_GUARD_KEY \<noteq> NAME_KEY"
  "REENTRANCY_GUARD_KEY \<noteq> SYMBOL_KEY" "REENTRANCY_GUARD_KEY \<noteq> TARGETS_BPS_KEY"
  "REENTRANCY_GUARD_KEY \<noteq> MAX_DRIFT_BPS_KEY"
  "REENTRANCY_GUARD_KEY \<noteq> REBALANCE_EPOCH_SECONDS_KEY"
  "REENTRANCY_GUARD_KEY \<noteq> MIN_DEPOSIT_USDC_KEY"
  "REENTRANCY_GUARD_KEY \<noteq> MIN_SLICE_VALUE_KEY"
  "REENTRANCY_GUARD_KEY \<noteq> TOTAL_SHARES_KEY"
  "REENTRANCY_GUARD_KEY \<noteq> GUARD_ARMED_KEY"
  "REENTRANCY_GUARD_KEY \<noteq> LAST_REBALANCE_KEY" "REENTRANCY_GUARD_KEY \<noteq> PAUSED_KEY"
  "REENTRANCY_GUARD_KEY \<noteq> DEFERRED_CALL_ID_KEY"
  "REENTRANCY_GUARD_KEY \<noteq> NEXT_REBALANCE_TIMESTAMP_KEY"
  "REENTRANCY_GUARD_KEY \<noteq> REBALANCE_COUNT_KEY"
  "REENTRANCY_GUARD_KEY \<noteq> LAST_REBALANCE_STATUS_KEY"
  "REENTRANCY_GUARD_KEY \<noteq> LAST_ERROR_KEY"
  "REENTRANCY_GUARD_KEY \<noteq> DEFERRED_CALL_ACTIVE_KEY"
  "REENTRANCY_GUARD_KEY \<noteq> USDCE_KEY" "REENTRANCY_GUARD_KEY \<noteq> WMAS_KEY"
  "REENTRANCY_GUARD_KEY \<noteq> WETHB_KEY" "REENTRANCY_GUARD_KEY \<noteq> DUSA_ROUTER_KEY"
  "REENTRANCY_GUARD_KEY \<noteq> EAGLEFI_ROUTER_KEY"
  "REENTRANCY_GUARD_KEY \<noteq> AUTONOMOUS_MODE_ENABLED"
  "REENTRANCY_GUARD_KEY \<noteq> AUTON_SCHEDULED"
  by (simp_all add: key_defs)

lemma DEFERRED_CALL_ID_KEY_neq [simp]:
  "DEFERRED_CALL_ID_KEY \<noteq> OWNER_KEY" "DEFERRED_CALL_ID_KEY \<noteq> NAME_KEY"
  "DEFERRED_CALL_ID_KEY \<noteq> SYMBOL_KEY" "DEFERRED_CALL_ID_KEY \<noteq> TARGETS_BPS_KEY"
  "DEFERRED_CALL_ID_KEY \<noteq> MAX_DRIFT_BPS_KEY"
  "DEFERRED_CALL_ID_KEY \<noteq> REBALANCE_EPOCH_SECONDS_KEY"
  "DEFERRED_CALL_ID_KEY \<noteq> MIN_DEPOSIT_USDC_KEY"
  "DEFERRED_CALL_ID_KEY \<noteq> MIN_SLICE_VALUE_KEY"
  "DEFERRED_CALL_ID_KEY \<noteq> TOTAL_SHARES_KEY"
  "DEFERRED_CALL_ID_KEY \<noteq> GUARD_ARMED_KEY"
  "DEFERRED_CALL_ID_KEY \<noteq> LAST_REBALANCE_KEY" "DEFERRED_CALL_ID_KEY \<noteq> PAUSED_KEY"
  "DEFERRED_CALL_ID_KEY \<noteq> REENTRANCY_GUARD_KEY"
  "DEFERRED_CALL_ID_KEY \<noteq> NEXT_REBALANCE_TIMESTAMP_KEY"
  "DEFERRED_CALL_ID_KEY \<noteq> REBALANCE_COUNT_KEY"
  "DEFERRED_CALL_ID_KEY \<noteq> LAST_REBALANCE_STATUS_KEY"
  "DEFERRED_CALL_ID_KEY \<noteq> LAST_ERROR_KEY"
  "DEFERRED_CALL_ID_KEY \<noteq> DEFERRED_CALL_ACTIVE_KEY"
  "DEFERRED_CALL_ID_KEY \<noteq> USDCE_KEY" "DEFERRED_CALL_ID_KEY \<noteq> WMAS_KEY"
  "DEFERRED_CALL_ID_KEY \<noteq> WETHB_KEY" "DEFERRED_CALL_ID_KEY \<noteq> DUSA_ROUTER_KEY"
  "DEFERRED_CALL_ID_KEY \<noteq> EAGLEFI_ROUTER_KEY"
  "DEFERRED_CALL_ID_KEY \<noteq> AUTONOMOUS_MODE_ENABLED"
  "DEFERRED_CALL_ID_KEY \<noteq> AUTON_SCHEDULED"
  by (simp_all add: key_defs)

lemma NEXT_REBALANCE_TIMESTAMP_KEY_neq [simp]:
  "NEXT_REBALANCE_TIMESTAMP_KEY \<noteq> OWNER_KEY"
  "NEXT_REBALANCE_TIMESTAMP_KEY \<noteq> NAME_KEY"
  "NEXT_REBALANCE_TIMESTAMP_KEY \<noteq> SYMBOL_KEY"
  "NEXT_REBALANCE_TIMESTAMP_KEY \<noteq> TARGETS_BPS_KEY"
  "NEXT_REBALANCE_TIMESTAMP_KEY \<noteq> MAX_DRIFT_BPS_KEY"
  "NEXT_REBALANCE_TIMESTAMP_KEY \<noteq> REBALANCE_EPOCH_SECONDS_KEY"
  "NEXT_REBALANCE_TIMESTAMP_KEY \<noteq> MIN_DEPOSIT_USDC_KEY"
  "NEXT_REBALANCE_TIMESTAMP_KEY \<noteq> MIN_SLICE_VALUE_KEY"
  "NEXT_REBALANCE_TIMESTAMP_KEY \<noteq> TOTAL_SHARES_KEY"
  "NEXT_REBALANCE_TIMESTAMP_KEY \<noteq> GUARD_ARMED_KEY"
  "NEXT_REBALANCE_TIMESTAMP_KEY \<noteq> LAST_REBALANCE_KEY"
  "NEXT_REBALANCE_TIMESTAMP_KEY \<noteq> PAUSED_KEY"
  "NEXT_REBALANCE_TIMESTAMP_KEY \<noteq> REENTRANCY_GUARD_KEY"
  "NEXT_REBALANCE_TIMESTAMP_KEY \<noteq> DEFERRED_CALL_ID_KEY"
  "NEXT_REBALANCE_TIMESTAMP_KEY \<noteq> REBALANCE_COUNT_KEY"
  "NEXT_REBALANCE_TIMESTAMP_KEY \<noteq> LAST_REBALANCE_STATUS_KEY"
  "NEXT_REBALANCE_TIMESTAMP_KEY \<noteq> LAST_ERROR_KEY"
  "NEXT_REBALANCE_TIMESTAMP_KEY \<noteq> DEFERRED_CALL_ACTIVE_KEY"
  "NEXT_REBALANCE_TIMESTAMP_KEY \<noteq> USDCE_KEY"
  "NEXT_REBALANCE_TIMESTAMP_KEY \<noteq> WMAS_KEY"
  "NEXT_REBALANCE_TIMESTAMP_KEY \<noteq> WETHB_KEY"
  "NEXT_REBALANCE_TIMESTAMP_KEY \<noteq> DUSA_ROUTER_KEY"
  "NEXT_REBALANCE_TIMESTAMP_KEY \<noteq> EAGLEFI_ROUTER_KEY"
  "NEXT_REBALANCE_TIMESTAMP_KEY \<noteq> AUTONOMOUS_MODE_ENABLED"
  "NEXT_REBALANCE_TIMESTAMP_KEY \<noteq> AUTON_SCHEDULED"
  by (simp_all add: key_defs)

lemma REBALANCE_COUNT_KEY_neq [simp]:
  "REBALANCE_COUNT_KEY \<noteq> OWNER_KEY" "REBALANCE_COUNT_KEY \<noteq> NAME_KEY"
  "REBALANCE_COUNT_KEY \<noteq> SYMBOL_KEY" "REBALANCE_COUNT_KEY \<noteq> TARGETS_BPS_KEY"
  "REBALANCE_COUNT_KEY \<noteq> MAX_DRIFT_BPS_KEY"
  "REBALANCE_COUNT_KEY \<noteq> REBALANCE_EPOCH_SECONDS_KEY"
  "REBALANCE_COUNT_KEY \<noteq> MIN_DEPOSIT_USDC_KEY"
  "REBALANCE_COUNT_KEY \<noteq> MIN_SLICE_VALUE_KEY"
  "REBALANCE_COUNT_KEY \<noteq> TOTAL_SHARES_KEY"
  "REBALANCE_COUNT_KEY \<noteq> GUARD_ARMED_KEY"
  "REBALANCE_COUNT_KEY \<noteq> LAST_REBALANCE_KEY" "REBALANCE_COUNT_KEY \<noteq> PAUSED_KEY"
  "REBALANCE_COUNT_KEY \<noteq> REENTRANCY_GUARD_KEY"
  "REBALANCE_COUNT_KEY \<noteq> DEFERRED_CALL_ID_KEY"
  "REBALANCE_COUNT_KEY \<noteq> NEXT_REBALANCE_TIMESTAMP_KEY"
  "REBALANCE_COUNT_KEY \<noteq> LAST_REBALANCE_STATUS_KEY"
  "REBALANCE_COUNT_KEY \<noteq> LAST_ERROR_KEY"
  "REBALANCE_COUNT_KEY \<noteq> DEFERRED_CALL_ACTIVE_KEY"
  "REBALANCE_COUNT_KEY \<noteq> USDCE_KEY" "REBALANCE_COUNT_KEY \<noteq> WMAS_KEY"
  "REBALANCE_COUNT_KEY \<noteq> WETHB_KEY" "REBALANCE_COUNT_KEY \<noteq> DUSA_ROUTER_KEY"
  "REBALANCE_COUNT_KEY \<noteq> EAGLEFI_ROUTER_KEY"
  "REBALANCE_COUNT_KEY \<noteq> AUTONOMOUS_MODE_ENABLED"
  "REBALANCE_COUNT_KEY \<noteq> AUTON_SCHEDULED"
  by (simp_all add: key_defs)

lemma LAST_REBALANCE_STATUS_KEY_neq [simp]:
  "LAST_REBALANCE_STATUS_KEY \<noteq> OWNER_KEY" "LAST_REBALANCE_STATUS_KEY \<noteq> NAME_KEY"
  "LAST_REBALANCE_STATUS_KEY \<noteq> SYMBOL_KEY"
  "LAST_REBALANCE_STATUS_KEY \<noteq> TARGETS_BPS_KEY"
  "LAST_REBALANCE_STATUS_KEY \<noteq> MAX_DRIFT_BPS_KEY"
  "LAST_REBALANCE_STATUS_KEY \<noteq> REBALANCE_EPOCH_SECONDS_KEY"
  "LAST_REBALANCE_STATUS_KEY \<noteq> MIN_DEPOSIT_USDC_KEY"
  "LAST_REBALANCE_STATUS_KEY \<noteq> MIN_SLICE_VALUE_KEY"
  "LAST_REBALANCE_STATUS_KEY \<noteq> TOTAL_SHARES_KEY"
  "LAST_REBALANCE_STATUS_KEY \<noteq> GUARD_ARMED_KEY"
  "LAST_REBALANCE_STATUS_KEY \<noteq> LAST_REBALANCE_KEY"
  "LAST_REBALANCE_STATUS_KEY \<noteq> PAUSED_KEY"
  "LAST_REBALANCE_STATUS_KEY \<noteq> REENTRANCY_GUARD_KEY"
  "LAST_REBALANCE_STATUS_KEY \<noteq> DEFERRED_CALL_ID_KEY"
  "LAST_REBALANCE_STATUS_KEY \<noteq> NEXT_REBALANCE_TIMESTAMP_KEY"
  "LAST_REBALANCE_STATUS_KEY \<noteq> REBALANCE_COUNT_KEY"
  "LAST_REBALANCE_STATUS_KEY \<noteq> LAST_ERROR_KEY"
  "LAST_REBALANCE_STATUS_KEY \<noteq> DEFERRED_CALL_ACTIVE_KEY"
  "LAST_REBALANCE_STATUS_KEY \<noteq> USDCE_KEY" "LAST_REBALANCE_STATUS_KEY \<noteq> WMAS_KEY"
  "LAST_REBALANCE_STATUS_KEY \<noteq> WETHB_KEY"
  "LAST_REBALANCE_STATUS_KEY \<noteq> DUSA_ROUTER_KEY"
  "LAST_REBALANCE_STATUS_KEY \<noteq> EAGLEFI_ROUTER_KEY"
  "LAST_REBALANCE_STATUS_KEY \<noteq> AUTONOMOUS_MODE_ENABLED"
  "LAST_REBALANCE_STATUS_KEY \<noteq> AUTON_SCHEDULED"
  by (simp_all add: key_defs)

lemma LAST_ERROR_KEY_neq [simp]:
  "LAST_ERROR_KEY \<noteq> OWNER_KEY" "LAST_ERROR_KEY \<noteq> NAME_KEY"
  "LAST_ERROR_KEY \<noteq> SYMBOL_KEY" "LAST_ERROR_KEY \<noteq> TARGETS_BPS_KEY"
  "LAST_ERROR_KEY \<noteq> MAX_DRIFT_BPS_KEY"
  "LAST_ERROR_KEY \<noteq> REBALANCE_EPOCH_SECONDS_KEY"
  "LAST_ERROR_KEY \<noteq> MIN_DEPOSIT_USDC_KEY" "LAST_ERROR_KEY \<noteq> MIN_SLICE_VALUE_KEY"
  "LAST_ERROR_KEY \<noteq> TOTAL_SHARES_KEY" "LAST_ERROR_KEY \<noteq> GUARD_ARMED_KEY"
  "LAST_ERROR_KEY \<noteq> LAST_REBALANCE_KEY" "LAST_ERROR_KEY \<noteq> PAUSED_KEY"
  "LAST_ERROR_KEY \<noteq> REENTRANCY_GUARD_KEY" "LAST_ERROR_KEY \<noteq> DEFERRED_CALL_ID_KEY"
  "LAST_ERROR_KEY \<noteq> NEXT_REBALANCE_TIMESTAMP_KEY"
  "LAST_ERROR_KEY \<noteq> REBALANCE_COUNT_KEY"
  "LAST_ERROR_KEY \<noteq> LAST_REBALANCE_STATUS_KEY"
  "LAST_ERROR_KEY \<noteq> DEFERRED_CALL_ACTIVE_KEY" "LAST_ERROR_KEY \<noteq> USDCE_KEY"
  "LAST_ERROR_KEY \<noteq> WMAS_KEY" "LAST_ERROR_KEY \<noteq> WETHB_KEY"
  "LAST_ERROR_KEY \<noteq> DUSA_ROUTER_KEY" "LAST_ERROR_KEY \<noteq> EAGLEFI_ROUTER_KEY"
  "LAST_ERROR_KEY \<noteq> AUTONOMOUS_MODE_ENABLED" "LAST_ERROR_KEY \<noteq> AUTON_SCHEDULED"
  by (simp_all add: key_defs)

lemma DEFERRED_CALL_ACTIVE_KEY_neq [simp]:
  "DEFERRED_CALL_ACTIVE_KEY \<noteq> OWNER_KEY" "DEFERRED_CALL_ACTIVE_KEY \<noteq> NAME_KEY"
  "DEFERRED_CALL_ACTIVE_KEY \<noteq> SYMBOL_KEY"
  "DEFERRED_CALL_ACTIVE_KEY \<noteq> TARGETS_BPS_KEY"
  "DEFERRED_CALL_ACTIVE_KEY \<noteq> MAX_DRIFT_BPS_KEY"
  "DEFERRED_CALL_ACTIVE_KEY \<noteq> REBALANCE_EPOCH_SECONDS_KEY"
  "DEFERRED_CALL_ACTIVE_KEY \<noteq> MIN_DEPOSIT_USDC_KEY"
  "DEFERRED_CALL_ACTIVE_KEY \<noteq> MIN_SLICE_VALUE_KEY"
  "DEFERRED_CALL_ACTIVE_KEY \<noteq> TOTAL_SHARES_KEY"
  "DEFERRED_CALL_ACTIVE_KEY \<noteq> GUARD_ARMED_KEY"
  "DEFERRED_CALL_ACTIVE_KEY \<noteq> LAST_REBALANCE_KEY"
  "DEFERRED_CALL_ACTIVE_KEY \<noteq> PAUSED_KEY"
  "DEFERRED_CALL_ACTIVE_KEY \<noteq> REENTRANCY_GUARD_KEY"
  "DEFERRED_CALL_ACTIVE_KEY \<noteq> DEFERRED_CALL_ID_KEY"
  "DEFERRED_CALL_ACTIVE_KEY \<noteq> NEXT_REBALANCE_TIMESTAMP_KEY"
  "DEFERRED_CALL_ACTIVE_KEY \<noteq> REBALANCE_COUNT_KEY"
  "DEFERRED_CALL_ACTIVE_KEY \<noteq> LAST_REBALANCE_STATUS_KEY"
  "DEFERRED_CALL_ACTIVE_KEY \<noteq> LAST_ERROR_KEY"
  "DEFERRED_CALL_ACTIVE_KEY \<noteq> USDCE_KEY" "DEFERRED_CALL_ACTIVE_KEY \<noteq> WMAS_KEY"
  "DEFERRED_CALL_ACTIVE_KEY \<noteq> WETHB_KEY"
  "DEFERRED_CALL_ACTIVE_KEY \<noteq> DUSA_ROUTER_KEY"
  "DEFERRED_CALL_ACTIVE_KEY \<noteq> EAGLEFI_ROUTER_KEY"
  "DEFERRED_CALL_ACTIVE_KEY \<noteq> AUTONOMOUS_MODE_ENABLED"
  "DEFERRED_CALL_ACTIVE_KEY \<noteq> AUTON_SCHEDULED"
  by (simp_all add: key_defs)

lemma USDCE_KEY_neq [simp]:
  "USDCE_KEY \<noteq> OWNER_KEY" "USDCE_KEY \<noteq> NAME_KEY" "USDCE_KEY \<noteq> SYMBOL_KEY"
  "USDCE_KEY \<noteq> TARGETS_BPS_KEY" "USDCE_KEY \<noteq> MAX_DRIFT_BPS_KEY"
  "USDCE_KEY \<noteq> REBALANCE_EPOCH_SECONDS_KEY" "USDCE_KEY \<noteq> MIN_DEPOSIT_USDC_KEY"
  "USDCE_KEY \<noteq> MIN_SLICE_VALUE_KEY" "USDCE_KEY \<noteq> TOTAL_SHARES_KEY"
  "USDCE_KEY \<noteq> GUARD_ARMED_KEY" "USDCE_KEY \<noteq> LAST_REBALANCE_KEY"
  "USDCE_KEY \<noteq> PAUSED_KEY" "USDCE_KEY \<noteq> REENTRANCY_GUARD_KEY"
  "USDCE_KEY \<noteq> DEFERRED_CALL_ID_KEY" "USDCE_KEY \<noteq> NEXT_REBALANCE_TIMESTAMP_KEY"
  "USDCE_KEY \<noteq> REBALANCE_COUNT_KEY" "USDCE_KEY \<noteq> LAST_REBALANCE_STATUS_KEY"
  "USDCE_KEY \<noteq> LAST_ERROR_KEY" "USDCE_KEY \<noteq> DEFERRED_CALL_ACTIVE_KEY"
  "USDCE_KEY \<noteq> WMAS_KEY" "USDCE_KEY \<noteq> WETHB_KEY"
  "USDCE_KEY \<noteq> DUSA_ROUTER_KEY" "USDCE_KEY \<noteq> EAGLEFI_ROUTER_KEY"
  "USDCE_KEY \<noteq> AUTONOMOUS_MODE_ENABLED" "USDCE_KEY \<noteq> AUTON_SCHEDULED"
  by (simp_all add: key_defs)

lemma WMAS_KEY_neq [simp]:
  "WMAS_KEY \<noteq> OWNER_KEY" "WMAS_KEY \<noteq> NAME_KEY" "WMAS_KEY \<noteq> SYMBOL_KEY"
  "WMAS_KEY \<noteq> TARGETS_BPS_KEY" "WMAS_KEY \<noteq> MAX_DRIFT_BPS_KEY"
  "WMAS_KEY \<noteq> REBALANCE_EPOCH_SECONDS_KEY" "WMAS_KEY \<noteq> MIN_DEPOSIT_USDC_KEY"
  "WMAS_KEY \<noteq> MIN_SLICE_VALUE_KEY" "WMAS_KEY \<noteq> TOTAL_SHARES_KEY"
  "WMAS_KEY \<noteq> GUARD_ARMED_KEY" "WMAS_KEY \<noteq> LAST_REBALANCE_KEY"
  "WMAS_KEY \<noteq> PAUSED_KEY" "WMAS_KEY \<noteq> REENTRANCY_GUARD_KEY"
  "WMAS_KEY \<noteq> DEFERRED_CALL_ID_KEY" "WMAS_KEY \<noteq> NEXT_REBALANCE_TIMESTAMP_KEY"
  "WMAS_KEY \<noteq> REBALANCE_COUNT_KEY" "WMAS_KEY \<noteq> LAST_REBALANCE_STATUS_KEY"
  "WMAS_KEY \<noteq> LAST_ERROR_KEY" "WMAS_KEY \<noteq> DEFERRED_CALL_ACTIVE_KEY"
  "WMAS_KEY \<noteq> USDCE_KEY" "WMAS_KEY \<noteq> WETHB_KEY"
  "WMAS_KEY \<noteq> DUSA_ROUTER_KEY" "WMAS_KEY \<noteq> EAGLEFI_ROUTER_KEY"
  "WMAS_KEY \<noteq> AUTONOMOUS_MODE_ENABLED" "WMAS_KEY \<noteq> AUTON_SCHEDULED"
  by (simp_all add: key_defs)

lemma WETHB_KEY_neq [simp]:
  "WETHB_KEY \<noteq> OWNER_KEY" "WETHB_KEY \<noteq> NAME_KEY" "WETHB_KEY \<noteq> SYMBOL_KEY"
  "WETHB_KEY \<noteq> TARGETS_BPS_KEY" "WETHB_KEY \<noteq> MAX_DRIFT_BPS_KEY"
  "WETHB_KEY \<noteq> REBALANCE_EPOCH_SECONDS_KEY" "WETHB_KEY \<noteq> MIN_DEPOSIT_USDC_KEY"
  "WETHB_KEY \<noteq> MIN_SLICE_VALUE_KEY" "WETHB_KEY \<noteq> TOTAL_SHARES_KEY"
  "WETHB_KEY \<noteq> GUARD_ARMED_KEY" "WETHB_KEY \<noteq> LAST_REBALANCE_KEY"
  "WETHB_KEY \<noteq> PAUSED_KEY" "WETHB_KEY \<noteq> REENTRANCY_GUARD_KEY"
  "WETHB_KEY \<noteq> DEFERRED_CALL_ID_KEY" "WETHB_KEY \<noteq> NEXT_REBALANCE_TIMESTAMP_KEY"
  "WETHB_KEY \<noteq> REBALANCE_COUNT_KEY" "WETHB_KEY \<noteq> LAST_REBALANCE_STATUS_KEY"
  "WETHB_KEY \<noteq> LAST_ERROR_KEY" "WETHB_KEY \<noteq> DEFERRED_CALL_ACTIVE_KEY"
  "WETHB_KEY \<noteq> USDCE_KEY" "WETHB_KEY \<noteq> WMAS_KEY"
  "WETHB_KEY \<noteq> DUSA_ROUTER_KEY" "WETHB_KEY \<noteq> EAGLEFI_ROUTER_KEY"
  "WETHB_KEY \<noteq> AUTONOMOUS_MODE_ENABLED" "WETHB_KEY \<noteq> AUTON_SCHEDULED"
  by (simp_all add: key_defs)

lemma DUSA_ROUTER_KEY_neq [simp]:
  "DUSA_ROUTER_KEY \<noteq> OWNER_KEY" "DUSA_ROUTER_KEY \<noteq> NAME_KEY"
  "DUSA_ROUTER_KEY \<noteq> SYMBOL_KEY" "DUSA_ROUTER_KEY \<noteq> TARGETS_BPS_KEY"
  "DUSA_ROUTER_KEY \<noteq> MAX_DRIFT_BPS_KEY"
  "DUSA_ROUTER_KEY \<noteq> REBALANCE_EPOCH_SECONDS_KEY"
  "DUSA_ROUTER_KEY \<noteq> MIN_DEPOSIT_USDC_KEY"
  "DUSA_ROUTER_KEY \<noteq> MIN_SLICE_VALUE_KEY" "DUSA_ROUTER_KEY \<noteq> TOTAL_SHARES_KEY"
  "DUSA_ROUTER_KEY \<noteq> GUARD_ARMED_KEY" "DUSA_ROUTER_KEY \<noteq> LAST_REBALANCE_KEY"
  "DUSA_ROUTER_KEY \<noteq> PAUSED_KEY" "DUSA_ROUTER_KEY \<noteq> REENTRANCY_GUARD_KEY"
  "DUSA_ROUTER_KEY \<noteq> DEFERRED_CALL_ID_KEY"
  "DUSA_ROUTER_KEY \<noteq> NEXT_REBALANCE_TIMESTAMP_KEY"
  "DUSA_ROUTER_KEY \<noteq> REBALANCE_COUNT_KEY"
  "DUSA_ROUTER_KEY \<noteq> LAST_REBALANCE_STATUS_KEY"
  "DUSA_ROUTER_KEY \<noteq> LAST_ERROR_KEY" "DUSA_ROUTER_KEY \<noteq> DEFERRED_CALL_ACTIVE_KEY"
  "DUSA_ROUTER_KEY \<noteq> USDCE_KEY" "DUSA_ROUTER_KEY \<noteq> WMAS_KEY"
  "DUSA_ROUTER_KEY \<noteq> WETHB_KEY" "DUSA_ROUTER_KEY \<noteq> EAGLEFI_ROUTER_KEY"
  "DUSA_ROUTER_KEY \<noteq> AUTONOMOUS_MODE_ENABLED" "DUSA_ROUTER_KEY \<noteq> AUTON_SCHEDULED"
  by (simp_all add: key_defs)

lemma EAGLEFI_ROUTER_KEY_neq [simp]:
  "EAGLEFI_ROUTER_KEY \<noteq> OWNER_KEY" "EAGLEFI_ROUTER_KEY \<noteq> NAME_KEY"
  "EAGLEFI_ROUTER_KEY \<noteq> SYMBOL_KEY" "EAGLEFI_ROUTER_KEY \<noteq> TARGETS_BPS_KEY"
  "EAGLEFI_ROUTER_KEY \<noteq> MAX_DRIFT_BPS_KEY"
  "EAGLEFI_ROUTER_KEY \<noteq> REBALANCE_EPOCH_SECONDS_KEY"
  "EAGLEFI_ROUTER_KEY \<noteq> MIN_DEPOSIT_USDC_KEY"
  "EAGLEFI_ROUTER_KEY \<noteq> MIN_SLICE_VALUE_KEY"
  "EAGLEFI_ROUTER_KEY \<noteq> TOTAL_SHARES_KEY" "EAGLEFI_ROUTER_KEY \<noteq> GUARD_ARMED_KEY"
  "EAGLEFI_ROUTER_KEY \<noteq> LAST_REBALANCE_KEY" "EAGLEFI_ROUTER_KEY \<noteq> PAUSED_KEY"
  "EAGLEFI_ROUTER_KEY \<noteq> REENTRANCY_GUARD_KEY"
  "EAGLEFI_ROUTER_KEY \<noteq> DEFERRED_CALL_ID_KEY"
  "EAGLEFI_ROUTER_KEY \<noteq> NEXT_REBALANCE_TIMESTAMP_KEY"
  "EAGLEFI_ROUTER_KEY \<noteq> REBALANCE_COUNT_KEY"
  "EAGLEFI_ROUTER_KEY \<noteq> LAST_REBALANCE_STATUS_KEY"
  "EAGLEFI_ROUTER_KEY \<noteq> LAST_ERROR_KEY"
  "EAGLEFI_ROUTER_KEY \<noteq> DEFERRED_CALL_ACTIVE_KEY"
  "EAGLEFI_ROUTER_KEY \<noteq> USDCE_KEY" "EAGLEFI_ROUTER_KEY \<noteq> WMAS_KEY"
  "EAGLEFI_ROUTER_KEY \<noteq> WETHB_KEY" "EAGLEFI_ROUTER_KEY \<noteq> DUSA_ROUTER_KEY"
  "EAGLEFI_ROUTER_KEY \<noteq> AUTONOMOUS_MODE_ENABLED"
  "EAGLEFI_ROUTER_KEY \<noteq> AUTON_SCHEDULED"
  by (simp_all add: key_defs)

lemma AUTONOMOUS_MODE_ENABLED_neq [simp]:
  "AUTONOMOUS_MODE_ENABLED \<noteq> OWNER_KEY" "AUTONOMOUS_MODE_ENABLED \<noteq> NAME_KEY"
  "AUTONOMOUS_MODE_ENABLED \<noteq> SYMBOL_KEY"
  "AUTONOMOUS_MODE_ENABLED \<noteq> TARGETS_BPS_KEY"
  "AUTONOMOUS_MODE_ENABLED \<noteq> MAX_DRIFT_BPS_KEY"
  "AUTONOMOUS_MODE_ENABLED \<noteq> REBALANCE_EPOCH_SECONDS_KEY"
  "AUTONOMOUS_MODE_ENABLED \<noteq> MIN_DEPOSIT_USDC_KEY"
  "AUTONOMOUS_MODE_ENABLED \<noteq> MIN_SLICE_VALUE_KEY"
  "AUTONOMOUS_MODE_ENABLED \<noteq> TOTAL_SHARES_KEY"
  "AUTONOMOUS_MODE_ENABLED \<noteq> GUARD_ARMED_KEY"
  "AUTONOMOUS_MODE_ENABLED \<noteq> LAST_REBALANCE_KEY"
  "AUTONOMOUS_MODE_ENABLED \<noteq> PAUSED_KEY"
  "AUTONOMOUS_MODE_ENABLED \<noteq> REENTRANCY_GUARD_KEY"
  "AUTONOMOUS_MODE_ENABLED \<noteq> DEFERRED_CALL_ID_KEY"
  "AUTONOMOUS_MODE_ENABLED \<noteq> NEXT_REBALANCE_TIMESTAMP_KEY"
  "AUTONOMOUS_MODE_ENABLED \<noteq> REBALANCE_COUNT_KEY"
  "AUTONOMOUS_MODE_ENABLED \<noteq> LAST_REBALANCE_STATUS_KEY"
  "AUTONOMOUS_MODE_ENABLED \<noteq> LAST_ERROR_KEY"
  "AUTONOMOUS_MODE_ENABLED \<noteq> DEFERRED_CALL_ACTIVE_KEY"
  "AUTONOMOUS_MODE_ENABLED \<noteq> USDCE_KEY" "AUTONOMOUS_MODE_ENABLED \<noteq> WMAS_KEY"
  "AUTONOMOUS_MODE_ENABLED \<noteq> WETHB_KEY"
  "AUTONOMOUS_MODE_ENABLED \<noteq> DUSA_ROUTER_KEY"
  "AUTONOMOUS_MODE_ENABLED \<noteq> EAGLEFI_ROUTER_KEY"
  "AUTONOMOUS_MODE_ENABLED \<noteq> AUTON_SCHEDULED"
  by (simp_all add: key_defs)

lemma AUTON_SCHEDULED_neq [simp]:
  "AUTON_SCHEDULED \<noteq> OWNER_KEY" "AUTON_SCHEDULED \<noteq> NAME_KEY"
  "AUTON_SCHEDULED \<noteq> SYMBOL_KEY" "AUTON_SCHEDULED \<noteq> TARGETS_BPS_KEY"
  "AUTON_SCHEDULED \<noteq> MAX_DRIFT_BPS_KEY"
  "AUTON_SCHEDULED \<noteq> REBALANCE_EPOCH_SECONDS_KEY"
  "AUTON_SCHEDULED \<noteq> MIN_DEPOSIT_USDC_KEY"
  "AUTON_SCHEDULED \<noteq> MIN_SLICE_VALUE_KEY" "AUTON_SCHEDULED \<noteq> TOTAL_SHARES_KEY"
  "AUTON_SCHEDULED \<noteq> GUARD_ARMED_KEY" "AUTON_SCHEDULED \<noteq> LAST_REBALANCE_KEY"
  "AUTON_SCHEDULED \<noteq> PAUSED_KEY" "AUTON_SCHEDULED \<noteq> REENTRANCY_GUARD_KEY"
  "AUTON_SCHEDULED \<noteq> DEFERRED_CALL_ID_KEY"
  "AUTON_SCHEDULED \<noteq> NEXT_REBALANCE_TIMESTAMP_KEY"
  "AUTON_SCHEDULED \<noteq> REBALANCE_COUNT_KEY"
  "AUTON_SCHEDULED \<noteq> LAST_REBALANCE_STATUS_KEY"
  "AUTON_SCHEDULED \<noteq> LAST_ERROR_KEY" "AUTON_SCHEDULED \<noteq> DEFERRED_CALL_ACTIVE_KEY"
  "AUTON_SCHEDULED \<noteq> USDCE_KEY" "AUTON_SCHEDULED \<noteq> WMAS_KEY"
  "AUTON_SCHEDULED \<noteq> WETHB_KEY" "AUTON_SCHEDULED \<noteq> DUSA_ROUTER_KEY"
  "AUTON_SCHEDULED \<noteq> EAGLEFI_ROUTER_KEY"
  "AUTON_SCHEDULED \<noteq> AUTONOMOUS_MODE_ENABLED"
  by (simp_all add: key_defs)

lemma userSharesKey_neq [simp]:
  "userSharesKey a \<noteq> OWNER_KEY" "OWNER_KEY \<noteq> userSharesKey a"
  "userSharesKey a \<noteq> NAME_KEY" "NAME_KEY \<noteq> userSharesKey a"
  "userSharesKey a \<noteq> SYMBOL_KEY" "SYMBOL_KEY \<noteq> userSharesKey a"
  "userSharesKey a \<noteq> TARGETS_BPS_KEY" "TARGETS_BPS_KEY \<noteq> userSharesKey a"
  "userSharesKey a \<noteq> MAX_DRIFT_BPS_KEY" "MAX_DRIFT_BPS_KEY \<noteq> userSharesKey a"
  "userSharesKey a \<noteq> REBALANCE_EPOCH_SECONDS_KEY"
  "REBALANCE_EPOCH_SECONDS_KEY \<noteq> userSharesKey a"
  "userSharesKey a \<noteq> MIN_DEPOSIT_USDC_KEY"
  "MIN_DEPOSIT_USDC_KEY \<noteq> userSharesKey a"
  "userSharesKey a \<noteq> MIN_SLICE_VALUE_KEY" "MIN_SLICE_VALUE_KEY \<noteq> userSharesKey a"
  "userSharesKey a \<noteq> TOTAL_SHARES_KEY" "TOTAL_SHARES_KEY \<noteq> userSharesKey a"
  "userSharesKey a \<noteq> GUARD_ARMED_KEY" "GUARD_ARMED_KEY \<noteq> userSharesKey a"
  "userSharesKey a \<noteq> LAST_REBALANCE_KEY" "LAST_REBALANCE_KEY \<noteq> userSharesKey a"
  "userSharesKey a \<noteq> PAUSED_KEY" "PAUSED_KEY \<noteq> userSharesKey a"
  "userSharesKey a \<noteq> REENTRANCY_GUARD_KEY"
  "REENTRANCY_GUARD_KEY \<noteq> userSharesKey a"
  "userSharesKey a \<noteq> DEFERRED_CALL_ID_KEY"
  "DEFERRED_CALL_ID_KEY \<noteq> userSharesKey a"
  "userSharesKey a \<noteq> NEXT_REBALANCE_TIMESTAMP_KEY"
  "NEXT_REBALANCE_TIMESTAMP_KEY \<noteq> userSharesKey a"
  "userSharesKey a \<noteq> REBALANCE_COUNT_KEY" "REBALANCE_COUNT_KEY \<noteq> userSharesKey a"
  "userSharesKey a \<noteq> LAST_REBALANCE_STATUS_KEY"
  "LAST_REBALANCE_STATUS_KEY \<noteq> userSharesKey a"
  "userSharesKey a \<noteq> LAST_ERROR_KEY" "LAST_ERROR_KEY \<noteq> userSharesKey a"
  "userSharesKey a \<noteq> DEFERRED_CALL_ACTIVE_KEY"
  "DEFERRED_CALL_ACTIVE_KEY \<noteq> userSharesKey a" "userSharesKey a \<noteq> USDCE_KEY"
  "USDCE_KEY \<noteq> userSharesKey a" "userSharesKey a \<noteq> WMAS_KEY"
  "WMAS_KEY \<noteq> userSharesKey a" "userSharesKey a \<noteq> WETHB_KEY"
  "WETHB_KEY \<noteq> userSharesKey a" "userSharesKey a \<noteq> DUSA_ROUTER_KEY"
  "DUSA_ROUTER_KEY \<noteq> userSharesKey a" "userSharesKey a \<noteq> EAGLEFI_ROUTER_KEY"
  "EAGLEFI_ROUTER_KEY \<noteq> userSharesKey a"
  "userSharesKey a \<noteq> AUTONOMOUS_MODE_ENABLED"
  "AUTONOMOUS_MODE_ENABLED \<noteq> userSharesKey a" "userSharesKey a \<noteq> AUTON_SCHEDULED"
  "AUTON_SCHEDULED \<noteq> userSharesKey a"
  by (simp_all add: key_defs userSharesKey_def)

lemma userSharesKey_inj [simp]: "(userSharesKey a = userSharesKey b) = (a = b)"
  by (simp add: userSharesKey_def)

subsection \<open>Reading the example states\<close>

lemma base_store_lookup [simp]:
  "base_store t0 t1 t2 OWNER_KEY = Some OWNER"
  "base_store t0 t1 t2 NAME_KEY = Some ''Sentinel''"
  "base_store t0 t1 t2 SYMBOL_KEY = Some ''SIV''"
  "base_store t0 t1 t2 TARGETS_BPS_KEY = Some (targets_text t0 t1 t2)"
  "base_store t0 t1 t2 MAX_DRIFT_BPS_KEY = Some ''500''"
  "base_store t0 t1 t2 REBALANCE_EPOCH_SECONDS_KEY = Some ''1800''"
  "base_store t0 t1 t2 MIN_DEPOSIT_USDC_KEY = Some ''1''"
  "base_store t0 t1 t2 MIN_SLICE_VALUE_KEY = Some ''10000''"
  "base_store t0 t1 t2 TOTAL_SHARES_KEY = Some ''0''"
  "base_store t0 t1 t2 GUARD_ARMED_KEY = None"
  "base_store t0 t1 t2 LAST_REBALANCE_KEY = Some ''1000''"
  "base_store t0 t1 t2 PAUSED_KEY = None"
  "base_store t0 t1 t2 REENTRANCY_GUARD_KEY = None"
  "base_store t0 t1 t2 DEFERRED_CALL_ID_KEY = None"
  "base_store t0 t1 t2 NEXT_REBALANCE_TIMESTAMP_KEY = None"
  "base_store t0 t1 t2 REBALANCE_COUNT_KEY = None"
  "base_store t0 t1 t2 LAST_REBALANCE_STATUS_KEY = None"
  "base_store t0 t1 t2 LAST_ERROR_KEY = None"
  "base_store t0 t1 t2 DEFERRED_CALL_ACTIVE_KEY = None"
  "base_store t0 t1 t2 USDCE_KEY = Some USDC_ADDRESS"
  "base_store t0 t1 t2 WMAS_KEY = Some WMAS_ADDRESS"
  "base_store t0 t1 t2 WETHB_KEY = Some WETH_ADDRESS"
  "base_store t0 t1 t2 DUSA_ROUTER_KEY = Some DUSA_ROUTER"
  "base_store t0 t1 t2 EAGLEFI_ROUTER_KEY = Some DUSA_ROUTER"
  "base_store t0 t1 t2 AUTONOMOUS_MODE_ENABLED = None"
  "base_store t0 t1 t2 AUTON_SCHEDULED = None"
  "base_store t0 t1 t2 (userSharesKey a) = None"
  by (simp_all add: base_store_def)

lemma addr_distinct [simp]:
  "USDC_ADDRESS \<noteq> WMAS_ADDRESS" "USDC_ADDRESS \<noteq> WETH_ADDRESS" "WMAS_ADDRESS \<noteq> WETH_ADDRESS"
  "WMAS_ADDRESS \<noteq> USDC_ADDRESS" "WETH_ADDRESS \<noteq> USDC_ADDRESS" "WETH_ADDRESS \<noteq> WMAS_ADDRESS"
  by (simp_all add: addr_defs)

lemma who_distinct [simp]:
  "VAULT \<noteq> ALICE" "VAULT \<noteq> BOB" "VAULT \<noteq> OWNER" "VAULT \<noteq> DUSA_ROUTER"
  "ALICE \<noteq> VAULT" "ALICE \<noteq> BOB" "ALICE \<noteq> OWNER" "ALICE \<noteq> DUSA_ROUTER"
  "BOB \<noteq> VAULT" "BOB \<noteq> ALICE" "BOB \<noteq> OWNER" "BOB \<noteq> DUSA_ROUTER"
  "OWNER \<noteq> VAULT" "OWNER \<noteq> ALICE" "OWNER \<noteq> BOB" "OWNER \<noteq> DUSA_ROUTER"
  "DUSA_ROUTER \<noteq> VAULT" "DUSA_ROUTER \<noteq> ALICE" "DUSA_ROUTER \<noteq> BOB" "DUSA_ROUTER \<noteq> OWNER"
  by (simp_all add: addr_defs)

lemma demo_ledger_lookup [simp]:
  "tokens (demo_ledger a b u e g) USDC_ADDRESS = (\<lambda>account. 0)(ALICE := a, BOB := b, VAULT := u)"
  "tokens (demo_ledger a b u e g) WETH_ADDRESS = (\<lambda>account. 0)(VAULT := e)"
  "tokens (demo_ledger a b u e g) WMAS_ADDRESS = (\<lambda>account. 0)"
  "coins (demo_ledger a b u e g) = (\<lambda>account. 0)(VAULT := g)"
  by (simp_all add: demo_ledger_def)

lemma parse_lits [simp]:
  "parse_u64 ''0'' = 0" "parse_u64 ''1'' = 1" "parse_u64 ''500'' = 500"
  "parse_u64 ''1800'' = 1800" "parse_u64 ''1000'' = 1000" "parse_u64 ''10000'' = 10000"
  by (simp_all add: parse_u64_def is_digit_def digit_val_def)

lemma u64_to_string_lits:
  "u64_to_string 0 = ''0''" "u64_to_string 1 = ''1''" "u64_to_string 500 = ''500''"
  "u64_to_string 1000 = ''1000''" "u64_to_string 1800 = ''1800''"
  "u64_to_string 10000 = ''10000''"
  by (simp_all add: u64_to_string_def nat_to_string.simps digit_char_def)

lemma split_comma_nonempty: "split_comma s \<noteq> []"
  by (induction s) (auto split: list.splits)

lemma split_comma_plain: "CHR '','' \<notin> set d \<Longrightarrow> split_comma d = [d]"
  by (induction d) auto

lemma split_comma_append:
  "CHR '','' \<notin> set d \<Longrightarrow> split_comma (d @ CHR '','' # r) = d # split_comma r"
  by (induction d) (auto split: list.splits simp: split_comma_nonempty)

lemma no_comma_in_number: "CHR '','' \<notin> set (u64_to_string x)"
  using all_digits[of "unat x"] by (auto simp: u64_to_string_def is_digit_def)

lemma split_targets_text [simp]:
  "split_comma (targets_text t0 t1 t2) = [u64_to_string t0, u64_to_string t1, u64_to_string t2]"
  by (simp add: targets_text_def split_comma_append split_comma_plain no_comma_in_number)

lemmas sim_defs = sim_host_def idle_router_host_def idle_token_host_def move_tokens_def
  par_swap_def register_call_def flat_quote_def ctx_of_def tx_of_def deployed_def

lemmas entry_defs = deposit_def redeem_def getTokenBalanceString_def getTokenBalance_def
  transferTokenToUser_def approveToken_def redeemSwap_def

lemma constructor_demo:
  "t0 + t1 + t2 = 10000 \<Longrightarrow>
   constructor ((ctx_of OWNER 1000)\<lparr>isDeployingContract := True\<rparr>) w (demo_args t0 t1 t2)
   = Inr (deployed t0 t1 t2 w)"
  by (simp add: constructor_def demo_args_def ctx_of_def deployed_def base_store_def
      constructor_event_def u64_to_string_lits storage_defs Let_def)

subsection \<open>Running the example chain\<close>

lemma sim_host_simps [simp]:
  "balanceOf sim_host w tok account = tokens w tok account"
  "transferFrom sim_host w tok spender src dst amt = move_tokens w tok src dst amt"
  "transfer sim_host w tok sender dst amt = move_tokens w tok sender dst amt"
  "increaseAllowance sim_host w tok holder spender amt = Some w"
  "swapExactTokensForTokens sim_host = par_swap"
  "coin_balance sim_host = coins"
  "findCheapestSlot sim_host w p1 p2 mg ps = \<lparr>period = p1, thread = 0\<rparr>"
  "deferredCallQuote sim_host w sl mg ps = flat_quote"
  "deferredCallRegister sim_host = register_call"
  by (simp_all add: sim_host_def)

lemma idle_router_host_simps [simp]:
  "balanceOf idle_router_host w tok account = tokens w tok account"
  "increaseAllowance idle_router_host w tok holder spender amt = Some w"
  "swapExactTokensForTokens idle_router_host w sender a fee = Some (w, amountOutMinArg a)"
  "coin_balance idle_router_host = coins"
  by (simp_all add: idle_router_host_def sim_host_def)

lemma idle_token_host_simps [simp]:
  "balanceOf idle_token_host w tok account = tokens w tok account"
  "transferFrom idle_token_host w tok spender src dst amt = Some w"
  by (simp_all add: idle_token_host_def sim_host_def)

lemma rebalance_unfold: "rebalance (numeral k) h = rebalance_body (rebalance (pred_numeral k) h) h"
  by (simp add: numeral_eq_Suc)

lemmas world_defs = move_tokens_def par_swap_def register_call_def flat_quote_def ctx_of_def
  tx_of_def deployed_def run_def exec_tx_def

lemmas const_defs = STORAGE_FEE_PER_SWAP_def SWAP_DEADLINE_BUFFER_def MIN_GAS_BANK_BALANCE_def
  BIN_STEP_USDC_WMAS_def BIN_STEP_WMAS_WETH_def

lemmas rebalance_defs = triggerRebalance_def executeRebalanceInternal_def
  scheduleNextRebalance_def rebalance_body_def executeSwapLegs_def executeTestSwap_def
  executeMultiHopSwap_def planLeg_def swapAmountFor_def abs_diff_def max3_def balance_def
  stamped_def part_at_def rebalance_unfold

lemmas eval_defs = world_defs const_defs entry_defs storage_defs Let_def bool_text_def

lemma wrap64 [simp]: "(18446744073709551616::u64) = 0"
  by simp

subsection \<open>State projections\<close>

lemma store_generateEvent [simp]: "store (generateEvent s e) = store s"
  by (simp add: generateEvent_def)

lemma world_generateEvent [simp]: "world (generateEvent s e) = world s"
  by (simp add: generateEvent_def)

lemma events_generateEvent [simp]: "events (generateEvent s e) = events s @ [e]"
  by (simp add: generateEvent_def)

lemma world_set_key [simp]: "world (set_key s k v) = world s"
  by (simp add: set_key_def)

lemma events_set_key [simp]: "events (set_key s k v) = events s"
  by (simp add: set_key_def)

lemma store_set_key [simp]: "store (set_key s k v) = (store s)(k \<mapsto> v)"
  by (simp add: set_key_def Storage_set_def)

lemma del_key_eq_Inr [simp]:
  "(del_key s k = Inr s') = (Storage_has (store s) k \<and> s' = s\<lparr>store := (store s)(k := None)\<rparr>)"
  by (auto simp: del_key_def Storage_del_def)

lemma del_key_absent: "\<not> Storage_has (store s) k \<Longrightarrow> del_key s k = Inl (MissingKey k)"
  by (simp add: del_key_def Storage_del_def)

lemma store_stamped [simp]:
  "store (stamped c s) = (store s)(LAST_REBALANCE_KEY \<mapsto> u64_to_string (timestamp c))"
  by (simp add: stamped_def)

lemma world_stamped [simp]: "world (stamped c s) = world s"
  by (simp add: stamped_def)

lemma events_stamped [simp]: "events (stamped c s) = events s"
  by (simp add: stamped_def)

subsection \<open>What the helpers leave alone\<close>

lemma executeTestSwap_store:
  "executeTestSwap h c s tin tout a m = Inr (s', out) \<Longrightarrow> store s' = store s"
  by (auto simp: executeTestSwap_def Let_def bindR_eq_Inr)

lemma executeMultiHopSwap_store:
  "executeMultiHopSwap h c s a m = Inr (s', out) \<Longrightarrow> store s' = store s"
  by (auto simp: executeMultiHopSwap_def Let_def bindR_eq_Inr)

lemma executeSwapLegs_store:
  "executeSwapLegs h c s l1 l2 = Inr (s', n) \<Longrightarrow> store s' = store s"
  by (auto simp: executeSwapLegs_def bindR_eq_Inr split: option.splits
           dest!: executeTestSwap_store executeMultiHopSwap_store)

lemma transferTokenToUser_store:
  "transferTokenToUser h c s tok u a = Inr s' \<Longrightarrow> store s' = store s"
  by (auto simp: transferTokenToUser_def bindR_eq_Inr split: if_splits)

lemma redeemSwap_store:
  "redeemSwap h c s tok a bs lg p pt tot = Inr (s', tot') \<Longrightarrow> store s' = store s"
  by (auto simp: redeemSwap_def Let_def bindR_eq_Inr)

lemma scheduleNextRebalance_frame:
  assumes self: "\<And>c s s'. self c s = Inr s' \<Longrightarrow> store s' k = store s k"
    and "scheduleNextRebalance self h c s = Inr s'" and "k \<noteq> AUTON_SCHEDULED"
  shows "store s' k = store s k"
  using assms(2,3)
  by (auto simp: scheduleNextRebalance_def Let_def bindR_eq_Inr split: if_splits dest: self)

lemma executeRebalanceInternal_shape:
  assumes "executeRebalanceInternal self h c s = Inr s'"
  shows "(\<exists>ev. s' = generateEvent (stamped c s) ev) \<or>
         (\<exists>s2. store s2 = store (stamped c s) \<and> scheduleNextRebalance self h c s2 = Inr s')"
  using assms
  apply (simp add: executeRebalanceInternal_def Let_def bindR_eq_Inr split: if_splits)
   apply blast
  apply (elim exE conjE impCE disjE)
     apply (erule (1) notE)
    apply (drule executeSwapLegs_store)
    apply (rule disjI2, rule exI, rule conjI)
     prefer 2 apply assumption
    apply simp
   apply (rule disjI2, rule exI, rule conjI)
    prefer 2 apply assumption
   apply simp
  apply (rule disjI2, rule exI, rule conjI)
   prefer 2 apply assumption
  apply simp
  done

lemma executeRebalanceInternal_frame:
  assumes self: "\<And>c s s'. self c s = Inr s' \<Longrightarrow> store s' k = store s k"
    and run: "executeRebalanceInternal self h c s = Inr s'"
    and k: "k \<noteq> AUTON_SCHEDULED" "k \<noteq> LAST_REBALANCE_KEY"
  shows "store s' k = store s k"
proof -
  from executeRebalanceInternal_shape[OF run] show ?thesis
  proof (elim disjE exE conjE)
    fix ev assume "s' = generateEvent (stamped c s) ev"
    with k show ?thesis by simp
  next
    fix s2
    assume st: "store s2 = store (stamped c s)"
      and sch: "scheduleNextRebalance self h c s2 = Inr s'"
    from scheduleNextRebalance_frame[OF self sch k(1)] have "store s' k = store s2 k" .
    with st k show ?thesis by simp
  qed
qed



lemma rebalance_body_shape:
  assumes "rebalance_body self h c s = Inr s'"
  shows "(\<exists>ev v. s' = generateEvent (set_key s AUTON_SCHEDULED v) ev)
       \<or> (\<exists>ev. s' = generateEvent (s\<lparr>store := (store s)(AUTON_SCHEDULED := None)\<rparr>) ev)
       \<or> (\<exists>ev. s' = generateEvent s ev)
       \<or> (\<exists>s1 s2 v. executeRebalanceInternal self h c s = Inr s1
             \<and> scheduleNextRebalance self h c (set_key s1 LAST_REBALANCE_KEY v) = Inr s2
             \<and> (s' = s2 \<or> (\<exists>ev. s' = generateEvent s2 ev)))"
  using assms
  by (simp add: rebalance_body_def Let_def bindR_eq_Inr split: if_splits) blast+

lemma rebalance_body_frame:
  assumes self: "\<And>c s s'. self c s = Inr s' \<Longrightarrow> store s' k = store s k"
    and run: "rebalance_body self h c s = Inr s'"
    and k: "k \<noteq> AUTON_SCHEDULED" "k \<noteq> LAST_REBALANCE_KEY"
  shows "store s' k = store s k"
proof -
  from rebalance_body_shape[OF run] show ?thesis
  proof (elim disjE exE conjE)
    fix s1 s2 v
    assume e: "executeRebalanceInternal self h c s = Inr s1"
      and sc: "scheduleNextRebalance self h c (set_key s1 LAST_REBALANCE_KEY v) = Inr s2"
    from executeRebalanceInternal_frame[OF self e k] have 1: "store s1 k = store s k" .
    from scheduleNextRebalance_frame[OF self sc k(1)] k(2) 1 have 2: "store s2 k = store s k"
      by simp
    { assume "s' = s2" with 2 show ?thesis by simp }
    { fix ev assume "s' = generateEvent s2 ev" with 2 show ?thesis by simp }
  qed (use k in auto)
qed

lemma rebalance_frame:
  "rebalance gas h c s = Inr s' \<Longrightarrow> k \<noteq> AUTON_SCHEDULED \<Longrightarrow> k \<noteq> LAST_REBALANCE_KEY
   \<Longrightarrow> store s' k = store s k"
proof (induction gas arbitrary: c s s')
  case 0
  then show ?case by simp
next
  case (Suc gas)
  from Suc.prems(1) have b: "rebalance_body (rebalance gas h) h c s = Inr s'" by simp
  show ?case
    by (rule rebalance_body_frame[OF _ b Suc.prems(2,3)]) (rule Suc.IH[OF _ Suc.prems(2,3)])
qed


lemma triggerRebalance_frame:
  assumes run: "triggerRebalance gas h c s = Inr s'"
    and k: "k \<noteq> AUTON_SCHEDULED" "k \<noteq> LAST_REBALANCE_KEY" "k \<noteq> AUTONOMOUS_MODE_ENABLED"
           "k \<noteq> DEFERRED_CALL_ID_KEY"
  shows "store s' k = store s k"
proof -
  from run obtain s1 where
    e: "executeRebalanceInternal (rebalance gas h) h c
          (generateEvent s (Ev ''TriggerRebalanceStarted''
             [(''caller'', caller c), (''timestamp'', u64_to_string (timestamp c))])) = Inr s1"
    and r: "(\<exists>ev v. s' = generateEvent (set_key s1 AUTONOMOUS_MODE_ENABLED v) ev)
          \<or> (\<exists>ev v w. s' = generateEvent (set_key (s1\<lparr>world := w\<rparr>) DEFERRED_CALL_ID_KEY v) ev)
          \<or> s' = s1"
    by (simp add: triggerRebalance_def Let_def bindR_eq_Inr split: if_splits) blast+
  have "store s1 k = store s k"
    using executeRebalanceInternal_frame[OF rebalance_frame[OF _ k(1,2)] e k(1,2)] by simp
  with r k show ?thesis by auto
qed

lemma startAutonomousRebalancing_frame:
  assumes run: "startAutonomousRebalancing h c s = Inr s'"
    and k: "k \<notin> {DEFERRED_CALL_ID_KEY, AUTONOMOUS_MODE_ENABLED, LAST_REBALANCE_KEY,
                 NEXT_REBALANCE_TIMESTAMP_KEY, DEFERRED_CALL_ACTIVE_KEY,
                 LAST_REBALANCE_STATUS_KEY, LAST_ERROR_KEY, REBALANCE_COUNT_KEY}"
  shows "store s' k = store s k"
  using assms
  by (auto simp: startAutonomousRebalancing_def Let_def bindR_eq_Inr split: if_splits)

lemma deposit_frame:
  assumes run: "deposit h c s amount = Inr s'"
    and k: "k \<noteq> userSharesKey (caller c)" "k \<noteq> TOTAL_SHARES_KEY"
  shows "store s' k = store s k"
  using assms
  by (auto simp: deposit_def Let_def bindR_eq_Inr assertR_eq_Inr Storage_has_def split: if_splits)

lemma redeem_frame:
  assumes run: "redeem h c s shares toUSDC = Inr s'"
    and k: "k \<noteq> userSharesKey (caller c)" "k \<noteq> TOTAL_SHARES_KEY"
  shows "store s' k = store s k"
  using assms
  apply (simp add: redeem_def Let_def bindR_eq_Inr assertR_eq_Inr split: if_splits)
  apply (auto dest!: transferTokenToUser_store redeemSwap_store split: if_splits)
  done

subsection \<open>Nothing removes the pause key\<close>


lemma deposit_paused: "isPaused s \<Longrightarrow> deposit h c s amount = Inl (Abort ''Contract is paused'')"
  by (simp add: deposit_def isPaused_def)

lemma call_op_keeps_paused:
  assumes "call_op gas h c s x = Inr s'" and "isPaused s"
  shows "isPaused s'"
proof (cases x)
  case (Deposit amount)
  with assms show ?thesis by (simp add: deposit_paused)
next
  case (Redeem shares toUSDC)
  with assms redeem_frame[of h c s shares toUSDC s' PAUSED_KEY] show ?thesis
    by (simp add: isPaused_def Storage_has_def)
next
  case TriggerRebalance
  with assms triggerRebalance_frame[of gas h c s s' PAUSED_KEY] show ?thesis
    by (simp add: isPaused_def Storage_has_def)
next
  case Rebalance
  with assms rebalance_frame[of gas h c s s' PAUSED_KEY] show ?thesis
    by (simp add: isPaused_def Storage_has_def)
next
  case StartAutonomousRebalancing
  with assms startAutonomousRebalancing_frame[of h c s s' PAUSED_KEY] show ?thesis
    by (simp add: isPaused_def Storage_has_def)
next
  case (EmergencyWithdraw tok amount)
  with assms show ?thesis
    by (auto simp: emergencyWithdraw_def bindR_eq_Inr isPaused_def
             dest!: transferTokenToUser_store)
qed (use assms in \<open>auto simp: setGuard_def topUpGasBank_def pause_def unpause_def
       updateTargets_def updateMaxDrift_def updateRebalanceEpoch_def transferOwnership_def
       setMinDeposit_def validateBinSteps_def bindR_eq_Inr isPaused_def Storage_has_def Let_def\<close>)

lemma exec_tx_keeps_paused:
  assumes "isPaused s"
  shows "isPaused (exec_tx h s t)"
proof -
  let ?s0 = "s\<lparr>world := tx_drift t (world s)\<rparr>"
  from assms have p0: "isPaused ?s0" by (simp add: isPaused_def)
  show ?thesis
  proof (cases "call_op (tx_gas t) h (tx_ctx t) ?s0 (tx_op t)")
    case (Inl e)
    with p0 show ?thesis by (simp add: exec_tx_def Let_def)
  next
    case (Inr s1)
    from call_op_keeps_paused[OF Inr p0] Inr show ?thesis by (simp add: exec_tx_def Let_def)
  qed
qed

lemma run_keeps_paused: "isPaused s \<Longrightarrow> isPaused (run h s ts)"
  unfolding run_def by (induction ts arbitrary: s) (simp_all add: exec_tx_keeps_paused)

lemma pause_sets: "pause c s = Inr s' \<Longrightarrow> isPaused s'"
  by (auto simp: pause_def bindR_eq_Inr isPaused_def Storage_has_def)

lemma unpause_keeps: "unpause c s = Inr s' \<Longrightarrow> isPaused s'"
  by (auto simp: unpause_def bindR_eq_Inr isPaused_def Storage_has_def)


subsection \<open>The share ledger is kept in step, modulo \<open>2^64\<close>\<close>

lemma holderShares_absent: "a \<notin> holders s \<Longrightarrow> holderShares s a = 0"
  by (simp add: holders_def holderShares_def getUserShares_def Storage_get_or_def)

lemma holders_cong:
  assumes "\<And>a. a \<noteq> a0 \<Longrightarrow> store s' (userSharesKey a) = store s (userSharesKey a)"
  shows "holders s' - {a0} = holders s - {a0}"
  using assms by (auto simp: holders_def Storage_has_def)

lemma holderShares_cong:
  assumes "store s' (userSharesKey a) = store s (userSharesKey a)"
  shows "holderShares s' a = holderShares s a"
  using assms
  by (simp add: holderShares_def getUserShares_def Storage_get_or_def Storage_has_def)

lemma sum_split_holder:
  fixes f :: "string \<Rightarrow> u64"
  assumes "finite H" and "a0 \<notin> H \<Longrightarrow> f a0 = 0"
  shows "sum f H = f a0 + sum f (H - {a0})"
proof (cases "a0 \<in> H")
  case True
  with assms(1) show ?thesis by (simp add: sum.remove)
next
  case False
  with assms(2) show ?thesis by simp
qed

text \<open>The invariant, with the sum taken in 64-bit arithmetic.\<close>

lemma share_step:
  assumes fin: "finite (holders s)"
    and inv: "storedTotalShares s = (\<Sum>a\<in>holders s. holderShares s a)"
    and others: "\<And>a. a \<noteq> a0 \<Longrightarrow> store s' (userSharesKey a) = store s (userSharesKey a)"
    and holder: "holderShares s' a0 = holderShares s a0 + d"
    and total: "storedTotalShares s' = storedTotalShares s + d"
  shows "finite (holders s') \<and> storedTotalShares s' = (\<Sum>a\<in>holders s'. holderShares s' a)"
proof -
  have rest: "holders s' - {a0} = holders s - {a0}"
    using others by (rule holders_cong)
  have "holders s' \<subseteq> insert a0 (holders s)"
    using rest by auto
  then have fin': "finite (holders s')"
    using fin by (meson finite_insert finite_subset)
  have same: "(\<Sum>a\<in>holders s - {a0}. holderShares s' a) = (\<Sum>a\<in>holders s - {a0}. holderShares s a)"
    by (rule sum.cong) (auto intro: holderShares_cong others)
  have "(\<Sum>a\<in>holders s'. holderShares s' a)
        = holderShares s' a0 + (\<Sum>a\<in>holders s' - {a0}. holderShares s' a)"
    using fin' by (rule sum_split_holder) (rule holderShares_absent)
  also have "\<dots> = holderShares s a0 + d + (\<Sum>a\<in>holders s - {a0}. holderShares s a)"
    by (simp only: rest same holder)
  also have "\<dots> = (\<Sum>a\<in>holders s. holderShares s a) + d"
    using sum_split_holder[OF fin, of a0 "holderShares s"] holderShares_absent[of a0 s]
    by simp
  finally show ?thesis
    using fin' inv total by simp
qed

lemma share_frame:
  assumes fin: "finite (holders s)"
    and inv: "storedTotalShares s = (\<Sum>a\<in>holders s. holderShares s a)"
    and keys: "\<And>a. store s' (userSharesKey a) = store s (userSharesKey a)"
    and total: "store s' TOTAL_SHARES_KEY = store s TOTAL_SHARES_KEY"
  shows "finite (holders s') \<and> storedTotalShares s' = (\<Sum>a\<in>holders s'. holderShares s' a)"
proof -
  have h: "holders s' = holders s"
    by (simp add: holders_def Storage_has_def keys)
  have "(\<Sum>a\<in>holders s. holderShares s' a) = (\<Sum>a\<in>holders s. holderShares s a)"
    by (rule sum.cong) (auto intro: holderShares_cong keys)
  moreover have "storedTotalShares s' = storedTotalShares s"
    by (simp add: storedTotalShares_def Storage_get_or_def Storage_has_def total)
  ultimately show ?thesis using fin inv h by simp
qed

lemma deposit_shares:
  assumes "deposit h c s amount = Inr s'"
  shows "holderShares s' (caller c) = holderShares s (caller c) + amount
       \<and> storedTotalShares s' = storedTotalShares s + amount"
  using assms
  by (auto simp: deposit_def Let_def bindR_eq_Inr assertR_eq_Inr Storage_get_def
      Storage_has_def Storage_get_or_def holderShares_def getUserShares_def
      storedTotalShares_def split: if_splits option.splits)

lemma redeem_shares:
  assumes "redeem h c s shares toUSDC = Inr s'"
  shows "holderShares s' (caller c) = holderShares s (caller c) + (- shares)
       \<and> storedTotalShares s' = storedTotalShares s + (- shares)"
proof -
  let ?k = "userSharesKey (caller c)"
  from assms obtain cur tot where
    cur: "store s ?k = Some cur" and le: "shares \<le> parse_u64 cur"
    and tot: "store s TOTAL_SHARES_KEY = Some tot"
    by (auto simp: redeem_def Let_def bindR_eq_Inr assertR_eq_Inr Storage_get_def
        Storage_has_def split: if_splits option.splits)
  let ?s1 = "if parse_u64 cur - shares > 0
             then set_key s ?k (u64_to_string (parse_u64 cur - shares))
             else s\<lparr>store := (store s)(?k := None)\<rparr>"
  let ?s2 = "set_key ?s1 TOTAL_SHARES_KEY (u64_to_string (parse_u64 tot - shares))"
  have k: "store s' ?k = store ?s2 ?k" and t: "store s' TOTAL_SHARES_KEY = store ?s2 TOTAL_SHARES_KEY"
    using assms cur tot
    by (auto simp: redeem_def Let_def bindR_eq_Inr assertR_eq_Inr Storage_get_def
        Storage_has_def dest!: transferTokenToUser_store redeemSwap_store
        split: if_splits option.splits)
  have "holderShares s' (caller c) = parse_u64 cur - shares"
    using k by (auto simp: holderShares_def getUserShares_def Storage_get_or_def Storage_has_def
        word_greater_zero_iff)
  moreover have "holderShares s (caller c) = parse_u64 cur"
    using cur by (simp add: holderShares_def getUserShares_def Storage_get_or_def Storage_has_def)
  moreover have "storedTotalShares s' = parse_u64 tot - shares"
    using t by (simp add: storedTotalShares_def Storage_get_or_def Storage_has_def)
  moreover have "storedTotalShares s = parse_u64 tot"
    using tot by (simp add: storedTotalShares_def Storage_get_or_def Storage_has_def)
  ultimately show ?thesis by simp
qed

lemma call_op_share_keys:
  assumes "call_op gas h c s x = Inr s'"
    and "\<And>amount. x \<noteq> Deposit amount" and "\<And>shares toUSDC. x \<noteq> Redeem shares toUSDC"
    and "k = TOTAL_SHARES_KEY \<or> k = userSharesKey a"
  shows "store s' k = store s k"
proof (cases x)
  case (Deposit amount)
  with assms(2)[of amount] show ?thesis by simp
next
  case (Redeem shares toUSDC)
  with assms(3)[of shares toUSDC] show ?thesis by simp
next
  case TriggerRebalance
  with assms(1,4) triggerRebalance_frame[of gas h c s s' k] show ?thesis
    by auto
next
  case Rebalance
  with assms(1,4) rebalance_frame[of gas h c s s' k] show ?thesis
    by auto
next
  case StartAutonomousRebalancing
  with assms(1,4) startAutonomousRebalancing_frame[of h c s s' k] show ?thesis
    by auto
next
  case (EmergencyWithdraw tok amount)
  with assms(1,4) show ?thesis
    by (auto simp: emergencyWithdraw_def bindR_eq_Inr
             dest!: transferTokenToUser_store)
qed (use assms(1,4) in \<open>auto simp: setGuard_def topUpGasBank_def pause_def unpause_def
       updateTargets_def updateMaxDrift_def updateRebalanceEpoch_def transferOwnership_def
       setMinDeposit_def validateBinSteps_def bindR_eq_Inr Let_def\<close>)

lemma call_op_shares:
  assumes run: "call_op gas h c s x = Inr s'"
    and fin: "finite (holders s)"
    and inv: "storedTotalShares s = (\<Sum>a\<in>holders s. holderShares s a)"
  shows "finite (holders s') \<and> storedTotalShares s' = (\<Sum>a\<in>holders s'. holderShares s' a)"
proof (cases "(\<exists>amount. x = Deposit amount) \<or> (\<exists>shares toUSDC. x = Redeem shares toUSDC)")
  case False
  then have a: "\<And>amount. x \<noteq> Deposit amount" and b: "\<And>shares toUSDC. x \<noteq> Redeem shares toUSDC"
    by auto
  show ?thesis
    by (rule share_frame[OF fin inv]) (rule call_op_share_keys[OF run a b], simp)+
next
  case True
  then show ?thesis
  proof (elim disjE exE)
    fix amount assume x: "x = Deposit amount"
    with run have d: "deposit h c s amount = Inr s'" by simp
    have others: "\<And>a. a \<noteq> caller c \<Longrightarrow> store s' (userSharesKey a) = store s (userSharesKey a)"
      by (rule deposit_frame[OF d]) simp_all
    from deposit_shares[OF d] show ?thesis
      by (intro share_step[OF fin inv others, of "caller c"]) auto
  next
    fix shares toUSDC assume x: "x = Redeem shares toUSDC"
    with run have d: "redeem h c s shares toUSDC = Inr s'" by simp
    have others: "\<And>a. a \<noteq> caller c \<Longrightarrow> store s' (userSharesKey a) = store s (userSharesKey a)"
      by (rule redeem_frame[OF d]) simp_all
    from redeem_shares[OF d] show ?thesis
      by (intro share_step[OF fin inv others, of "caller c"]) auto
  qed
qed

lemma exec_tx_shares:
  assumes fin: "finite (holders s)"
    and inv: "storedTotalShares s = (\<Sum>a\<in>holders s. holderShares s a)"
  shows "finite (holders (exec_tx h s t))
       \<and> storedTotalShares (exec_tx h s t)
           = (\<Sum>a\<in>holders (exec_tx h s t). holderShares (exec_tx h s t) a)"
proof -
  let ?s0 = "s\<lparr>world := tx_drift t (world s)\<rparr>"
  have fin0: "finite (holders ?s0)"
    and inv0: "storedTotalShares ?s0 = (\<Sum>a\<in>holders ?s0. holderShares ?s0 a)"
    using fin inv
    by (simp_all add: holders_def holderShares_def getUserShares_def storedTotalShares_def)
  show ?thesis
  proof (cases "call_op (tx_gas t) h (tx_ctx t) ?s0 (tx_op t)")
    case (Inl e)
    then have "exec_tx h s t = ?s0" by (simp add: exec_tx_def Let_def)
    with fin0 inv0 show ?thesis by simp
  next
    case (Inr s1)
    then have "exec_tx h s t = s1" by (simp add: exec_tx_def Let_def)
    with call_op_shares[OF Inr fin0 inv0] show ?thesis by simp
  qed
qed

lemma run_shares:
  assumes "finite (holders s)"
    and "storedTotalShares s = (\<Sum>a\<in>holders s. holderShares s a)"
  shows "finite (holders (run h s ts))
       \<and> storedTotalShares (run h s ts)
           = (\<Sum>a\<in>holders (run h s ts). holderShares (run h s ts) a)"
  using assms unfolding run_def
proof (induction ts arbitrary: s)
  case Nil
  then show ?case by simp
next
  case (Cons t ts)
  from exec_tx_shares[OF Cons.prems, of h t] show ?case
    by (simp add: Cons.IH)
qed

lemma constructor_shares:
  assumes "constructor c w a = Inr s"
  shows "holders s = {} \<and> storedTotalShares s = 0"
  using assms
  by (auto simp: constructor_def Let_def bindR_eq_Inr assertR_eq_Inr holders_def
      Storage_has_def storedTotalShares_def Storage_get_or_def)

lemma word_sum_unat:
  fixes f :: "'a \<Rightarrow> u64"
  shows "unat (\<Sum>a\<in>H. f a) = (\<Sum>a\<in>H. unat (f a)) mod 2 ^ 64"
proof -
  have e: "(\<Sum>a\<in>H. f a) = of_nat (\<Sum>a\<in>H. unat (f a))"
    by (simp add: of_nat_sum)
  show ?thesis
    by (subst e) (simp only: unat_of_nat, simp)
qed


subsection \<open>The example runs, step by step\<close>

text \<open>
  Each state below is what the simplifier computes from the definitions: the datastore as
  updates of the constructor's, the events in order, the ledger as updates of the first.
\<close>

lemma funded_vault_eq:
  "funded_vault t0 t1 t2 g =
     \<lparr>store =
      (base_store t0 t1 t2)
      (userSharesKey ALICE \<mapsto> u64_to_string 1000000,
         TOTAL_SHARES_KEY \<mapsto> u64_to_string 1000000,
         REENTRANCY_GUARD_KEY := None, GUARD_ARMED_KEY \<mapsto> ''true''),
      events =
        [constructor_event,
         Ev ''Deposit''
          [(''user'', ALICE), (''amount'', u64_to_string 1000000),
           (''shares'', u64_to_string 1000000)],
         Ev ''GuardArmed''
          [(''armed'', ''true''), (''reason'', ''Manual trigger'')]],
      world =
        demo_ledger 1000000 0 0 0 g
        \<lparr>tokens :=
           (tokens (demo_ledger 1000000 0 0 0 g))
           (USDC_ADDRESS :=
              (\<lambda>account. 0)(BOB := 0, ALICE := 0, VAULT := 1000000))\<rparr>\<rparr>"
  by (simp add: funded_vault_def eval_defs setGuard_def)

lemma once_rebalanced_eq:
  "once_rebalanced =
     \<lparr>store =
      (base_store 3333 3334 3333)
      (userSharesKey ALICE \<mapsto> u64_to_string 1000000,
         TOTAL_SHARES_KEY \<mapsto> u64_to_string 1000000,
         REENTRANCY_GUARD_KEY := None, GUARD_ARMED_KEY \<mapsto> ''true'',
         LAST_REBALANCE_KEY \<mapsto> u64_to_string 5000,
         AUTON_SCHEDULED \<mapsto> ''true''),
      events =
        [constructor_event,
         Ev ''Deposit''
          [(''user'', ALICE), (''amount'', u64_to_string 1000000),
           (''shares'', u64_to_string 1000000)],
         Ev ''GuardArmed''
          [(''armed'', ''true''), (''reason'', ''Manual trigger'')],
         Ev ''TriggerRebalanceStarted''
          [(''caller'', BOB), (''timestamp'', u64_to_string 5000)],
         Ev ''DriftCalculated''
          [(''wmasCurrent'', u64_to_string 0),
           (''wethCurrent'', u64_to_string 0),
           (''usdcCurrent'', u64_to_string 10000),
           (''wmasDrift'', u64_to_string 3333),
           (''wethDrift'', u64_to_string 3334),
           (''usdcDrift'', u64_to_string 6667),
           (''maxDrift'', u64_to_string 6667)],
         Ev ''SwapExecuted''
          [(''tokenIn'', USDC_ADDRESS), (''tokenOut'', WMAS_ADDRESS),
           (''amountIn'', u64_to_string 333300),
           (''amountOut'', u256_to_string 333300),
           (''balanceBefore'', u64_to_string 0),
           (''balanceAfter'', u64_to_string 333300)],
         Ev ''MultiHopSwapExecuted''
          [(''amountIn'', u64_to_string 333400),
           (''amountOut'', u256_to_string 333400),
           (''balanceBefore'', u64_to_string 0),
           (''balanceAfter'', u64_to_string 333400)],
         Ev ''RebalanceExecuted''
          [(''epoch'', u64_to_string 5000),
           (''totalSwaps'', u64_to_string 2),
           (''maxDrift'', u64_to_string 6667),
           (''threshold'', u64_to_string 500)],
         Ev ''RebalanceSkipped''
          [(''reason'', ''Too soon''),
           (''waitMs'', u64_to_string 1800000)]],
      world =
        demo_ledger 1000000 0 0 0 300000000
        \<lparr>tokens :=
           (tokens (demo_ledger 1000000 0 0 0 300000000))
           (WMAS_ADDRESS := (\<lambda>account. 0)(VAULT := 333300),
              USDC_ADDRESS :=
                (\<lambda>account. 0)
                (BOB := 0, ALICE := 0, VAULT := 333300,
                   DUSA_ROUTER := 666700),
              WETH_ADDRESS := (\<lambda>account. 0)(VAULT := 333400)),
           coins := (\<lambda>account. 0)(VAULT := 280000000)\<rparr>\<rparr>"
  by (simp add: once_rebalanced_def funded_vault_eq eval_defs rebalance_defs)

lemma twice_rebalanced_eq:
  "twice_rebalanced =
     \<lparr>store =
      (base_store 3333 3334 3333)
      (userSharesKey ALICE \<mapsto> u64_to_string 1000000,
         TOTAL_SHARES_KEY \<mapsto> u64_to_string 1000000,
         REENTRANCY_GUARD_KEY := None, GUARD_ARMED_KEY \<mapsto> ''true'',
         LAST_REBALANCE_KEY \<mapsto> u64_to_string 15000,
         AUTON_SCHEDULED \<mapsto> ''true''),
      events =
        [constructor_event,
         Ev ''Deposit''
          [(''user'', ALICE), (''amount'', u64_to_string 1000000),
           (''shares'', u64_to_string 1000000)],
         Ev ''GuardArmed''
          [(''armed'', ''true''), (''reason'', ''Manual trigger'')],
         Ev ''TriggerRebalanceStarted''
          [(''caller'', BOB), (''timestamp'', u64_to_string 5000)],
         Ev ''DriftCalculated''
          [(''wmasCurrent'', u64_to_string 0),
           (''wethCurrent'', u64_to_string 0),
           (''usdcCurrent'', u64_to_string 10000),
           (''wmasDrift'', u64_to_string 3333),
           (''wethDrift'', u64_to_string 3334),
           (''usdcDrift'', u64_to_string 6667),
           (''maxDrift'', u64_to_string 6667)],
         Ev ''SwapExecuted''
          [(''tokenIn'', USDC_ADDRESS), (''tokenOut'', WMAS_ADDRESS),
           (''amountIn'', u64_to_string 333300),
           (''amountOut'', u256_to_string 333300),
           (''balanceBefore'', u64_to_string 0),
           (''balanceAfter'', u64_to_string 333300)],
         Ev ''MultiHopSwapExecuted''
          [(''amountIn'', u64_to_string 333400),
           (''amountOut'', u256_to_string 333400),
           (''balanceBefore'', u64_to_string 0),
           (''balanceAfter'', u64_to_string 333400)],
         Ev ''RebalanceExecuted''
          [(''epoch'', u64_to_string 5000),
           (''totalSwaps'', u64_to_string 2),
           (''maxDrift'', u64_to_string 6667),
           (''threshold'', u64_to_string 500)],
         Ev ''RebalanceSkipped''
          [(''reason'', ''Too soon''),
           (''waitMs'', u64_to_string 1800000)],
         Ev ''TriggerRebalanceStarted''
          [(''caller'', BOB), (''timestamp'', u64_to_string 15000)],
         Ev ''DriftCalculated''
          [(''wmasCurrent'', u64_to_string 0),
           (''wethCurrent'', u64_to_string 0),
           (''usdcCurrent'', u64_to_string 9999),
           (''wmasDrift'', u64_to_string 3333),
           (''wethDrift'', u64_to_string 3334),
           (''usdcDrift'', u64_to_string 6666),
           (''maxDrift'', u64_to_string 6666)],
         Ev ''SwapExecuted''
          [(''tokenIn'', USDC_ADDRESS), (''tokenOut'', WMAS_ADDRESS),
           (''amountIn'', u64_to_string 111076),
           (''amountOut'', u256_to_string 111076),
           (''balanceBefore'', u64_to_string 333300),
           (''balanceAfter'', u64_to_string 444376)],
         Ev ''MultiHopSwapExecuted''
          [(''amountIn'', u64_to_string 111128),
           (''amountOut'', u256_to_string 111128),
           (''balanceBefore'', u64_to_string 333400),
           (''balanceAfter'', u64_to_string 444528)],
         Ev ''RebalanceExecuted''
          [(''epoch'', u64_to_string 15000),
           (''totalSwaps'', u64_to_string 2),
           (''maxDrift'', u64_to_string 6666),
           (''threshold'', u64_to_string 500)],
         Ev ''RebalanceSkipped''
          [(''reason'', ''Too soon''),
           (''waitMs'', u64_to_string 1800000)]],
      world =
        demo_ledger 1000000 0 0 0 300000000
        \<lparr>tokens :=
           (tokens (demo_ledger 1000000 0 0 0 300000000))
           (WMAS_ADDRESS := (\<lambda>account. 0)(VAULT := 444376),
              USDC_ADDRESS :=
                (\<lambda>account. 0)
                (BOB := 0, ALICE := 0, VAULT := 111096,
                   DUSA_ROUTER := 888904),
              WETH_ADDRESS := (\<lambda>account. 0)(VAULT := 444528)),
           coins := (\<lambda>account. 0)(VAULT := 260000000)\<rparr>\<rparr>"
  by (simp add: twice_rebalanced_def once_rebalanced_eq eval_defs rebalance_defs)

lemma two_holders_eq:
  "two_holders =
     \<lparr>store =
      (base_store 3333 3334 3333)
      (userSharesKey ALICE \<mapsto> u64_to_string 500000,
         REENTRANCY_GUARD_KEY := None,
         userSharesKey BOB \<mapsto> u64_to_string 500000,
         TOTAL_SHARES_KEY \<mapsto> u64_to_string 1000000),
      events =
        [constructor_event,
         Ev ''Deposit''
          [(''user'', ALICE), (''amount'', u64_to_string 500000),
           (''shares'', u64_to_string 500000)],
         Ev ''Deposit''
          [(''user'', BOB), (''amount'', u64_to_string 500000),
           (''shares'', u64_to_string 500000)]],
      world =
        demo_ledger 500000 500000 0 0 0
        \<lparr>tokens :=
           (tokens (demo_ledger 500000 500000 0 0 0))
           (USDC_ADDRESS :=
              (\<lambda>account. 0)(ALICE := 0, BOB := 0, VAULT := 1000000))\<rparr>\<rparr>"
  by (simp add: two_holders_def eval_defs)

lemma alice_redeemed_eq:
  "alice_redeemed =
     \<lparr>store =
      (base_store 3333 3334 3333)
      (REENTRANCY_GUARD_KEY := None,
         userSharesKey BOB \<mapsto> u64_to_string 500000,
         userSharesKey ALICE := None,
         TOTAL_SHARES_KEY \<mapsto> u64_to_string 500000),
      events =
        [constructor_event,
         Ev ''Deposit''
          [(''user'', ALICE), (''amount'', u64_to_string 500000),
           (''shares'', u64_to_string 500000)],
         Ev ''Deposit''
          [(''user'', BOB), (''amount'', u64_to_string 500000),
           (''shares'', u64_to_string 500000)],
         Ev ''RedeemExecuted''
          [(''shares'', u64_to_string 500000), (''toUSDC'', ''true''),
           (''usdcFinal'', u64_to_string 1000000)],
         Ev ''Withdraw''
          [(''user'', ALICE), (''shares'', u64_to_string 500000),
           (''wmas'', u64_to_string 0), (''weth'', u64_to_string 0),
           (''usdc'', u64_to_string 500000), (''toUSDC'', ''true'')]],
      world =
        demo_ledger 500000 500000 0 0 0
        \<lparr>tokens :=
           (tokens (demo_ledger 500000 500000 0 0 0))
           (USDC_ADDRESS :=
              (\<lambda>account. 0)(BOB := 0, VAULT := 0, ALICE := 1000000))\<rparr>\<rparr>"
  by (simp add: alice_redeemed_def two_holders_eq eval_defs)

lemma idle_rebalanced_eq:
  "idle_rebalanced =
     \<lparr>store =
      (base_store 3333 3334 3333)
      (userSharesKey ALICE \<mapsto> u64_to_string 1000000,
         TOTAL_SHARES_KEY \<mapsto> u64_to_string 1000000,
         REENTRANCY_GUARD_KEY := None, GUARD_ARMED_KEY \<mapsto> ''true'',
         LAST_REBALANCE_KEY \<mapsto> u64_to_string 5000,
         AUTON_SCHEDULED \<mapsto> ''true''),
      events =
        [constructor_event,
         Ev ''Deposit''
          [(''user'', ALICE), (''amount'', u64_to_string 1000000),
           (''shares'', u64_to_string 1000000)],
         Ev ''GuardArmed''
          [(''armed'', ''true''), (''reason'', ''Manual trigger'')],
         Ev ''TriggerRebalanceStarted''
          [(''caller'', BOB), (''timestamp'', u64_to_string 5000)],
         Ev ''DriftCalculated''
          [(''wmasCurrent'', u64_to_string 0),
           (''wethCurrent'', u64_to_string 0),
           (''usdcCurrent'', u64_to_string 10000),
           (''wmasDrift'', u64_to_string 3333),
           (''wethDrift'', u64_to_string 3334),
           (''usdcDrift'', u64_to_string 6667),
           (''maxDrift'', u64_to_string 6667)],
         Ev ''SwapExecuted''
          [(''tokenIn'', USDC_ADDRESS), (''tokenOut'', WMAS_ADDRESS),
           (''amountIn'', u64_to_string 333300),
           (''amountOut'', u256_to_string 1),
           (''balanceBefore'', u64_to_string 0),
           (''balanceAfter'', u64_to_string 0)],
         Ev ''MultiHopSwapExecuted''
          [(''amountIn'', u64_to_string 333400),
           (''amountOut'', u256_to_string 1),
           (''balanceBefore'', u64_to_string 0),
           (''balanceAfter'', u64_to_string 0)],
         Ev ''RebalanceExecuted''
          [(''epoch'', u64_to_string 5000),
           (''totalSwaps'', u64_to_string 2),
           (''maxDrift'', u64_to_string 6667),
           (''threshold'', u64_to_string 500)],
         Ev ''RebalanceSkipped''
          [(''reason'', ''Too soon''),
           (''waitMs'', u64_to_string 1800000)]],
      world =
        demo_ledger 1000000 0 0 0 300000000
        \<lparr>tokens :=
           (tokens (demo_ledger 1000000 0 0 0 300000000))
           (USDC_ADDRESS :=
              (\<lambda>account. 0)(BOB := 0, ALICE := 0, VAULT := 1000000))\<rparr>\<rparr>"
  by (simp add: idle_rebalanced_def funded_vault_eq eval_defs rebalance_defs)

lemma autonomous_vault_eq:
  "autonomous_vault =
     \<lparr>store =
      (base_store 3333 3334 3333)
      (userSharesKey ALICE \<mapsto> u64_to_string 1000000,
         TOTAL_SHARES_KEY \<mapsto> u64_to_string 1000000,
         REENTRANCY_GUARD_KEY := None, GUARD_ARMED_KEY \<mapsto> ''true'',
         DEFERRED_CALL_ID_KEY \<mapsto> ''D1'', AUTONOMOUS_MODE_ENABLED \<mapsto> ''true'',
         LAST_REBALANCE_KEY \<mapsto> u64_to_string 4000,
         NEXT_REBALANCE_TIMESTAMP_KEY \<mapsto> u64_to_string 1804000,
         DEFERRED_CALL_ACTIVE_KEY \<mapsto> ''true'',
         LAST_REBALANCE_STATUS_KEY \<mapsto> ''pending'', LAST_ERROR_KEY \<mapsto> [],
         REBALANCE_COUNT_KEY \<mapsto> ''0''),
      events =
        [constructor_event,
         Ev ''Deposit''
          [(''user'', ALICE), (''amount'', u64_to_string 1000000),
           (''shares'', u64_to_string 1000000)],
         Ev ''GuardArmed''
          [(''armed'', ''true''), (''reason'', ''Manual trigger'')],
         Ev ''AutonomousModeStarted''
          [(''deferredId'', ''D1''), (''targetSlot'', u64_to_string 4600),
           (''quote'', u64_to_string 1000000000),
           (''timestamp'', u64_to_string 4000),
           (''nextRebalance'', u64_to_string 1804000)]],
      world =
        demo_ledger 1000000 0 0 0 2500000000
        \<lparr>tokens :=
           (tokens (demo_ledger 1000000 0 0 0 2500000000))
           (USDC_ADDRESS :=
              (\<lambda>account. 0)(BOB := 0, ALICE := 0, VAULT := 1000000)),
           coins := (\<lambda>account. 0)(VAULT := 1500000000)\<rparr>\<rparr>"
  by (simp add: autonomous_vault_def funded_vault_eq eval_defs startAutonomousRebalancing_def balance_def)

lemma autonomy_stopped_eq:
  "autonomy_stopped =
     \<lparr>store =
      (base_store 3333 3334 3333)
      (userSharesKey ALICE \<mapsto> u64_to_string 1000000,
         TOTAL_SHARES_KEY \<mapsto> u64_to_string 1000000,
         REENTRANCY_GUARD_KEY := None, GUARD_ARMED_KEY \<mapsto> ''true'',
         DEFERRED_CALL_ID_KEY \<mapsto> ''D1'',
         NEXT_REBALANCE_TIMESTAMP_KEY \<mapsto> u64_to_string 1804000,
         DEFERRED_CALL_ACTIVE_KEY \<mapsto> ''true'',
         LAST_REBALANCE_STATUS_KEY \<mapsto> ''pending'', LAST_ERROR_KEY \<mapsto> [],
         REBALANCE_COUNT_KEY \<mapsto> ''0'',
         LAST_REBALANCE_KEY \<mapsto> u64_to_string 1900000,
         AUTON_SCHEDULED \<mapsto> ''true'', AUTONOMOUS_MODE_ENABLED \<mapsto> ''false''),
      events =
        [constructor_event,
         Ev ''Deposit''
          [(''user'', ALICE), (''amount'', u64_to_string 1000000),
           (''shares'', u64_to_string 1000000)],
         Ev ''GuardArmed''
          [(''armed'', ''true''), (''reason'', ''Manual trigger'')],
         Ev ''AutonomousModeStarted''
          [(''deferredId'', ''D1''), (''targetSlot'', u64_to_string 4600),
           (''quote'', u64_to_string 1000000000),
           (''timestamp'', u64_to_string 4000),
           (''nextRebalance'', u64_to_string 1804000)],
         Ev ''TriggerRebalanceStarted''
          [(''caller'', BOB), (''timestamp'', u64_to_string 1900000)],
         Ev ''DriftCalculated''
          [(''wmasCurrent'', u64_to_string 0),
           (''wethCurrent'', u64_to_string 0),
           (''usdcCurrent'', u64_to_string 10000),
           (''wmasDrift'', u64_to_string 3333),
           (''wethDrift'', u64_to_string 3334),
           (''usdcDrift'', u64_to_string 6667),
           (''maxDrift'', u64_to_string 6667)],
         Ev ''SwapExecuted''
          [(''tokenIn'', USDC_ADDRESS), (''tokenOut'', WMAS_ADDRESS),
           (''amountIn'', u64_to_string 333300),
           (''amountOut'', u256_to_string 333300),
           (''balanceBefore'', u64_to_string 0),
           (''balanceAfter'', u64_to_string 333300)],
         Ev ''MultiHopSwapExecuted''
          [(''amountIn'', u64_to_string 333400),
           (''amountOut'', u256_to_string 333400),
           (''balanceBefore'', u64_to_string 0),
           (''balanceAfter'', u64_to_string 333400)],
         Ev ''RebalanceExecuted''
          [(''epoch'', u64_to_string 1900000),
           (''totalSwaps'', u64_to_string 2),
           (''maxDrift'', u64_to_string 6667),
           (''threshold'', u64_to_string 500)],
         Ev ''RebalanceSkipped''
          [(''reason'', ''Too soon''),
           (''waitMs'', u64_to_string 1800000)],
         Ev ''AutonomousModeStopped''
          [(''reason'', ''Low gas bank''),
           (''balance'', u64_to_string 1 @ '' MAS''),
           (''minRequired'', ''2 MAS'')]],
      world =
        demo_ledger 1000000 0 0 0 2500000000
        \<lparr>tokens :=
           (tokens (demo_ledger 1000000 0 0 0 2500000000))
           (WMAS_ADDRESS := (\<lambda>account. 0)(VAULT := 333300),
              USDC_ADDRESS :=
                (\<lambda>account. 0)
                (BOB := 0, ALICE := 0, VAULT := 333300,
                   DUSA_ROUTER := 666700),
              WETH_ADDRESS := (\<lambda>account. 0)(VAULT := 333400)),
           coins := (\<lambda>account. 0)(VAULT := 1480000000)\<rparr>\<rparr>"
  by (simp add: autonomy_stopped_def autonomous_vault_eq eval_defs rebalance_defs)

lemma weth_vault_eq:
  "weth_vault =
     \<lparr>store =
      (base_store 3333 3334 3333)
      (userSharesKey ALICE \<mapsto> u64_to_string 1000000,
         TOTAL_SHARES_KEY \<mapsto> u64_to_string 1000000,
         REENTRANCY_GUARD_KEY := None),
      events =
        [constructor_event,
         Ev ''Deposit''
          [(''user'', ALICE), (''amount'', u64_to_string 1000000),
           (''shares'', u64_to_string 1000000)]],
      world =
        demo_ledger 1000000 0 0 1000000000000000000 0
        \<lparr>tokens :=
           (tokens (demo_ledger 1000000 0 0 1000000000000000000 0))
           (USDC_ADDRESS :=
              (\<lambda>account. 0)(BOB := 0, ALICE := 0, VAULT := 1000000))\<rparr>\<rparr>"
  by (simp add: weth_vault_def eval_defs)

lemma alice_left_eq:
  "alice_left =
     \<lparr>store =
      (base_store 3333 3334 3333)
      (REENTRANCY_GUARD_KEY := None, userSharesKey ALICE := None,
         TOTAL_SHARES_KEY \<mapsto> u64_to_string 0),
      events =
        [constructor_event,
         Ev ''Deposit''
          [(''user'', ALICE), (''amount'', u64_to_string 1000000),
           (''shares'', u64_to_string 1000000)],
         Ev ''RedeemExecuted''
          [(''shares'', u64_to_string 1000000),
           (''wmasOut'', u64_to_string 0),
           (''wethOut'', u64_to_string 2003764205206),
           (''usdcOut'', u64_to_string 1000000)],
         Ev ''Withdraw''
          [(''user'', ALICE), (''shares'', u64_to_string 1000000),
           (''wmas'', u64_to_string 0),
           (''weth'', u64_to_string 2003764205206),
           (''usdc'', u64_to_string 1000000), (''toUSDC'', ''false'')]],
      world =
        demo_ledger 1000000 0 0 1000000000000000000 0
        \<lparr>tokens :=
           (tokens (demo_ledger 1000000 0 0 1000000000000000000 0))
           (WETH_ADDRESS :=
              (\<lambda>account. 0)
              (VAULT := 999997996235794794, ALICE := 2003764205206),
              USDC_ADDRESS :=
                (\<lambda>account. 0)(BOB := 0, VAULT := 0, ALICE := 1000000))\<rparr>\<rparr>"
  by (simp add: alice_left_def weth_vault_eq eval_defs)

lemma first_big_deposit_eq:
  "first_big_deposit =
     \<lparr>store =
      (base_store 3333 3334 3333)
      (userSharesKey ALICE \<mapsto> u64_to_string 9223372036854775808,
         TOTAL_SHARES_KEY \<mapsto> u64_to_string 9223372036854775808,
         REENTRANCY_GUARD_KEY := None),
      events =
        [constructor_event,
         Ev ''Deposit''
          [(''user'', ALICE),
           (''amount'', u64_to_string 9223372036854775808),
           (''shares'', u64_to_string 9223372036854775808)]],
      world =
        demo_ledger 9223372036854775808 9223372036854775808 0 0 0
        \<lparr>tokens :=
           (tokens
             (demo_ledger 9223372036854775808 9223372036854775808 0 0 0))
           (USDC_ADDRESS :=
              (\<lambda>account. 0)
              (BOB := 9223372036854775808, ALICE := 0,
                 VAULT := 9223372036854775808))\<rparr>\<rparr>"
  by (simp add: first_big_deposit_def eval_defs)

lemma overflowed_vault_eq:
  "overflowed_vault =
     \<lparr>store =
      (base_store 3333 3334 3333)
      (userSharesKey ALICE \<mapsto> u64_to_string 9223372036854775808,
         REENTRANCY_GUARD_KEY := None,
         userSharesKey BOB \<mapsto> u64_to_string 9223372036854775808,
         TOTAL_SHARES_KEY \<mapsto> u64_to_string 0),
      events =
        [constructor_event,
         Ev ''Deposit''
          [(''user'', ALICE),
           (''amount'', u64_to_string 9223372036854775808),
           (''shares'', u64_to_string 9223372036854775808)],
         Ev ''Deposit''
          [(''user'', BOB),
           (''amount'', u64_to_string 9223372036854775808),
           (''shares'', u64_to_string 9223372036854775808)]],
      world =
        demo_ledger 9223372036854775808 9223372036854775808 0 0 0
        \<lparr>tokens :=
           (tokens
             (demo_ledger 9223372036854775808 9223372036854775808 0 0 0))
           (USDC_ADDRESS :=
              (\<lambda>account. 0)
              (ALICE := 0, BOB := 0, VAULT := 18446744073709551616))\<rparr>\<rparr>"
  by (simp add: overflowed_vault_def first_big_deposit_eq eval_defs)



lemma unguarded_vault_eq:
  "unguarded_vault =
     \<lparr>store =
      (base_store 3333 3334 3333)
      (userSharesKey ALICE \<mapsto> u64_to_string 1000000,
         TOTAL_SHARES_KEY \<mapsto> u64_to_string 1000000,
         REENTRANCY_GUARD_KEY := None),
      events =
        [constructor_event,
         Ev ''Deposit''
          [(''user'', ALICE), (''amount'', u64_to_string 1000000),
           (''shares'', u64_to_string 1000000)]],
      world =
        demo_ledger 1000000 0 0 0 2500000000
        \<lparr>tokens :=
           (tokens (demo_ledger 1000000 0 0 0 2500000000))
           (USDC_ADDRESS :=
              (\<lambda>account. 0)(BOB := 0, ALICE := 0, VAULT := 1000000))\<rparr>\<rparr>"
  by (simp add: unguarded_vault_def eval_defs)

lemma disarmed_vault_eq:
  "disarmed_vault =
     \<lparr>store =
      (base_store 3333 3334 3333)
      (userSharesKey ALICE \<mapsto> u64_to_string 1000000,
         TOTAL_SHARES_KEY \<mapsto> u64_to_string 1000000,
         REENTRANCY_GUARD_KEY := None, GUARD_ARMED_KEY \<mapsto> ''false''),
      events =
        [constructor_event,
         Ev ''Deposit''
          [(''user'', ALICE), (''amount'', u64_to_string 1000000),
           (''shares'', u64_to_string 1000000)],
         Ev ''GuardArmed''
          [(''armed'', ''false''), (''reason'', ''Manual trigger'')]],
      world =
        demo_ledger 1000000 0 0 0 2500000000
        \<lparr>tokens :=
           (tokens (demo_ledger 1000000 0 0 0 2500000000))
           (USDC_ADDRESS :=
              (\<lambda>account. 0)(BOB := 0, ALICE := 0, VAULT := 1000000))\<rparr>\<rparr>"
  by (simp add: disarmed_vault_def unguarded_vault_eq eval_defs setGuard_def)

lemma disarmed_started_eq:
  "disarmed_started =
     \<lparr>store =
      (base_store 3333 3334 3333)
      (userSharesKey ALICE \<mapsto> u64_to_string 1000000,
         TOTAL_SHARES_KEY \<mapsto> u64_to_string 1000000,
         REENTRANCY_GUARD_KEY := None, GUARD_ARMED_KEY \<mapsto> ''false'',
         DEFERRED_CALL_ID_KEY \<mapsto> ''D1'', AUTONOMOUS_MODE_ENABLED \<mapsto> ''true'',
         LAST_REBALANCE_KEY \<mapsto> u64_to_string 4000,
         NEXT_REBALANCE_TIMESTAMP_KEY \<mapsto> u64_to_string 1804000,
         DEFERRED_CALL_ACTIVE_KEY \<mapsto> ''true'',
         LAST_REBALANCE_STATUS_KEY \<mapsto> ''pending'', LAST_ERROR_KEY \<mapsto> [],
         REBALANCE_COUNT_KEY \<mapsto> ''0''),
      events =
        [constructor_event,
         Ev ''Deposit''
          [(''user'', ALICE), (''amount'', u64_to_string 1000000),
           (''shares'', u64_to_string 1000000)],
         Ev ''GuardArmed''
          [(''armed'', ''false''), (''reason'', ''Manual trigger'')],
         Ev ''AutonomousModeStarted''
          [(''deferredId'', ''D1''), (''targetSlot'', u64_to_string 4600),
           (''quote'', u64_to_string 1000000000),
           (''timestamp'', u64_to_string 4000),
           (''nextRebalance'', u64_to_string 1804000)]],
      world =
        demo_ledger 1000000 0 0 0 2500000000
        \<lparr>tokens :=
           (tokens (demo_ledger 1000000 0 0 0 2500000000))
           (USDC_ADDRESS :=
              (\<lambda>account. 0)(BOB := 0, ALICE := 0, VAULT := 1000000)),
           coins := (\<lambda>account. 0)(VAULT := 1500000000)\<rparr>\<rparr>"
  by (simp add: disarmed_started_def disarmed_vault_eq eval_defs startAutonomousRebalancing_def balance_def)


section \<open>The claims\<close>

subsection \<open>C1: epoch gating\<close>

text \<open>
  The epoch gate is in the entry point \<open>rebalance\<close>: a call that reaches it before
  \<open>lastRebalance + epochSeconds * 1000\<close> emits a skip event and changes nothing else.
\<close>

lemma rebalance_too_soon:
  assumes "store s OWNER_KEY = Some owner" and "caller c = owner \<or> caller c = callee c"
    and "store s TOTAL_SHARES_KEY = Some totalText" and "parse_u64 totalText \<noteq> 0"
    and "Storage_has (store s) GUARD_ARMED_KEY"
    and "\<not> balance h c s < 100000000"
    and "store s LAST_REBALANCE_KEY = Some lastText"
    and "store s REBALANCE_EPOCH_SECONDS_KEY = Some epochText"
    and "parse_u64 lastText > 0"
    and "timestamp c < parse_u64 lastText + parse_u64 epochText * 1000"
  shows "rebalance (Suc gas) h c s =
           Inr (generateEvent s
                  (Ev ''RebalanceSkipped''
                     [(''reason'', ''Too soon''),
                      (''waitMs'', u64_to_string
                         (parse_u64 lastText + parse_u64 epochText * 1000 - timestamp c))]))"
  using assms by (simp add: rebalance_body_def Storage_get_def Storage_has_def Let_def)

text \<open>
  C1 (not what the code does). Claim: of two calls of \<open>triggerRebalance\<close> less than
  \<open>epochSeconds\<close> apart, the second is a no-op skip. \<open>triggerRebalance\<close> calls
  \<open>executeRebalanceInternal\<close> without any gate. Here the epoch is 1800 seconds and Bob calls
  at times 5000 and 15000 (milliseconds): both calls complete, the second one stores a new
  time of last rebalance and swaps again, taking the vault's USDC from 333300 to 111096.
  The only skip event of the second call is the "Too soon" of the nested call of
  \<open>rebalance\<close>, made after the swaps.
\<close>

theorem trigger_rebalance_not_gated:
  "store once_rebalanced REBALANCE_EPOCH_SECONDS_KEY = Some ''1800''
   \<and> triggerRebalance 3 sim_host (ctx_of BOB 5000) (funded_vault 3333 3334 3333 300000000)
       = Inr once_rebalanced
   \<and> store once_rebalanced LAST_REBALANCE_KEY = Some (u64_to_string 5000)
   \<and> tokens (world once_rebalanced) USDC_ADDRESS VAULT = 333300
   \<and> triggerRebalance 3 sim_host (ctx_of BOB 15000) once_rebalanced = Inr twice_rebalanced
   \<and> store twice_rebalanced LAST_REBALANCE_KEY = Some (u64_to_string 15000)
   \<and> tokens (world twice_rebalanced) USDC_ADDRESS VAULT = 111096
   \<and> tokens (world twice_rebalanced) WMAS_ADDRESS VAULT = 444376
   \<and> tokens (world twice_rebalanced) WETH_ADDRESS VAULT = 444528
   \<and> drop 9 (events twice_rebalanced) =
       [Ev ''TriggerRebalanceStarted'' [(''caller'', BOB), (''timestamp'', u64_to_string 15000)],
        Ev ''DriftCalculated''
          [(''wmasCurrent'', u64_to_string 0), (''wethCurrent'', u64_to_string 0),
           (''usdcCurrent'', u64_to_string 9999), (''wmasDrift'', u64_to_string 3333),
           (''wethDrift'', u64_to_string 3334), (''usdcDrift'', u64_to_string 6666),
           (''maxDrift'', u64_to_string 6666)],
        Ev ''SwapExecuted''
          [(''tokenIn'', USDC_ADDRESS), (''tokenOut'', WMAS_ADDRESS),
           (''amountIn'', u64_to_string 111076), (''amountOut'', u256_to_string 111076),
           (''balanceBefore'', u64_to_string 333300), (''balanceAfter'', u64_to_string 444376)],
        Ev ''MultiHopSwapExecuted''
          [(''amountIn'', u64_to_string 111128), (''amountOut'', u256_to_string 111128),
           (''balanceBefore'', u64_to_string 333400), (''balanceAfter'', u64_to_string 444528)],
        Ev ''RebalanceExecuted''
          [(''epoch'', u64_to_string 15000), (''totalSwaps'', u64_to_string 2),
           (''maxDrift'', u64_to_string 6666), (''threshold'', u64_to_string 500)],
        Ev ''RebalanceSkipped''
          [(''reason'', ''Too soon''), (''waitMs'', u64_to_string 1800000)]]"
proof -
  have 1: "triggerRebalance 3 sim_host (ctx_of BOB 5000) (funded_vault 3333 3334 3333 300000000)
           = Inr once_rebalanced"
    by (simp add: once_rebalanced_eq funded_vault_eq eval_defs rebalance_defs)
  have 2: "triggerRebalance 3 sim_host (ctx_of BOB 15000) once_rebalanced = Inr twice_rebalanced"
    by (simp add: twice_rebalanced_eq) (simp add: once_rebalanced_eq eval_defs rebalance_defs)
  show ?thesis
    unfolding 1 2 by (simp add: once_rebalanced_eq twice_rebalanced_eq)
qed

subsection \<open>C2: redeeming to the base asset\<close>

text \<open>
  C2 (not what the code does). Claim: \<open>redeem(shares, true)\<close> pays the holder their own
  payout (their share of the USDC plus the proceeds of their swaps) and leaves the other
  holders' USDC in the vault. The code keeps that sum in \<open>totalUSDC\<close> and then transfers
  \<open>finalUsdc\<close>, the vault's whole USDC balance. Here Alice and Bob hold 500,000 shares each
  of a vault with 1,000,000 units of USDC and nothing else: Alice redeems her half and
  receives all 1,000,000; Bob keeps 500,000 shares of an empty vault.
\<close>

theorem redeem_to_usdc_drains_vault:
  "getUserShares two_holders ALICE = u64_to_string 500000
   \<and> getUserShares two_holders BOB = u64_to_string 500000
   \<and> store two_holders TOTAL_SHARES_KEY = Some (u64_to_string 1000000)
   \<and> tokens (world two_holders) USDC_ADDRESS VAULT = 1000000
   \<and> tokens (world two_holders) USDC_ADDRESS ALICE = 0
   \<and> redeem sim_host (ctx_of ALICE 4000) two_holders 500000 True = Inr alice_redeemed
   \<and> tokens (world alice_redeemed) USDC_ADDRESS ALICE = 1000000
   \<and> tokens (world alice_redeemed) USDC_ADDRESS VAULT = 0
   \<and> getUserShares alice_redeemed BOB = u64_to_string 500000
   \<and> store alice_redeemed TOTAL_SHARES_KEY = Some (u64_to_string 500000)"
proof -
  have 1: "redeem sim_host (ctx_of ALICE 4000) two_holders 500000 True = Inr alice_redeemed"
    by (simp add: alice_redeemed_eq) (simp add: two_holders_eq eval_defs)
  show ?thesis
    unfolding 1
    by (simp add: two_holders_eq alice_redeemed_eq getUserShares_def Storage_get_or_def
        Storage_has_def)
qed

subsection \<open>C3: checking the balance after a swap\<close>

text \<open>
  C3 (not what the code does). Claim: after each swap leg the executor requires the
  destination balance to have increased, and aborts the rebalance otherwise. Both helpers
  read the balance again, but the \<open>assert\<close> is commented out ("DISABLED FOR DEBUGGING").
  Here the router reports both swaps as done and moves nothing: the call completes, both
  events show the destination balance at 0 before and after, and two swaps are counted.
\<close>

theorem idle_router_rebalance_completes:
  "triggerRebalance 3 idle_router_host (ctx_of BOB 5000)
     (funded_vault 3333 3334 3333 300000000) = Inr idle_rebalanced
   \<and> tokens (world idle_rebalanced) WMAS_ADDRESS VAULT = 0
   \<and> tokens (world idle_rebalanced) WETH_ADDRESS VAULT = 0
   \<and> tokens (world idle_rebalanced) USDC_ADDRESS VAULT = 1000000
   \<and> take 3 (drop 5 (events idle_rebalanced)) =
       [Ev ''SwapExecuted''
          [(''tokenIn'', USDC_ADDRESS), (''tokenOut'', WMAS_ADDRESS),
           (''amountIn'', u64_to_string 333300), (''amountOut'', u256_to_string 1),
           (''balanceBefore'', u64_to_string 0), (''balanceAfter'', u64_to_string 0)],
        Ev ''MultiHopSwapExecuted''
          [(''amountIn'', u64_to_string 333400), (''amountOut'', u256_to_string 1),
           (''balanceBefore'', u64_to_string 0), (''balanceAfter'', u64_to_string 0)],
        Ev ''RebalanceExecuted''
          [(''epoch'', u64_to_string 5000), (''totalSwaps'', u64_to_string 2),
           (''maxDrift'', u64_to_string 6667), (''threshold'', u64_to_string 500)]]"
proof -
  have 1: "triggerRebalance 3 idle_router_host (ctx_of BOB 5000)
             (funded_vault 3333 3334 3333 300000000) = Inr idle_rebalanced"
    by (simp add: idle_rebalanced_eq) (simp add: funded_vault_eq eval_defs rebalance_defs)
  show ?thesis
    unfolding 1 by (simp add: idle_rebalanced_eq)
qed

subsection \<open>C4: autonomy stops when the gas bank is low\<close>

text \<open>
  C4 (not what the code does). Claim: with the gas bank below \<open>MIN_RESERVE\<close> at re-arm
  time, \<open>triggerRebalance\<close> emits \<open>AutonomousModeStopped\<close>, leaves the enabled flag false, so
  that the status query reports autonomy disabled, and completes. The call does complete
  and emit the event, and it writes the text \<open>false\<close> under \<open>AUTONOMOUS_MODE_ENABLED\<close>; but
  every reader of the flag (\<open>getAutonomousStatus\<close>, \<open>isAutonomousScheduled\<close> and
  \<open>triggerRebalance\<close> itself) tests \<open>Storage.has\<close>, so autonomy is still reported enabled.
\<close>

theorem autonomy_stop_leaves_flag_set:
  "isAutonomousScheduled autonomous_vault
   \<and> balance sim_host (ctx_of BOB 1900000) autonomous_vault = 1500000000
   \<and> MIN_GAS_BANK_BALANCE = 2000000000
   \<and> triggerRebalance 3 sim_host (ctx_of BOB 1900000) autonomous_vault = Inr autonomy_stopped
   \<and> last (events autonomy_stopped) =
       Ev ''AutonomousModeStopped''
         [(''reason'', ''Low gas bank''), (''balance'', u64_to_string 1 @ '' MAS''),
          (''minRequired'', ''2 MAS'')]
   \<and> store autonomy_stopped AUTONOMOUS_MODE_ENABLED = Some ''false''
   \<and> autonomousEnabled (getAutonomousStatus sim_host (ctx_of BOB 2000000) autonomy_stopped)
   \<and> isAutonomousScheduled autonomy_stopped"
proof -
  have 1: "triggerRebalance 3 sim_host (ctx_of BOB 1900000) autonomous_vault
           = Inr autonomy_stopped"
    by (simp add: autonomy_stopped_eq) (simp add: autonomous_vault_eq eval_defs rebalance_defs)
  show ?thesis
    unfolding 1
    by (simp add: autonomous_vault_eq autonomy_stopped_eq isAutonomousScheduled_def
        getAutonomousStatus_def Storage_has_def balance_def MIN_GAS_BANK_BALANCE_def ctx_of_def)
qed

subsection \<open>C5: proportional redemption\<close>

text \<open>
  C5 (not what the code does). Claim: \<open>redeem(s, false)\<close> pays of each asset exactly the
  floor of \<open>s * assetBalance / TotalShares\<close>. The source computes the holder's
  "proportional share of each token" as \<open>(shares * tokenBalance) / totalShares\<close> in 64-bit
  arithmetic, and the product wraps at ordinary sizes: shares have 6 decimals and WETH has
  18. Here the vault holds one WETH (\<open>10^18\<close> units) and Alice holds all 1,000,000 shares
  (one USDC deposited): \<open>10^6 * 10^18\<close> wraps to 2003764205206896640, so she is paid
  2003764205206 units of WETH, not \<open>10^18\<close>, and the rest stays in a vault with no shares.
\<close>

theorem redeem_product_wraps:
  "getUserShares weth_vault ALICE = u64_to_string 1000000
   \<and> store weth_vault TOTAL_SHARES_KEY = Some (u64_to_string 1000000)
   \<and> tokens (world weth_vault) WETH_ADDRESS VAULT = 1000000000000000000
   \<and> redeem sim_host (ctx_of ALICE 3000) weth_vault 1000000 False = Inr alice_left
   \<and> tokens (world alice_left) WETH_ADDRESS ALICE = 2003764205206
   \<and> tokens (world alice_left) WETH_ADDRESS VAULT = 999997996235794794
   \<and> tokens (world alice_left) USDC_ADDRESS ALICE = 1000000
   \<and> store alice_left TOTAL_SHARES_KEY = Some (u64_to_string 0)"
proof -
  have 1: "redeem sim_host (ctx_of ALICE 3000) weth_vault 1000000 False = Inr alice_left"
    by (simp add: alice_left_eq) (simp add: weth_vault_eq eval_defs)
  show ?thesis
    unfolding 1
    by (simp add: weth_vault_eq alice_left_eq getUserShares_def Storage_get_or_def
        Storage_has_def)
qed

subsection \<open>C6: the share invariant\<close>

text \<open>
  C6, as claimed, fails: the total and the records are 64-bit numbers and their sums
  wrap. On a freshly constructed vault Alice and Bob deposit \<open>2^63\<close> units each and both
  calls complete: the two holders have \<open>2^63\<close> shares each, \<open>2^64\<close> in sum, and the
  stored total is 0.
\<close>

theorem share_total_wraps:
  "constructor ((ctx_of OWNER 1000)\<lparr>isDeployingContract := True\<rparr>)
     (demo_ledger 9223372036854775808 9223372036854775808 0 0 0) (demo_args 3333 3334 3333)
     = Inr (deployed 3333 3334 3333 (demo_ledger 9223372036854775808 9223372036854775808 0 0 0))
   \<and> deposit sim_host (ctx_of ALICE 2000)
       (deployed 3333 3334 3333 (demo_ledger 9223372036854775808 9223372036854775808 0 0 0))
       9223372036854775808 = Inr first_big_deposit
   \<and> deposit sim_host (ctx_of BOB 3000) first_big_deposit 9223372036854775808
       = Inr overflowed_vault
   \<and> holders overflowed_vault = {ALICE, BOB}
   \<and> getUserShares overflowed_vault ALICE = u64_to_string 9223372036854775808
   \<and> getUserShares overflowed_vault BOB = u64_to_string 9223372036854775808
   \<and> holderSum overflowed_vault = 18446744073709551616
   \<and> store overflowed_vault TOTAL_SHARES_KEY = Some (u64_to_string 0)
   \<and> storedTotalShares overflowed_vault = 0"
proof -
  have 0: "constructor ((ctx_of OWNER 1000)\<lparr>isDeployingContract := True\<rparr>)
     (demo_ledger 9223372036854775808 9223372036854775808 0 0 0) (demo_args 3333 3334 3333)
     = Inr (deployed 3333 3334 3333 (demo_ledger 9223372036854775808 9223372036854775808 0 0 0))"
    by (rule constructor_demo) simp
  have 1: "deposit sim_host (ctx_of ALICE 2000)
     (deployed 3333 3334 3333 (demo_ledger 9223372036854775808 9223372036854775808 0 0 0))
     9223372036854775808 = Inr first_big_deposit"
    by (simp add: first_big_deposit_eq) (simp add: eval_defs)
  have 2: "deposit sim_host (ctx_of BOB 3000) first_big_deposit 9223372036854775808
           = Inr overflowed_vault"
    by (simp add: overflowed_vault_eq first_big_deposit_eq eval_defs) (simp add: fun_eq_iff)
  have 3: "holders overflowed_vault = {ALICE, BOB}"
    by (auto simp: holders_def overflowed_vault_eq Storage_has_def)
  have 4: "getUserShares overflowed_vault ALICE = u64_to_string 9223372036854775808"
    "getUserShares overflowed_vault BOB = u64_to_string 9223372036854775808"
    by (simp_all add: overflowed_vault_eq getUserShares_def Storage_get_or_def Storage_has_def)
  have 5: "holderSum overflowed_vault = 18446744073709551616"
    by (simp add: holderSum_def 3 holderShares_def 4)
  have 6: "store overflowed_vault TOTAL_SHARES_KEY = Some (u64_to_string 0)"
    by (simp add: overflowed_vault_eq)
  have 7: "storedTotalShares overflowed_vault = 0"
    by (simp add: storedTotalShares_def 6 Storage_get_or_def Storage_has_def)
  from 0 1 2 3 4 5 6 7 show ?thesis by (intro conjI)
qed

text \<open>
  C6, amended. For every sequence of operations (deposits and redeems among them, by any
  callers) starting from the freshly constructed vault, after every operation the holders
  are finitely many and the stored \<open>TotalShares\<close> equals the sum of all per-holder share
  balances modulo \<open>2^64\<close>: the two are equal whenever that sum is below \<open>2^64\<close>. The
  balances are unsigned 64-bit numbers, never negative.
\<close>

theorem share_invariant_mod:
  assumes "constructor c0 w a = Inr s0"
  shows "finite (holders (run h s0 ts))
       \<and> unat (storedTotalShares (run h s0 ts)) = holderSum (run h s0 ts) mod 2 ^ 64"
proof -
  from constructor_shares[OF assms]
  have "finite (holders s0)" and "storedTotalShares s0 = (\<Sum>a\<in>holders s0. holderShares s0 a)"
    by simp_all
  from run_shares[OF this, of h ts] show ?thesis
    by (simp add: holderSum_def word_sum_unat)
qed

theorem share_invariant_mod_witness:
  "finite (holders two_holders)
   \<and> unat (storedTotalShares two_holders) = holderSum two_holders mod 2 ^ 64"
proof -
  have h: "constructor ((ctx_of OWNER 1000)\<lparr>isDeployingContract := True\<rparr>)
             (demo_ledger 500000 500000 0 0 0) (demo_args 3333 3334 3333)
           = Inr (deployed 3333 3334 3333 (demo_ledger 500000 500000 0 0 0))"
    by (rule constructor_demo) simp
  show ?thesis
    unfolding two_holders_def by (rule share_invariant_mod[OF h])
qed

subsection \<open>C7: verifying the transfer of a deposit\<close>





subsection \<open>C8: starting autonomy without shares or without the guard\<close>

text \<open>
  C8, as claimed, fails, in two ways. The owner's call on a vault with no shares is no
  revert: it returns normally and leaves an \<open>AutonomousStartSkipped\<close> event. And after the
  owner has switched the guard off with \<open>setGuard(false)\<close>, which stores the text \<open>false\<close>,
  the owner's call is not even skipped: \<open>startAutonomousRebalancing\<close> tests only that a
  guard value is stored, registers the deferred call and enables autonomy.
\<close>

theorem start_autonomy_no_revert:
  "startAutonomousRebalancing sim_host (ctx_of OWNER 2000) demo_vault =
     Inr (generateEvent demo_vault
            (Ev ''AutonomousStartSkipped'' [(''reason'', ''No deposits in vault'')]))
   \<and> setGuard (ctx_of OWNER 3000) unguarded_vault False = Inr disarmed_vault
   \<and> store disarmed_vault GUARD_ARMED_KEY = Some ''false''
   \<and> storedTotalShares disarmed_vault = 1000000
   \<and> \<not> isAutonomousScheduled disarmed_vault
   \<and> startAutonomousRebalancing sim_host (ctx_of OWNER 4000) disarmed_vault
       = Inr disarmed_started
   \<and> isAutonomousScheduled disarmed_started
   \<and> store disarmed_started DEFERRED_CALL_ID_KEY = Some ''D1''
   \<and> store disarmed_started DEFERRED_CALL_ACTIVE_KEY = Some ''true''
   \<and> last (events disarmed_started) =
       Ev ''AutonomousModeStarted''
         [(''deferredId'', ''D1''), (''targetSlot'', u64_to_string 4600),
          (''quote'', u64_to_string 1000000000), (''timestamp'', u64_to_string 4000),
          (''nextRebalance'', u64_to_string 1804000)]"
proof -
  have 1: "startAutonomousRebalancing sim_host (ctx_of OWNER 2000) demo_vault =
     Inr (generateEvent demo_vault
            (Ev ''AutonomousStartSkipped'' [(''reason'', ''No deposits in vault'')]))"
    by (simp add: demo_vault_def eval_defs startAutonomousRebalancing_def)
  have 2: "setGuard (ctx_of OWNER 3000) unguarded_vault False = Inr disarmed_vault"
    by (simp add: disarmed_vault_eq unguarded_vault_eq eval_defs setGuard_def)
  have 3: "startAutonomousRebalancing sim_host (ctx_of OWNER 4000) disarmed_vault
           = Inr disarmed_started"
    by (simp add: disarmed_started_eq)
       (simp add: disarmed_vault_eq eval_defs startAutonomousRebalancing_def balance_def)
  have 4: "store disarmed_vault GUARD_ARMED_KEY = Some ''false''"
    "storedTotalShares disarmed_vault = 1000000"
    "\<not> isAutonomousScheduled disarmed_vault"
    by (simp_all add: disarmed_vault_eq storedTotalShares_def isAutonomousScheduled_def
        Storage_get_or_def Storage_has_def)
  have 5: "isAutonomousScheduled disarmed_started"
    "store disarmed_started DEFERRED_CALL_ID_KEY = Some ''D1''"
    "store disarmed_started DEFERRED_CALL_ACTIVE_KEY = Some ''true''"
    "last (events disarmed_started) =
       Ev ''AutonomousModeStarted''
         [(''deferredId'', ''D1''), (''targetSlot'', u64_to_string 4600),
          (''quote'', u64_to_string 1000000000), (''timestamp'', u64_to_string 4000),
          (''nextRebalance'', u64_to_string 1804000)]"
    by (simp_all add: disarmed_started_eq isAutonomousScheduled_def Storage_has_def)
  from 1 2 3 4 5 show ?thesis by (intro conjI)
qed

text \<open>
  C8, amended. For every call of \<open>startAutonomousRebalancing\<close> by the owner with
  \<open>TotalShares = 0\<close>, or with no guard value stored (the guard as \<open>getGuardStatus\<close> reports
  it), the call is no revert: it returns normally, having emitted one
  \<open>AutonomousStartSkipped\<close> event with the reason, "No deposits in vault" when there are no
  shares and "Guard not armed" otherwise, and changed nothing else, so that no schedule
  record is created and autonomy is not enabled. What the call does once \<open>setGuard(false)\<close>
  has stored a guard value is no part of this statement.
\<close>

theorem start_autonomy_skips:
  assumes "store s OWNER_KEY = Some (caller c)"
    and "storedTotalShares s = 0 \<or> \<not> getGuardStatus s"
  shows "startAutonomousRebalancing h c s =
           Inr (generateEvent s
                  (Ev ''AutonomousStartSkipped''
                     [(''reason'', if storedTotalShares s = 0 then ''No deposits in vault''
                                   else ''Guard not armed'')]))"
  using assms
  by (auto simp: startAutonomousRebalancing_def Storage_get_def Let_def storedTotalShares_def
      getGuardStatus_def)

theorem start_autonomy_skips_witness:
  "startAutonomousRebalancing sim_host (ctx_of OWNER 2000) demo_vault =
     Inr (generateEvent demo_vault
            (Ev ''AutonomousStartSkipped'' [(''reason'', ''No deposits in vault'')]))
   \<and> startAutonomousRebalancing sim_host (ctx_of OWNER 4000) unguarded_vault =
       Inr (generateEvent unguarded_vault
              (Ev ''AutonomousStartSkipped'' [(''reason'', ''Guard not armed'')]))
   \<and> storedTotalShares unguarded_vault = 1000000
   \<and> \<not> getGuardStatus unguarded_vault
   \<and> \<not> isAutonomousScheduled
         (generateEvent unguarded_vault
            (Ev ''AutonomousStartSkipped'' [(''reason'', ''Guard not armed'')]))"
proof -
  have o1: "store demo_vault OWNER_KEY = Some (caller (ctx_of OWNER 2000))"
    by (simp add: demo_vault_def deployed_def ctx_of_def)
  have t1: "storedTotalShares demo_vault = 0"
    by (simp add: demo_vault_def deployed_def storedTotalShares_def Storage_get_or_def
        Storage_has_def)
  have o2: "store unguarded_vault OWNER_KEY = Some (caller (ctx_of OWNER 4000))"
    by (simp add: unguarded_vault_eq ctx_of_def)
  have t2: "storedTotalShares unguarded_vault = 1000000"
    by (simp add: unguarded_vault_eq storedTotalShares_def Storage_get_or_def Storage_has_def)
  have g2: "\<not> getGuardStatus unguarded_vault"
    by (simp add: unguarded_vault_eq getGuardStatus_def Storage_has_def)
  have a2: "\<not> isAutonomousScheduled
         (generateEvent unguarded_vault
            (Ev ''AutonomousStartSkipped'' [(''reason'', ''Guard not armed'')]))"
    by (simp add: unguarded_vault_eq isAutonomousScheduled_def Storage_has_def)
  from start_autonomy_skips[of demo_vault "ctx_of OWNER 2000" sim_host, OF o1] t1
  have 1: "startAutonomousRebalancing sim_host (ctx_of OWNER 2000) demo_vault =
     Inr (generateEvent demo_vault
            (Ev ''AutonomousStartSkipped'' [(''reason'', ''No deposits in vault'')]))"
    by simp
  from start_autonomy_skips[of unguarded_vault "ctx_of OWNER 4000" sim_host, OF o2] t2 g2
  have 2: "startAutonomousRebalancing sim_host (ctx_of OWNER 4000) unguarded_vault =
       Inr (generateEvent unguarded_vault
              (Ev ''AutonomousStartSkipped'' [(''reason'', ''Guard not armed'')]))"
    by simp
  from 1 2 t2 g2 a2 show ?thesis by (intro conjI)
qed

subsection \<open>C9: how much a swap leg takes\<close>





lemma bounded_router_fields [simp]:
  "balanceOf (bounded_router lo hi h) = balanceOf h"
  "increaseAllowance (bounded_router lo hi h) = increaseAllowance h"
  "coin_balance (bounded_router lo hi h) = coin_balance h"
  "swapExactTokensForTokens (bounded_router lo hi h) w sender a fee
     = (if lo \<le> unat (amountInArg a) \<and> unat (amountInArg a) \<le> hi
        then swapExactTokensForTokens h w sender a fee else None)"
  by (simp_all add: bounded_router_def)

lemma bounded_router_reads [simp]:
  "getTokenBalance (bounded_router lo hi h) = getTokenBalance h"
  "getTokenBalanceString (bounded_router lo hi h) = getTokenBalanceString h"
  "approveToken (bounded_router lo hi h) = approveToken h"
  "balance (bounded_router lo hi h) = balance h"
  "scheduleNextRebalance self (bounded_router lo hi h) = scheduleNextRebalance self h"
  by (simp_all add: fun_eq_iff getTokenBalance_def getTokenBalanceString_def approveToken_def
      balance_def scheduleNextRebalance_def)







subsection \<open>C10: the pause latch\<close>

text \<open>
  C10. After any sequence of calls that contains a successful \<open>pause\<close> and, later, a
  successful \<open>unpause\<close>, the vault still behaves as paused, whatever is called in between
  and afterwards: \<open>unpause\<close> has written the text \<open>false\<close> under the pause key without
  deleting it, \<open>isPaused\<close> (which tests the key's presence) answers true, and \<open>deposit\<close>
  aborts with "Contract is paused".
\<close>

theorem pause_latch:
  assumes "pause c1 s0 = Inr s1"
    and "unpause c2 (run h s1 before) = Inr s2"
  shows "store s2 PAUSED_KEY = Some ''false''
       \<and> isPaused (run h s2 after)
       \<and> deposit h c (run h s2 after) amount = Inl (Abort ''Contract is paused'')"
proof -
  from assms(2) have v: "store s2 PAUSED_KEY = Some ''false''"
    by (auto simp: unpause_def bindR_eq_Inr)
  from assms(2) have "isPaused s2" by (rule unpause_keeps)
  then have "isPaused (run h s2 after)" by (rule run_keeps_paused)
  with v show ?thesis by (simp add: deposit_paused)
qed

text \<open>
  The owner pauses the example vault and unpauses it; then the owner arms the guard and
  Alice tries to deposit.
\<close>

theorem pause_latch_witness:
  "store unpaused_vault PAUSED_KEY = Some ''false''
   \<and> isPaused (run sim_host unpaused_vault [tx_of OWNER 4000 (SetGuard True)])
   \<and> deposit sim_host (ctx_of ALICE 5000)
        (run sim_host unpaused_vault [tx_of OWNER 4000 (SetGuard True)]) 500000
      = Inl (Abort ''Contract is paused'')"
proof -
  have h1: "pause (ctx_of OWNER 2000) demo_vault = Inr paused_vault"
    by (simp add: pause_def Storage_get_def demo_vault_def paused_vault_def deployed_def
        ctx_of_def)
  have h2: "unpause (ctx_of OWNER 3000) (run sim_host paused_vault []) = Inr unpaused_vault"
    by (simp add: unpause_def Storage_get_def demo_vault_def paused_vault_def
        unpaused_vault_def deployed_def ctx_of_def run_def)
  show ?thesis
    by (rule pause_latch[OF h1 h2])
qed

end
